theory Spec2Isabelle
  imports Main "HOL-Library.Signed_Division"
begin

section \<open>Volumetric convolution by unfold and matrix product (ConvolutionMM3d.cpp)\<close>

text \<open>
  The development embeds \<^verbatim>\<open>aten/src/ATen/native/ConvolutionMM3d.cpp\<close>.

  Modelling conventions.
  \<^item> A defined tensor is a record of its sizes and of its elements in row-major order;
    strides are not modelled, so every tensor of the model is dense and
    \<^verbatim>\<open>contiguous()\<close> is the identity. A possibly undefined \<^verbatim>\<open>Tensor\<close> argument is an
    \<open>option\<close>.
  \<^item> \<^verbatim>\<open>int64_t\<close> parameters are mathematical integers (signed overflow is undefined
    behaviour in C++ and lies outside the model); tensor sizes are naturals.
  \<^item> Scalars are elements of a semiring with exact arithmetic; rounding is not modelled.
  \<^item> Every \<^verbatim>\<open>TORCH_CHECK\<close> failure is the error value \<open>InvalidArgument\<close> tagged with the
    check that raised it. A procedure that mutates its tensor arguments returns the
    raised error (if any) together with the tensors as they are when it returns or
    raises.
  \<^item> \<^verbatim>\<open>at::parallel_for\<close> is run as one sequential loop over the batch index.
\<close>

subsection \<open>Tensors and errors\<close>

record 'a Tensor =
  sizes :: "nat list"
  data :: "'a list"

datatype reason =
    KernelSizeNotPositive
  | StrideNotPositive
  | WeightNot2DOr5D
  | WeightUndefined
  | InputNot5DNonEmpty
  | KernelLargerThanInput
  | OutputTooSmall
  | DimSizeMismatch
  | BiasEmpty
  | NotContiguous
  | MatrixShapeMismatch
  | IndexOutOfRange
  | UndefinedTensor

datatype error = InvalidArgument reason

definition dim :: "'a Tensor \<Rightarrow> nat" where
  "dim t = length (sizes t)"

definition numel :: "'a Tensor \<Rightarrow> nat" where
  "numel t = prod_list (sizes t)"

definition tsize :: "'a Tensor \<Rightarrow> nat \<Rightarrow> nat" where
  "tsize t i = sizes t ! i"

definition well_formed :: "'a Tensor \<Rightarrow> bool" where
  "well_formed t = (length (data t) = numel t)"

definition TORCH_CHECK :: "bool \<Rightarrow> reason \<Rightarrow> error + unit" where
  "TORCH_CHECK cond r = (if cond then Inr () else Inl (InvalidArgument r))"

definition and_then :: "error + unit \<Rightarrow> (error + 'b) \<Rightarrow> error + 'b" where
  "and_then c k = (case c of Inl e \<Rightarrow> Inl e | Inr _ \<Rightarrow> k)"

text \<open>
  Modelled from the spec: \<^verbatim>\<open>check_dim_size\<close> (ATen/TensorUtils.h is not among the
  sources). It fails unless the tensor has the given rank and the given size in the
  given dimension.
\<close>

definition check_dim_size :: "'a Tensor \<Rightarrow> nat \<Rightarrow> nat \<Rightarrow> int \<Rightarrow> error + unit" where
  "check_dim_size tensor dm dim_size sz =
     TORCH_CHECK (dim tensor = dm \<and> int (tsize tensor dim_size) = sz) DimSizeMismatch"

text \<open>
  Modelled from the spec: \<^verbatim>\<open>div_rtn\<close> (ATen/div_rtn.h is not among the sources),
  integer division rounding towards negative infinity.
\<close>

definition div_rtn :: "int \<Rightarrow> int \<Rightarrow> int" where
  "div_rtn x y = x div y"

subsection \<open>Shape validation\<close>

definition slow_conv3d_shape_check ::
  "'a Tensor \<Rightarrow> 'a Tensor option \<Rightarrow> 'a Tensor option \<Rightarrow> 'a Tensor option \<Rightarrow>
   int \<Rightarrow> int \<Rightarrow> int \<Rightarrow> int \<Rightarrow> int \<Rightarrow> int \<Rightarrow> int \<Rightarrow> int \<Rightarrow> int \<Rightarrow> bool \<Rightarrow> error + unit" where
  "slow_conv3d_shape_check input grad_output weight bias
     kernel_depth kernel_height kernel_width
     stride_depth stride_height stride_width
     pad_depth pad_height pad_width weight_optional =
   and_then (TORCH_CHECK (kernel_width > 0 \<and> kernel_height > 0 \<and> kernel_depth > 0)
               KernelSizeNotPositive)
  (and_then (TORCH_CHECK (stride_width > 0 \<and> stride_height > 0 \<and> stride_depth > 0)
               StrideNotPositive)
  (and_then
     (case weight of
        Some w \<Rightarrow>
          and_then (TORCH_CHECK (numel w > 0 \<and> (dim w = 2 \<or> dim w = 5)) WeightNot2DOr5D)
            (case bias of
               Some b \<Rightarrow> check_dim_size b 1 0 (int (tsize w 0))
             | None \<Rightarrow> Inr ())
      | None \<Rightarrow> TORCH_CHECK weight_optional WeightUndefined)
  (let ndim = dim input;
       dim_batch = 0;
       dim_planes = 1;
       dim_depth = 2;
       dim_height = 3;
       dim_width = 4;
       valid_empty = (ndim = 5 \<and> tsize input dim_batch = 0 \<and>
          tsize input dim_planes \<noteq> 0 \<and> tsize input dim_depth \<noteq> 0 \<and>
          tsize input dim_height \<noteq> 0 \<and> tsize input dim_width \<noteq> 0)
   in
   and_then (TORCH_CHECK ((numel input > 0 \<or> valid_empty) \<and> ndim = 5) InputNot5DNonEmpty)
  (let input_depth = int (tsize input dim_depth);
       input_height = int (tsize input dim_height);
       input_width = int (tsize input dim_width);
       exact_input_depth = input_depth + 2 * pad_depth;
       exact_input_height = input_height + 2 * pad_height;
       exact_input_width = input_width + 2 * pad_width
   in
   and_then (TORCH_CHECK (exact_input_depth \<ge> kernel_depth \<and>
                          exact_input_height \<ge> kernel_height \<and>
                          exact_input_width \<ge> kernel_width) KernelLargerThanInput)
  (let output_depth = div_rtn (exact_input_depth - kernel_depth) stride_depth + 1;
       output_height = div_rtn (exact_input_height - kernel_height) stride_height + 1;
       output_width = div_rtn (exact_input_width - kernel_width) stride_width + 1
   in
   and_then (TORCH_CHECK (output_depth \<ge> 1 \<and> output_width \<ge> 1 \<and> output_height \<ge> 1)
               OutputTooSmall)
  (and_then
     (case weight of
        Some w \<Rightarrow>
          (let n_input_plane = int (tsize w 1);
               n_input_plane = (if dim w = 2
                                then n_input_plane sdiv (kernel_height * kernel_width)
                                else n_input_plane)
           in check_dim_size input ndim dim_planes n_input_plane)
      | None \<Rightarrow> Inr ())
     (case grad_output of
        Some go \<Rightarrow>
          and_then
            (case weight of
               Some w \<Rightarrow>
                 (let n_output_plane = int (tsize w 0)
                  in check_dim_size go ndim dim_planes n_output_plane)
             | None \<Rightarrow>
                 (case bias of
                    Some b \<Rightarrow>
                      and_then (TORCH_CHECK (numel b > 0) BiasEmpty)
                        (let n_output_plane = (if dim b = 0 then 1 else int (tsize b 0))
                         in check_dim_size go ndim dim_planes n_output_plane)
                  | None \<Rightarrow> Inr ()))
            (and_then (check_dim_size go ndim dim_depth output_depth)
            (and_then (check_dim_size go ndim dim_height output_height)
                      (check_dim_size go ndim dim_width output_width)))
      | None \<Rightarrow> Inr ())))))))"

subsection \<open>Dense-array primitives\<close>

text \<open>
  Modelled from the spec: the operations of the dense-array abstraction (\<^verbatim>\<open>resize_\<close>,
  \<^verbatim>\<open>zero_\<close>, \<^verbatim>\<open>fill_\<close>, \<^verbatim>\<open>reshape\<close>/\<^verbatim>\<open>view\<close>, \<^verbatim>\<open>transpose\<close>, slicing by the leading index,
  \<^verbatim>\<open>mm\<close>, \<^verbatim>\<open>addmm_\<close>) are library code that is not among the sources. A slice is a view
  in the source; here \<open>select\<close> reads the slice and \<open>select_store\<close> writes the mutated
  slice back. The elements that \<^verbatim>\<open>resize_\<close> newly exposes are uninitialised in the
  library; the model reads them from the function \<open>mem\<close>, an arbitrary parameter.
  An in-place operation \<^verbatim>\<open>op_\<close> of the library is named \<open>op_inplace\<close>.
\<close>

definition contiguous :: "'a Tensor \<Rightarrow> 'a Tensor" where
  "contiguous t = t"

definition is_contiguous :: "'a Tensor \<Rightarrow> bool" where
  "is_contiguous t = True"

definition resize_inplace :: "(nat \<Rightarrow> 'a) \<Rightarrow> 'a Tensor \<Rightarrow> nat list \<Rightarrow> 'a Tensor" where
  "resize_inplace mem t ns =
     (if sizes t = ns then t
      else \<lparr>sizes = ns,
            data = map (\<lambda>i. if i < length (data t) then data t ! i else mem i)
                       [0..<prod_list ns]\<rparr>)"

definition resize_as_inplace :: "(nat \<Rightarrow> 'a) \<Rightarrow> 'a Tensor \<Rightarrow> 'a Tensor \<Rightarrow> 'a Tensor" where
  "resize_as_inplace mem t other = resize_inplace mem t (sizes other)"

definition zero_inplace :: "'a::zero Tensor \<Rightarrow> 'a Tensor" where
  "zero_inplace t = t\<lparr>data := replicate (length (data t)) 0\<rparr>"

definition fill_inplace :: "'a Tensor \<Rightarrow> 'a \<Rightarrow> 'a Tensor" where
  "fill_inplace t v = t\<lparr>data := replicate (length (data t)) v\<rparr>"

definition reshape :: "'a Tensor \<Rightarrow> nat list \<Rightarrow> 'a Tensor" where
  "reshape t ns = t\<lparr>sizes := ns\<rparr>"

definition select :: "'a Tensor \<Rightarrow> nat \<Rightarrow> 'a Tensor" where
  "select t i =
     (let m = prod_list (tl (sizes t))
      in \<lparr>sizes = tl (sizes t), data = take m (drop (i * m) (data t))\<rparr>)"

definition select_store :: "'a Tensor \<Rightarrow> nat \<Rightarrow> 'a Tensor \<Rightarrow> 'a Tensor" where
  "select_store t i s =
     (let m = prod_list (tl (sizes t))
      in t\<lparr>data := take (i * m) (data t) @ data s @ drop (i * m + m) (data t)\<rparr>)"

definition select_checked :: "'a Tensor \<Rightarrow> nat \<Rightarrow> error + 'a Tensor" where
  "select_checked t i =
     (if dim t = 0 \<or> tsize t 0 \<le> i then Inl (InvalidArgument IndexOutOfRange)
      else Inr (select t i))"

definition item :: "'a Tensor \<Rightarrow> 'a" where
  "item t = hd (data t)"

definition transpose2d :: "'a Tensor \<Rightarrow> 'a Tensor" where
  "transpose2d t =
     (let r = tsize t 0; c = tsize t 1
      in \<lparr>sizes = [c, r],
          data = map (\<lambda>idx. data t ! ((idx mod r) * c + idx div r)) [0..<c * r]\<rparr>)"

definition matmul_data ::
  "nat \<Rightarrow> nat \<Rightarrow> nat \<Rightarrow> 'a::semiring_0 list \<Rightarrow> 'a list \<Rightarrow> 'a list" where
  "matmul_data n k m a b =
     map (\<lambda>idx. sum_list (map (\<lambda>l. a ! ((idx div m) * k + l) * b ! (l * m + idx mod m)) [0..<k]))
         [0..<n * m]"

definition mm :: "'a::semiring_0 Tensor \<Rightarrow> 'a Tensor \<Rightarrow> error + 'a Tensor" where
  "mm m1 m2 =
     (if dim m1 = 2 \<and> dim m2 = 2 \<and> tsize m1 1 = tsize m2 0
      then Inr \<lparr>sizes = [tsize m1 0, tsize m2 1],
                data = matmul_data (tsize m1 0) (tsize m1 1) (tsize m2 1) (data m1) (data m2)\<rparr>
      else Inl (InvalidArgument MatrixShapeMismatch))"

definition mm_out :: "'a::semiring_0 Tensor \<Rightarrow> 'a Tensor \<Rightarrow> 'a Tensor \<Rightarrow> error + 'a Tensor" where
  "mm_out result m1 m2 =
     (case mm m1 m2 of
        Inl e \<Rightarrow> Inl e
      | Inr p \<Rightarrow>
          if sizes result = sizes p then Inr (result\<lparr>data := data p\<rparr>)
          else Inl (InvalidArgument MatrixShapeMismatch))"

definition addmm_inplace ::
  "'a::semiring_0 Tensor \<Rightarrow> 'a Tensor \<Rightarrow> 'a Tensor \<Rightarrow> 'a \<Rightarrow> 'a \<Rightarrow> error + 'a Tensor" where
  "addmm_inplace self m1 m2 beta alpha =
     (case mm m1 m2 of
        Inl e \<Rightarrow> Inl e
      | Inr p \<Rightarrow>
          if sizes self = sizes p
          then Inr (self\<lparr>data := map2 (\<lambda>s x. beta * s + alpha * x) (data self) (data p)\<rparr>)
          else Inl (InvalidArgument MatrixShapeMismatch))"

text \<open>
  Modelled from the spec: \<^verbatim>\<open>at::parallel_for\<close> (ATen/Parallel.h is not among the sources).
  The body is run for every index of the half-open range, in increasing order; a raised
  error ends the loop and leaves the buffers as they are at that point.
\<close>

fun run_range :: "(nat \<Rightarrow> 's \<Rightarrow> error option \<times> 's) \<Rightarrow> nat list \<Rightarrow> 's \<Rightarrow> error option \<times> 's" where
  "run_range f [] s = (None, s)"
| "run_range f (t # ts) s =
     (case f t s of
        (Some e, s') \<Rightarrow> (Some e, s')
      | (None, s') \<Rightarrow> run_range f ts s')"

definition parallel_for ::
  "nat \<Rightarrow> nat \<Rightarrow> int \<Rightarrow> (nat \<Rightarrow> 's \<Rightarrow> error option \<times> 's) \<Rightarrow> 's \<Rightarrow> error option \<times> 's" where
  "parallel_for begin end grain_size f s = run_range f [begin..<end] s"

definition CONV3D_GRAIN_SALT :: int where
  "CONV3D_GRAIN_SALT = 20"

subsection \<open>Unfold and fold\<close>

text \<open>
  Modelled from the spec: the unfold primitive \<^verbatim>\<open>Unfold3dCopyCPU\<close> and the fold primitive
  \<^verbatim>\<open>unfolded3d_acc_kernel_cpu\<close> (ATen/native/Unfold3d is not among the sources). Row \<open>p\<close>
  of the column matrix is a (channel, kernel offset) tuple, column \<open>q\<close> an output
  position; \<open>unfold_source\<close> is the flat index of the input element that the entry
  \<open>(p, q)\<close> comes from, or \<open>-1\<close> when the entry lies in the zero padding. Unfold copies
  that element (or writes zero); fold adds every entry of the matrix to its source
  element.
\<close>

definition unfold_source ::
  "int \<Rightarrow> int \<Rightarrow> int \<Rightarrow> int \<Rightarrow> int \<Rightarrow> int \<Rightarrow> int \<Rightarrow>
   int \<Rightarrow> int \<Rightarrow> int \<Rightarrow> int \<Rightarrow> int \<Rightarrow> int \<Rightarrow> int \<Rightarrow> int \<Rightarrow> int \<Rightarrow> int \<Rightarrow> int \<Rightarrow> int" where
  "unfold_source C X_D X_H X_W Y_D Y_H Y_W kernel_d kernel_h kernel_w
     stride_d stride_h stride_w pad_d pad_h pad_w p q =
     (let c = p div (kernel_d * kernel_h * kernel_w);
          kd = (p div (kernel_h * kernel_w)) mod kernel_d;
          kh = (p div kernel_w) mod kernel_h;
          kw = p mod kernel_w;
          yd = q div (Y_H * Y_W);
          yh = (q div Y_W) mod Y_H;
          yw = q mod Y_W;
          xd = yd * stride_d - pad_d + kd;
          xh = yh * stride_h - pad_h + kh;
          xw = yw * stride_w - pad_w + kw
      in if 0 \<le> xd \<and> xd < X_D \<and> 0 \<le> xh \<and> xh < X_H \<and> 0 \<le> xw \<and> xw < X_W
         then ((c * X_D + xd) * X_H + xh) * X_W + xw
         else - 1)"

definition Unfold3dCopyCPU ::
  "'a::zero Tensor \<Rightarrow> int \<Rightarrow> int \<Rightarrow> int \<Rightarrow> int \<Rightarrow> int \<Rightarrow> int \<Rightarrow> int \<Rightarrow>
   int \<Rightarrow> int \<Rightarrow> int \<Rightarrow> int \<Rightarrow> int \<Rightarrow> int \<Rightarrow> int \<Rightarrow> int \<Rightarrow> int \<Rightarrow> 'a Tensor \<Rightarrow> 'a Tensor" where
  "Unfold3dCopyCPU src C X_D X_H X_W Y_D Y_H Y_W kernel_d kernel_h kernel_w
     stride_d stride_h stride_w pad_d pad_h pad_w dst =
     (let rows = C * kernel_d * kernel_h * kernel_w;
          cols = Y_D * Y_H * Y_W
      in dst\<lparr>data :=
           map (\<lambda>idx.
                  let s = unfold_source C X_D X_H X_W Y_D Y_H Y_W kernel_d kernel_h kernel_w
                            stride_d stride_h stride_w pad_d pad_h pad_w
                            (int idx div cols) (int idx mod cols)
                  in if s < 0 then 0 else data src ! nat s)
               [0..<nat rows * nat cols]\<rparr>)"

definition unfolded3d_acc_kernel_cpu ::
  "'a::semiring_0 Tensor \<Rightarrow> 'a Tensor \<Rightarrow> int \<Rightarrow> int \<Rightarrow> int \<Rightarrow> int \<Rightarrow> int \<Rightarrow> int \<Rightarrow>
   int \<Rightarrow> int \<Rightarrow> int \<Rightarrow> int \<Rightarrow> int \<Rightarrow> int \<Rightarrow> int \<Rightarrow> int \<Rightarrow> int \<Rightarrow> int \<Rightarrow> 'a Tensor" where
  "unfolded3d_acc_kernel_cpu finput input kernel_d kernel_h kernel_w
     stride_d stride_h stride_w pad_d pad_h pad_w
     n_input_plane input_depth input_height input_width
     output_depth output_height output_width =
     (let rows = n_input_plane * kernel_d * kernel_h * kernel_w;
          cols = output_depth * output_height * output_width
      in input\<lparr>data :=
           map (\<lambda>i. data input ! i +
                  sum_list (map (\<lambda>j. data finput ! j)
                    (filter (\<lambda>j. unfold_source n_input_plane input_depth input_height input_width
                                   output_depth output_height output_width
                                   kernel_d kernel_h kernel_w stride_d stride_h stride_w
                                   pad_d pad_h pad_w (int j div cols) (int j mod cols) = int i)
                            [0..<nat rows * nat cols])))
               [0..<length (data input)]\<rparr>)"

subsection \<open>Forward pass\<close>

definition view_weight_2d :: "'a Tensor \<Rightarrow> 'a Tensor" where
  "view_weight_2d weight_in =
     (let weight = contiguous weight_in
      in if dim weight = 5
         then (let s1 = tsize weight 0;
                   s2 = tsize weight 1 * tsize weight 2 * tsize weight 3 * tsize weight 4
               in reshape weight [s1, s2])
         else weight)"

definition slow_conv3d_update_output_frame ::
  "'a::semiring_1 Tensor \<Rightarrow> 'a Tensor \<Rightarrow> 'a Tensor \<Rightarrow> 'a Tensor option \<Rightarrow> 'a Tensor \<Rightarrow>
   int \<Rightarrow> int \<Rightarrow> int \<Rightarrow> int \<Rightarrow> int \<Rightarrow> int \<Rightarrow> int \<Rightarrow> int \<Rightarrow> int \<Rightarrow>
   int \<Rightarrow> int \<Rightarrow> int \<Rightarrow> int \<Rightarrow> int \<Rightarrow> int \<Rightarrow> int \<Rightarrow> int \<Rightarrow>
   error option \<times> ('a Tensor \<times> 'a Tensor)" where
  "slow_conv3d_update_output_frame input output weight bias finput
     kernel_depth kernel_height kernel_width
     stride_depth stride_height stride_width
     pad_depth pad_height pad_width
     n_input_plane input_depth input_height input_width
     n_output_plane output_depth output_height output_width =
   (let finput1 = Unfold3dCopyCPU input n_input_plane input_depth input_height input_width
                    output_depth output_height output_width
                    kernel_depth kernel_height kernel_width
                    stride_depth stride_height stride_width
                    pad_depth pad_height pad_width finput;
        sizes2d = [nat n_output_plane, nat (output_depth * output_height * output_width)]
    in case bias of
         Some b \<Rightarrow>
           (let output1 =
                  fold (\<lambda>i out. select_store out i
                                  (fill_inplace (select out i) (item (select b i))))
                       [0..<nat n_output_plane] output
            in case addmm_inplace (reshape output1 sizes2d) weight finput1 1 1 of
                 Inl e \<Rightarrow> (Some e, (output1, finput1))
               | Inr output2d \<Rightarrow> (None, (reshape output2d (sizes output), finput1)))
       | None \<Rightarrow>
           (case mm_out (reshape output sizes2d) weight finput1 of
              Inl e \<Rightarrow> (Some e, (output, finput1))
            | Inr output2d \<Rightarrow> (None, (reshape output2d (sizes output), finput1))))"

definition slow_conv3d_forward_out_cpu ::
  "(nat \<Rightarrow> 'a) \<Rightarrow> 'a::semiring_1 Tensor \<Rightarrow> 'a Tensor \<Rightarrow> 'a Tensor \<Rightarrow> 'a Tensor \<Rightarrow>
   'a Tensor option \<Rightarrow> int \<times> int \<times> int \<Rightarrow> 'a Tensor option \<Rightarrow>
   int \<times> int \<times> int \<Rightarrow> int \<times> int \<times> int \<Rightarrow>
   error option \<times> ('a Tensor \<times> 'a Tensor \<times> 'a Tensor)" where
  "slow_conv3d_forward_out_cpu mem output finput fgrad_input self weight kernel_size bias
     stride padding =
   (let (kernel_depth, kernel_height, kernel_width) = kernel_size;
        (pad_depth, pad_height, pad_width) = padding;
        (stride_depth, stride_height, stride_width) = stride
    in case slow_conv3d_shape_check self None weight bias
              kernel_depth kernel_height kernel_width
              stride_depth stride_height stride_width
              pad_depth pad_height pad_width False of
         Inl e \<Rightarrow> (Some e, (output, finput, fgrad_input))
       | Inr _ \<Rightarrow>
          (case weight of
             None \<Rightarrow> (Some (InvalidArgument UndefinedTensor), (output, finput, fgrad_input))
           | Some w \<Rightarrow>
              (let input = contiguous self;
                   weight_2d = view_weight_2d w;
                   dim_planes = 1;
                   dim_depth = 2;
                   dim_height = 3;
                   dim_width = 4;
                   n_input_plane = int (tsize input dim_planes);
                   input_depth = int (tsize input dim_depth);
                   input_height = int (tsize input dim_height);
                   input_width = int (tsize input dim_width);
                   n_output_plane = int (tsize weight_2d 0);
                   output_depth =
                     (input_depth + 2 * pad_depth - kernel_depth) sdiv stride_depth + 1;
                   output_height =
                     (input_height + 2 * pad_height - kernel_height) sdiv stride_height + 1;
                   output_width =
                     (input_width + 2 * pad_width - kernel_width) sdiv stride_width + 1;
                   batch_size = tsize input 0;
                   finput1 = resize_inplace mem finput
                     [batch_size,
                      nat (n_input_plane * kernel_depth * kernel_height * kernel_width),
                      nat (output_depth * output_height * output_width)];
                   output1 = resize_inplace mem output
                     [batch_size, nat n_output_plane,
                      nat output_depth, nat output_height, nat output_width]
               in case parallel_for 0 batch_size CONV3D_GRAIN_SALT
                    (\<lambda>t (output, finput).
                       let input_t = select input t;
                           output_t = select output t;
                           finput_t = select finput t
                       in case slow_conv3d_update_output_frame
                                 input_t output_t weight_2d bias finput_t
                                 kernel_depth kernel_height kernel_width
                                 stride_depth stride_height stride_width
                                 pad_depth pad_height pad_width
                                 n_input_plane input_depth input_height input_width
                                 n_output_plane output_depth output_height output_width of
                            (err, (output_t', finput_t')) \<Rightarrow>
                              (err, (select_store output t output_t',
                                     select_store finput t finput_t')))
                    (output1, finput1) of
                    (err, (output2, finput2)) \<Rightarrow> (err, (output2, finput2, fgrad_input)))))"

definition empty :: "nat list \<Rightarrow> (nat \<Rightarrow> 'a) \<Rightarrow> 'a Tensor" where
  "empty ns mem = \<lparr>sizes = ns, data = map mem [0..<prod_list ns]\<rparr>"

definition slow_conv3d_forward_cpu ::
  "(nat \<Rightarrow> 'a) \<Rightarrow> 'a::semiring_1 Tensor \<Rightarrow> 'a Tensor option \<Rightarrow> int \<times> int \<times> int \<Rightarrow>
   'a Tensor option \<Rightarrow> int \<times> int \<times> int \<Rightarrow> int \<times> int \<times> int \<Rightarrow>
   error option \<times> ('a Tensor \<times> 'a Tensor \<times> 'a Tensor)" where
  "slow_conv3d_forward_cpu mem self weight kernel_size bias stride padding =
   (let output = empty [0] mem;
        finput = empty [0] mem;
        fgrad_input = empty [0] mem
    in slow_conv3d_forward_out_cpu mem output finput fgrad_input self weight kernel_size bias
         stride padding)"

subsection \<open>Backward pass: gradient of the input\<close>

definition slow_conv3d_backward_update_grad_input_frame ::
  "'a::semiring_1 Tensor \<Rightarrow> 'a Tensor \<Rightarrow> 'a Tensor \<Rightarrow> 'a Tensor \<Rightarrow>
   int \<Rightarrow> int \<Rightarrow> int \<Rightarrow> int \<Rightarrow> int \<Rightarrow> int \<Rightarrow> int \<Rightarrow> int \<Rightarrow> int \<Rightarrow>
   error option \<times> ('a Tensor \<times> 'a Tensor)" where
  "slow_conv3d_backward_update_grad_input_frame grad_input grad_output weight fgrad_input
     kernel_depth kernel_height kernel_width
     stride_depth stride_height stride_width
     pad_depth pad_height pad_width =
   (let grad_output_2d = reshape grad_output
          [tsize grad_output 0,
           tsize grad_output 1 * tsize grad_output 2 * tsize grad_output 3]
    in case addmm_inplace fgrad_input weight grad_output_2d 0 1 of
         Inl e \<Rightarrow> (Some e, (grad_input, fgrad_input))
       | Inr fgrad_input1 \<Rightarrow>
           (let grad_input1 = zero_inplace grad_input;
                grad_input2 = unfolded3d_acc_kernel_cpu fgrad_input1 grad_input1
                  kernel_depth kernel_height kernel_width
                  stride_depth stride_height stride_width
                  pad_depth pad_height pad_width
                  (int (tsize grad_input 0)) (int (tsize grad_input 1))
                  (int (tsize grad_input 2)) (int (tsize grad_input 3))
                  (int (tsize grad_output 1)) (int (tsize grad_output 2))
                  (int (tsize grad_output 3))
            in (None, (grad_input2, fgrad_input1))))"

definition slow_conv3d_backward_out_cpu_template ::
  "(nat \<Rightarrow> 'a) \<Rightarrow> 'a::semiring_1 Tensor \<Rightarrow> 'a Tensor \<Rightarrow> 'a Tensor \<Rightarrow> 'a Tensor option \<Rightarrow>
   'a Tensor \<Rightarrow> 'a Tensor \<Rightarrow> int \<times> int \<times> int \<Rightarrow> int \<times> int \<times> int \<Rightarrow> int \<times> int \<times> int \<Rightarrow>
   error option \<times> ('a Tensor \<times> 'a Tensor)" where
  "slow_conv3d_backward_out_cpu_template mem grad_input grad_output input weight
     finput fgrad_input kernel_size stride padding =
   (let (kernel_depth, kernel_height, kernel_width) = kernel_size;
        (pad_depth, pad_height, pad_width) = padding;
        (stride_depth, stride_height, stride_width) = stride
    in case slow_conv3d_shape_check input (Some grad_output) weight None
              kernel_depth kernel_height kernel_width
              stride_depth stride_height stride_width
              pad_depth pad_height pad_width False of
         Inl e \<Rightarrow> (Some e, (grad_input, fgrad_input))
       | Inr _ \<Rightarrow>
          (case weight of
             None \<Rightarrow> (Some (InvalidArgument UndefinedTensor), (grad_input, fgrad_input))
           | Some w \<Rightarrow>
              (let weight2d = view_weight_2d w;
                   grad_output_contiguous = contiguous grad_output;
                   grad_input1 = resize_as_inplace mem grad_input input
               in if \<not> is_contiguous grad_input1
                  then (Some (InvalidArgument NotContiguous), (grad_input1, fgrad_input))
                  else
                   (let fgrad_input1 = resize_as_inplace mem fgrad_input finput
                    in if \<not> is_contiguous fgrad_input1
                       then (Some (InvalidArgument NotContiguous), (grad_input1, fgrad_input1))
                       else
                        (let fgrad_input2 = zero_inplace fgrad_input1;
                             tweight2d = transpose2d weight2d;
                             batch_size = tsize input 0
                         in parallel_for 0 batch_size CONV3D_GRAIN_SALT
                              (\<lambda>t (grad_input, fgrad_input).
                                 let grad_input_t = select grad_input t
                                 in case select_checked grad_output_contiguous t of
                                      Inl e \<Rightarrow> (Some e, (grad_input, fgrad_input))
                                    | Inr grad_output_t \<Rightarrow>
                                       (case select_checked fgrad_input t of
                                          Inl e \<Rightarrow> (Some e, (grad_input, fgrad_input))
                                        | Inr fgrad_input_t \<Rightarrow>
                                           (case slow_conv3d_backward_update_grad_input_frame
                                                   grad_input_t grad_output_t tweight2d
                                                   fgrad_input_t
                                                   kernel_depth kernel_height kernel_width
                                                   stride_depth stride_height stride_width
                                                   pad_depth pad_height pad_width of
                                              (err, (grad_input_t', fgrad_input_t')) \<Rightarrow>
                                                (err,
                                                 (select_store grad_input t grad_input_t',
                                                  select_store fgrad_input t fgrad_input_t')))))
                              (grad_input1, fgrad_input2))))))"

subsection \<open>Backward pass: gradients of weight and bias\<close>

text \<open>
  In \<open>slow_conv3d_backward_parameters_frame\<close> the slice of the column buffer is
  transposed and multiplied; both library calls reject a slice that is not a matrix,
  which is the guard on \<open>dim finput\<close> below. The bias gradient of channel \<open>i\<close>
  accumulates the row sum of the output gradient, summed from zero in index order as
  the source's inner loop does.
\<close>

definition slow_conv3d_backward_parameters_frame ::
  "'a::semiring_1 Tensor option \<Rightarrow> 'a Tensor option \<Rightarrow> 'a Tensor \<Rightarrow> 'a Tensor option \<Rightarrow>
   error option \<times> ('a Tensor option \<times> 'a Tensor option)" where
  "slow_conv3d_backward_parameters_frame grad_weight grad_bias grad_output finput =
   (let grad_output_2d = reshape grad_output
          [tsize grad_output 0,
           tsize grad_output 1 * tsize grad_output 2 * tsize grad_output 3];
        weight_step =
          (case grad_weight of
             None \<Rightarrow> Inr None
           | Some gw \<Rightarrow>
              (case finput of
                 None \<Rightarrow> Inl (InvalidArgument UndefinedTensor)
               | Some f \<Rightarrow>
                  if dim f \<noteq> 2 then Inl (InvalidArgument MatrixShapeMismatch)
                  else (let tfinput = transpose2d f
                        in case addmm_inplace gw grad_output_2d tfinput 1 1 of
                             Inl e \<Rightarrow> Inl e
                           | Inr gw' \<Rightarrow> Inr (Some gw'))))
    in case weight_step of
         Inl e \<Rightarrow> (Some e, (grad_weight, grad_bias))
       | Inr grad_weight1 \<Rightarrow>
           (case grad_bias of
              None \<Rightarrow> (None, (grad_weight1, None))
            | Some gb \<Rightarrow>
               (let sz = tsize grad_output_2d 1;
                    gb' = gb\<lparr>data :=
                      map (\<lambda>i. data gb ! i +
                                fold (\<lambda>k sum. sum + data grad_output_2d ! (i * sz + k))
                                     [0..<sz] 0)
                          [0..<tsize gb 0]\<rparr>
                in (None, (grad_weight1, Some gb')))))"

definition checkContiguous :: "'a Tensor \<Rightarrow> error + unit" where
  "checkContiguous t = TORCH_CHECK (is_contiguous t) NotContiguous"

definition slow_conv3d_backward_parameters_out_cpu_template ::
  "'a::semiring_1 Tensor option \<Rightarrow> 'a Tensor option \<Rightarrow> 'a Tensor \<Rightarrow> 'a Tensor \<Rightarrow>
   'a Tensor \<Rightarrow> 'a Tensor \<Rightarrow> int \<times> int \<times> int \<Rightarrow> int \<times> int \<times> int \<Rightarrow> int \<times> int \<times> int \<Rightarrow>
   error option \<times> ('a Tensor option \<times> 'a Tensor option)" where
  "slow_conv3d_backward_parameters_out_cpu_template grad_weight grad_bias input grad_output
     finput fgrad_input kernel_size stride padding =
   (let (kernel_depth, kernel_height, kernel_width) = kernel_size;
        (pad_depth, pad_height, pad_width) = padding;
        (stride_depth, stride_height, stride_width) = stride
    in case slow_conv3d_shape_check input (Some grad_output) grad_weight grad_bias
              kernel_depth kernel_height kernel_width
              stride_depth stride_height stride_width
              pad_depth pad_height pad_width True of
         Inl e \<Rightarrow> (Some e, (grad_weight, grad_bias))
       | Inr _ \<Rightarrow>
          (case (case grad_weight of None \<Rightarrow> Inr () | Some gw \<Rightarrow> checkContiguous gw) of
             Inl e \<Rightarrow> (Some e, (grad_weight, grad_bias))
           | Inr _ \<Rightarrow>
              (let grad_weight_2d = map_option view_weight_2d grad_weight
               in case (case grad_bias of None \<Rightarrow> Inr () | Some gb \<Rightarrow> checkContiguous gb) of
                    Inl e \<Rightarrow> (Some e, (grad_weight, grad_bias))
                  | Inr _ \<Rightarrow>
                     (let grad_output_contiguous = contiguous grad_output;
                          batch_size = tsize input 0
                      in case parallel_for 0 batch_size CONV3D_GRAIN_SALT
                                (\<lambda>t (grad_weight_2d, grad_bias).
                                   case select_checked grad_output_contiguous t of
                                     Inl e \<Rightarrow> (Some e, (grad_weight_2d, grad_bias))
                                   | Inr grad_output_t \<Rightarrow>
                                      (case (case grad_weight_2d of
                                               None \<Rightarrow> Inr None
                                             | Some _ \<Rightarrow>
                                                (case select_checked finput t of
                                                   Inl e \<Rightarrow> Inl e
                                                 | Inr f \<Rightarrow> Inr (Some f))) of
                                         Inl e \<Rightarrow> (Some e, (grad_weight_2d, grad_bias))
                                       | Inr finput_t \<Rightarrow>
                                           slow_conv3d_backward_parameters_frame
                                             grad_weight_2d grad_bias grad_output_t finput_t))
                                (grad_weight_2d, grad_bias) of
                           (err, (grad_weight_2d', grad_bias')) \<Rightarrow>
                             (err,
                              ((case (grad_weight, grad_weight_2d') of
                                  (Some gw, Some gw2d) \<Rightarrow> Some (reshape gw2d (sizes gw))
                                | _ \<Rightarrow> None),
                               grad_bias'))))))"

subsection \<open>Backward entry point\<close>

text \<open>
  The tensors that \<open>slow_conv3d_backward_out_cpu\<close> may write are the three gradients
  (each possibly undefined) and \<open>fgrad_input\<close>, whose \<^verbatim>\<open>const\<close> the source casts away.
\<close>

definition slow_conv3d_backward_out_cpu ::
  "(nat \<Rightarrow> 'a) \<Rightarrow> 'a::semiring_1 Tensor option \<Rightarrow> 'a Tensor option \<Rightarrow> 'a Tensor option \<Rightarrow>
   'a Tensor \<Rightarrow> 'a Tensor \<Rightarrow> 'a Tensor option \<Rightarrow>
   int \<times> int \<times> int \<Rightarrow> int \<times> int \<times> int \<Rightarrow> int \<times> int \<times> int \<Rightarrow> 'a Tensor \<Rightarrow> 'a Tensor \<Rightarrow>
   error option \<times> ('a Tensor option \<times> 'a Tensor option \<times> 'a Tensor option \<times> 'a Tensor)" where
  "slow_conv3d_backward_out_cpu mem grad_input grad_weight grad_bias grad_output self weight
     kernel_size stride padding finput fgrad_input =
   (case (case grad_input of
            None \<Rightarrow> (None, (None, fgrad_input))
          | Some gi \<Rightarrow>
             (case slow_conv3d_backward_out_cpu_template mem gi grad_output self weight
                     finput fgrad_input kernel_size stride padding of
                (err, (gi', fgrad_input')) \<Rightarrow> (err, (Some gi', fgrad_input')))) of
      (Some e, (grad_input1, fgrad_input1)) \<Rightarrow>
        (Some e, (grad_input1, grad_weight, grad_bias, fgrad_input1))
    | (None, (grad_input1, fgrad_input1)) \<Rightarrow>
       (case (case grad_weight of
                None \<Rightarrow> Inr None
              | Some gw \<Rightarrow>
                 (case weight of
                    None \<Rightarrow> Inl (InvalidArgument UndefinedTensor)
                  | Some w \<Rightarrow> Inr (Some (zero_inplace (resize_inplace mem gw (sizes w)))))) of
          Inl e \<Rightarrow> (Some e, (grad_input1, grad_weight, grad_bias, fgrad_input1))
        | Inr grad_weight1 \<Rightarrow>
           (case (case grad_bias of
                    None \<Rightarrow> Inr None
                  | Some gb \<Rightarrow>
                     if dim grad_output < 2 then Inl (InvalidArgument IndexOutOfRange)
                     else Inr (Some (zero_inplace
                                 (resize_inplace mem gb [tsize grad_output 1])))) of
              Inl e \<Rightarrow> (Some e, (grad_input1, grad_weight1, grad_bias, fgrad_input1))
            | Inr grad_bias1 \<Rightarrow>
               if grad_weight1 \<noteq> None \<or> grad_bias1 \<noteq> None
               then (case slow_conv3d_backward_parameters_out_cpu_template
                            grad_weight1 grad_bias1 self grad_output finput fgrad_input1
                            kernel_size stride padding of
                       (err, (grad_weight2, grad_bias2)) \<Rightarrow>
                         (err, (grad_input1, grad_weight2, grad_bias2, fgrad_input1)))
               else (None, (grad_input1, grad_weight1, grad_bias1, fgrad_input1)))))"

subsection \<open>Reference functions\<close>

text \<open>
  The functions of this subsection do not embed source code. They state, in the words
  of the specification, what the forward pass computes for one batch item: the columns
  that unfold produces for an input slice, the per-channel broadcast of the bias, and
  the bias broadcast plus the matrix product of the weight with the columns. The model
  of the source is compared with them.
\<close>

definition unfold_columns ::
  "'a::zero Tensor \<Rightarrow> int \<Rightarrow> int \<Rightarrow> int \<Rightarrow> int \<Rightarrow> int \<Rightarrow> int \<Rightarrow> int \<Rightarrow>
   int \<Rightarrow> int \<Rightarrow> int \<Rightarrow> int \<Rightarrow> int \<Rightarrow> int \<Rightarrow> int \<Rightarrow> int \<Rightarrow> int \<Rightarrow> 'a list" where
  "unfold_columns src C X_D X_H X_W Y_D Y_H Y_W kernel_d kernel_h kernel_w
     stride_d stride_h stride_w pad_d pad_h pad_w =
   data (Unfold3dCopyCPU src C X_D X_H X_W Y_D Y_H Y_W kernel_d kernel_h kernel_w
           stride_d stride_h stride_w pad_d pad_h pad_w \<lparr>sizes = [], data = []\<rparr>)"

definition bias_broadcast :: "'a Tensor \<Rightarrow> nat \<Rightarrow> nat \<Rightarrow> 'a list" where
  "bias_broadcast b n L = concat (map (\<lambda>i. replicate L (data b ! i)) [0..<n])"

definition frame_output_data ::
  "'a::semiring_1 Tensor \<Rightarrow> 'a Tensor option \<Rightarrow> 'a list \<Rightarrow> nat \<Rightarrow> nat \<Rightarrow> 'a list" where
  "frame_output_data weight bias cols n L =
     (let product = matmul_data n (tsize weight 1) L (data weight) cols
      in case bias of
           Some b \<Rightarrow> map2 (+) (bias_broadcast b n L) product
         | None \<Rightarrow> product)"

text \<open>
  The batch-of-1 slice of a batched tensor: batch item \<open>i\<close> kept as a tensor whose
  leading dimension has size 1 (\<^verbatim>\<open>t.narrow(0, i, 1)\<close>). It is used to state how a run
  on a batch relates to runs on the items of the batch.
\<close>

definition batch_item :: "'a Tensor \<Rightarrow> nat \<Rightarrow> 'a Tensor" where
  "batch_item t i = \<lparr>sizes = 1 # tl (sizes t), data = data (select t i)\<rparr>"

section \<open>Properties\<close>

subsection \<open>Basic facts about checks\<close>

lemma error_is_InvalidArgument: "\<exists>r. e = InvalidArgument r"
  by (cases e) simp

lemma and_then_Inr_iff [simp]: "and_then c k = Inr u \<longleftrightarrow> c = Inr () \<and> k = Inr u"
  by (simp add: and_then_def split: sum.splits)

lemma TORCH_CHECK_Inr_iff [simp]: "TORCH_CHECK c r = Inr u \<longleftrightarrow> c"
  by (simp add: TORCH_CHECK_def)

lemma check_dim_size_Inr_iff [simp]:
  "check_dim_size t d i s = Inr u \<longleftrightarrow> dim t = d \<and> int (tsize t i) = s"
  by (simp add: check_dim_size_def)

lemma sdiv_nonneg_pos: "0 \<le> a \<Longrightarrow> 0 < b \<Longrightarrow> (a::int) sdiv b = a div b"
  by (simp add: signed_divide_int_def sgn_if)

lemma shape_check_forward_ok:
  assumes "slow_conv3d_shape_check self None weight bias kd kh kw sd sh sw pd ph pw False = Inr ()"
  shows "\<exists>w. weight = Some w \<and> 0 < numel w \<and> (dim w = 2 \<or> dim w = 5) \<and>
           (\<forall>b. bias = Some b \<longrightarrow> dim b = 1 \<and> tsize b 0 = tsize w 0) \<and>
           int (tsize self 1) = (if dim w = 2 then int (tsize w 1) sdiv (kh * kw) else int (tsize w 1))"
    and "0 < kd" "0 < kh" "0 < kw" "0 < sd" "0 < sh" "0 < sw"
    and "dim self = 5"
    and "0 < numel self \<or> (tsize self 0 = 0 \<and> tsize self 1 \<noteq> 0 \<and> tsize self 2 \<noteq> 0 \<and> tsize self 3 \<noteq> 0 \<and> tsize self 4 \<noteq> 0)"
    and "kd \<le> int (tsize self 2) + 2 * pd" "kh \<le> int (tsize self 3) + 2 * ph" "kw \<le> int (tsize self 4) + 2 * pw"
proof -
  note defs = slow_conv3d_shape_check_def Let_def div_rtn_def
  show "\<exists>w. weight = Some w \<and> 0 < numel w \<and> (dim w = 2 \<or> dim w = 5) \<and>
           (\<forall>b. bias = Some b \<longrightarrow> dim b = 1 \<and> tsize b 0 = tsize w 0) \<and>
           int (tsize self 1) = (if dim w = 2 then int (tsize w 1) sdiv (kh * kw) else int (tsize w 1))"
    using assms by (cases weight; cases bias) (simp_all add: defs)
  show "0 < kd" "0 < kh" "0 < kw" "0 < sd" "0 < sh" "0 < sw" "dim self = 5"
    "kd \<le> int (tsize self 2) + 2 * pd" "kh \<le> int (tsize self 3) + 2 * ph" "kw \<le> int (tsize self 4) + 2 * pw"
    using assms by (simp_all add: defs)
  show "0 < numel self \<or> (tsize self 0 = 0 \<and> tsize self 1 \<noteq> 0 \<and> tsize self 2 \<noteq> 0 \<and> tsize self 3 \<noteq> 0 \<and> tsize self 4 \<noteq> 0)"
    using assms by (simp add: defs) blast
qed

lemma and_then_Inl_iff: "and_then c k = Inl e \<longleftrightarrow> c = Inl e \<or> (c = Inr () \<and> k = Inl e)"
  by (cases c) (simp_all add: and_then_def)

lemma TORCH_CHECK_Inl_iff: "TORCH_CHECK c r = Inl e \<longleftrightarrow> \<not> c \<and> e = InvalidArgument r"
  by (auto simp add: TORCH_CHECK_def)

lemma check_dim_size_Inl_iff:
  "check_dim_size t d i s = Inl e \<longleftrightarrow> \<not> (dim t = d \<and> int (tsize t i) = s) \<and> e = InvalidArgument DimSizeMismatch"
  by (auto simp add: check_dim_size_def TORCH_CHECK_def)

lemma not_Inr_unit_iff: "(r :: error + unit) \<noteq> Inr () \<longleftrightarrow> (\<exists>x. r = Inl (InvalidArgument x))"
proof (cases r)
  case (Inl e)
  then show ?thesis by (cases e) simp
next
  case (Inr u)
  then show ?thesis by simp
qed

lemma numel_pos_iff: "0 < numel t \<longleftrightarrow> (\<forall>n\<in>set (sizes t). n \<noteq> 0)"
proof -
  have h: "(numel t = 0) = (0 \<in> set (sizes t))"
    unfolding numel_def by (rule prod_list_zero_iff)
  show ?thesis
  proof
    assume "0 < numel t"
    with h have "0 \<notin> set (sizes t)" by simp
    then show "\<forall>n\<in>set (sizes t). n \<noteq> 0" by metis
  next
    assume "\<forall>n\<in>set (sizes t). n \<noteq> 0"
    then have "0 \<notin> set (sizes t)" by metis
    with h show "0 < numel t" by simp
  qed
qed

lemma and_then_Inr [simp]: "and_then (Inr u) k = k"
  by (simp add: and_then_def)

lemma and_then_Inl [simp]: "and_then (Inl e) k = Inl e"
  by (simp add: and_then_def)

lemma TORCH_CHECK_True: "c \<Longrightarrow> TORCH_CHECK c r = Inr ()"
  by (simp add: TORCH_CHECK_def)

lemma TORCH_CHECK_False: "\<not> c \<Longrightarrow> TORCH_CHECK c r = Inl (InvalidArgument r)"
  by (simp add: TORCH_CHECK_def)

lemma shape_check_Inr_input:
  assumes "slow_conv3d_shape_check input grad_output weight bias kd kh kw sd sh sw pd ph pw
             weight_optional = Inr ()"
  shows "dim input = 5"
    and "0 < numel input \<or> (tsize input 0 = 0 \<and> tsize input 1 \<noteq> 0 \<and> tsize input 2 \<noteq> 0 \<and>
          tsize input 3 \<noteq> 0 \<and> tsize input 4 \<noteq> 0)"
proof -
  show "dim input = 5"
    using assms by (simp add: slow_conv3d_shape_check_def Let_def)
  show "0 < numel input \<or> (tsize input 0 = 0 \<and> tsize input 1 \<noteq> 0 \<and> tsize input 2 \<noteq> 0 \<and>
          tsize input 3 \<noteq> 0 \<and> tsize input 4 \<noteq> 0)"
    using assms by (simp add: slow_conv3d_shape_check_def Let_def) blast
qed

subsection \<open>Shape validation\<close>

text \<open>
  Claim C1. For a rank-2 weight the claim derives the implied input-channel count by
  dividing the weight's second dimension by the full kernel volume
  \<open>kernel_depth * kernel_height * kernel_width\<close>. The source divides by
  \<open>kernel_height * kernel_width\<close> only. With a \<open>1 \<times> 8\<close> weight and a \<open>2 \<times> 2 \<times> 2\<close>
  kernel the kernel volume gives one input channel, yet the validation rejects the
  one-channel input and lets the two-channel input through.
\<close>

theorem shape_check_rank2_weight_divides_by_plane:
  "slow_conv3d_shape_check \<lparr>sizes = [1, 1, 4, 4, 4], data = replicate 64 (0::int)\<rparr> None
     (Some \<lparr>sizes = [1, 8], data = replicate 8 0\<rparr>) None 2 2 2 1 1 1 0 0 0 False
     = Inl (InvalidArgument DimSizeMismatch) \<and>
   slow_conv3d_shape_check \<lparr>sizes = [1, 2, 4, 4, 4], data = replicate 128 (0::int)\<rparr> None
     (Some \<lparr>sizes = [1, 8], data = replicate 8 0\<rparr>) None 2 2 2 1 1 1 0 0 0 False
     = Inr ()"
  by (simp add: slow_conv3d_shape_check_def Let_def dim_def tsize_def numel_def div_rtn_def
        TORCH_CHECK_def check_dim_size_def signed_divide_int_def)

text \<open>
  Claim C8. The validation accepts the input exactly when it has rank 5 and either no
  dimension of size zero or a zero batch dimension with the four other dimensions
  nonzero. First part: every other input makes the whole validation fail with
  \<open>InvalidArgument\<close>. Second part: once the kernel, stride and weight checks that precede
  it have passed, the input check raises if and only if the input is not of that form.
\<close>

theorem shape_check_input_rank5:
  fixes input :: "'a Tensor"
  shows
  "(\<not> (dim input = 5 \<and>
        ((\<forall>n\<in>set (sizes input). n \<noteq> 0) \<or>
         (tsize input 0 = 0 \<and> tsize input 1 \<noteq> 0 \<and> tsize input 2 \<noteq> 0 \<and>
          tsize input 3 \<noteq> 0 \<and> tsize input 4 \<noteq> 0))) \<longrightarrow>
      (\<exists>r. slow_conv3d_shape_check input grad_output weight bias kd kh kw sd sh sw pd ph pw
             weight_optional = Inl (InvalidArgument r))) \<and>
   (0 < kd \<and> 0 < kh \<and> 0 < kw \<and> 0 < sd \<and> 0 < sh \<and> 0 < sw \<and>
    (case weight of
       None \<Rightarrow> weight_optional
     | Some w \<Rightarrow> 0 < numel w \<and> (dim w = 2 \<or> dim w = 5) \<and>
         (case bias of None \<Rightarrow> True | Some b \<Rightarrow> dim b = 1 \<and> tsize b 0 = tsize w 0)) \<longrightarrow>
      (slow_conv3d_shape_check input grad_output weight bias kd kh kw sd sh sw pd ph pw
         weight_optional = Inl (InvalidArgument InputNot5DNonEmpty)) =
      (\<not> (dim input = 5 \<and>
        ((\<forall>n\<in>set (sizes input). n \<noteq> 0) \<or>
         (tsize input 0 = 0 \<and> tsize input 1 \<noteq> 0 \<and> tsize input 2 \<noteq> 0 \<and>
          tsize input 3 \<noteq> 0 \<and> tsize input 4 \<noteq> 0)))))"
proof (intro conjI impI)
  let ?ok = "dim input = 5 \<and>
        ((\<forall>n\<in>set (sizes input). n \<noteq> 0) \<or>
         (tsize input 0 = 0 \<and> tsize input 1 \<noteq> 0 \<and> tsize input 2 \<noteq> 0 \<and>
          tsize input 3 \<noteq> 0 \<and> tsize input 4 \<noteq> 0))"
  let ?res = "slow_conv3d_shape_check input grad_output weight bias kd kh kw sd sh sw pd ph pw
          weight_optional"
  {
    assume bad: "\<not> ?ok"
    have "?res \<noteq> Inr ()"
    proof
      assume "?res = Inr ()"
      from shape_check_Inr_input [OF this] have "?ok"
        by (simp add: numel_pos_iff)
      with bad show False by auto
    qed
    then show "\<exists>r. ?res = Inl (InvalidArgument r)"
      by (simp only: not_Inr_unit_iff)
  }
  {
    assume pre: "0 < kd \<and> 0 < kh \<and> 0 < kw \<and> 0 < sd \<and> 0 < sh \<and> 0 < sw \<and>
      (case weight of
         None \<Rightarrow> weight_optional
       | Some w \<Rightarrow> 0 < numel w \<and> (dim w = 2 \<or> dim w = 5) \<and>
           (case bias of None \<Rightarrow> True | Some b \<Rightarrow> dim b = 1 \<and> tsize b 0 = tsize w 0))"
    have stage3: "(case weight of
        Some w \<Rightarrow>
          and_then (TORCH_CHECK (numel w > 0 \<and> (dim w = 2 \<or> dim w = 5)) WeightNot2DOr5D)
            (case bias of
               Some b \<Rightarrow> check_dim_size b 1 0 (int (tsize w 0))
             | None \<Rightarrow> Inr ())
      | None \<Rightarrow> TORCH_CHECK weight_optional WeightUndefined) = Inr ()"
      using pre by (cases weight; cases bias) simp_all
    show "(?res = Inl (InvalidArgument InputNot5DNonEmpty)) = (\<not> ?ok)"
      unfolding slow_conv3d_shape_check_def Let_def
      using pre stage3
      apply (cases weight; cases grad_output; cases bias)
      apply (simp_all add: and_then_Inl_iff TORCH_CHECK_Inl_iff check_dim_size_Inl_iff numel_pos_iff)
      apply argo+
      done
  }
qed

theorem shape_check_input_rank5_witness:
  "(\<exists>r. slow_conv3d_shape_check \<lparr>sizes = [1, 4, 4, 4], data = replicate 64 (0::int)\<rparr>
           None None None 1 1 1 1 1 1 0 0 0 True = Inl (InvalidArgument r)) \<and>
   slow_conv3d_shape_check \<lparr>sizes = [0, 1, 4, 4, 4], data = ([]::int list)\<rparr>
           None None None 1 1 1 1 1 1 0 0 0 True \<noteq> Inl (InvalidArgument InputNot5DNonEmpty)"
  using shape_check_input_rank5 [where input = "\<lparr>sizes = [1, 4, 4, 4], data = replicate 64 (0::int)\<rparr>"
          and grad_output = None and weight = None and bias = None and weight_optional = True
          and kd = 1 and kh = 1 and kw = 1 and sd = 1 and sh = 1 and sw = 1
          and pd = 0 and ph = 0 and pw = 0]
        shape_check_input_rank5 [where input = "\<lparr>sizes = [0, 1, 4, 4, 4], data = ([]::int list)\<rparr>"
          and grad_output = None and weight = None and bias = None and weight_optional = True
          and kd = 1 and kh = 1 and kw = 1 and sd = 1 and sh = 1 and sw = 1
          and pd = 0 and ph = 0 and pw = 0]
  by (simp add: dim_def tsize_def)

text \<open>
  Claim C9. With an undefined weight, a defined bias and a defined output gradient, a
  zero-dimensional bias is accepted and stands for exactly one output channel: the
  validation passes if and only if the checks that do not involve the output gradient
  pass and the output gradient has rank 5, one channel and the computed spatial sizes.
  A bias without elements makes the validation fail, with the reason \<open>BiasEmpty\<close> when
  the checks before it pass.
\<close>

theorem shape_check_scalar_bias:
  fixes input :: "'a Tensor"
  shows
  "(sizes b = [] \<longrightarrow>
      (slow_conv3d_shape_check input (Some go) None (Some b) kd kh kw sd sh sw pd ph pw True
         = Inr ()) =
      (slow_conv3d_shape_check input None None None kd kh kw sd sh sw pd ph pw True = Inr () \<and>
       dim go = 5 \<and> tsize go 1 = 1 \<and>
       int (tsize go 2) = (int (tsize input 2) + 2 * pd - kd) div sd + 1 \<and>
       int (tsize go 3) = (int (tsize input 3) + 2 * ph - kh) div sh + 1 \<and>
       int (tsize go 4) = (int (tsize input 4) + 2 * pw - kw) div sw + 1)) \<and>
   (numel b = 0 \<longrightarrow>
      (\<exists>r. slow_conv3d_shape_check input (Some go) None (Some b) kd kh kw sd sh sw pd ph pw True
             = Inl (InvalidArgument r))) \<and>
   (numel b = 0 \<and>
    slow_conv3d_shape_check input None None None kd kh kw sd sh sw pd ph pw True = Inr () \<longrightarrow>
      slow_conv3d_shape_check input (Some go) None (Some b) kd kh kw sd sh sw pd ph pw True
        = Inl (InvalidArgument BiasEmpty))"
proof (intro conjI impI)
  assume "sizes b = []"
  then show "(slow_conv3d_shape_check input (Some go) None (Some b) kd kh kw sd sh sw pd ph pw True
         = Inr ()) =
      (slow_conv3d_shape_check input None None None kd kh kw sd sh sw pd ph pw True = Inr () \<and>
       dim go = 5 \<and> tsize go 1 = 1 \<and>
       int (tsize go 2) = (int (tsize input 2) + 2 * pd - kd) div sd + 1 \<and>
       int (tsize go 3) = (int (tsize input 3) + 2 * ph - kh) div sh + 1 \<and>
       int (tsize go 4) = (int (tsize input 4) + 2 * pw - kw) div sw + 1)"
    apply (simp add: slow_conv3d_shape_check_def Let_def div_rtn_def dim_def numel_def)
    apply (rule iffI; elim conjE; intro conjI; (assumption | simp))
    done
next
  assume "numel b = 0"
  then have "slow_conv3d_shape_check input (Some go) None (Some b) kd kh kw sd sh sw pd ph pw True
      \<noteq> Inr ()"
    by (simp add: slow_conv3d_shape_check_def Let_def)
  then show "\<exists>r. slow_conv3d_shape_check input (Some go) None (Some b) kd kh kw sd sh sw pd ph pw True
             = Inl (InvalidArgument r)"
    by (simp only: not_Inr_unit_iff)
next
  assume "numel b = 0 \<and>
    slow_conv3d_shape_check input None None None kd kh kw sd sh sw pd ph pw True = Inr ()"
  then show "slow_conv3d_shape_check input (Some go) None (Some b) kd kh kw sd sh sw pd ph pw True
        = Inl (InvalidArgument BiasEmpty)"
    by (simp add: slow_conv3d_shape_check_def Let_def TORCH_CHECK_True TORCH_CHECK_False)
       (auto simp add: TORCH_CHECK_def)
qed

theorem shape_check_scalar_bias_witness:
  "slow_conv3d_shape_check \<lparr>sizes = [1, 1, 4, 4, 4], data = replicate 64 (0::int)\<rparr>
     (Some \<lparr>sizes = [1, 1, 3, 3, 3], data = replicate 27 0\<rparr>) None
     (Some \<lparr>sizes = [], data = [5]\<rparr>) 2 2 2 1 1 1 0 0 0 True = Inr () \<and>
   slow_conv3d_shape_check \<lparr>sizes = [1, 1, 4, 4, 4], data = replicate 64 (0::int)\<rparr>
     (Some \<lparr>sizes = [1, 1, 3, 3, 3], data = replicate 27 0\<rparr>) None
     (Some \<lparr>sizes = [0], data = []\<rparr>) 2 2 2 1 1 1 0 0 0 True
     = Inl (InvalidArgument BiasEmpty)"
  using shape_check_scalar_bias [where input = "\<lparr>sizes = [1, 1, 4, 4, 4], data = replicate 64 (0::int)\<rparr>"
          and go = "\<lparr>sizes = [1, 1, 3, 3, 3], data = replicate 27 0\<rparr>"
          and b = "\<lparr>sizes = [], data = [5]\<rparr>"
          and kd = 2 and kh = 2 and kw = 2 and sd = 1 and sh = 1 and sw = 1
          and pd = 0 and ph = 0 and pw = 0]
        shape_check_scalar_bias [where input = "\<lparr>sizes = [1, 1, 4, 4, 4], data = replicate 64 (0::int)\<rparr>"
          and go = "\<lparr>sizes = [1, 1, 3, 3, 3], data = replicate 27 0\<rparr>"
          and b = "\<lparr>sizes = [0], data = []\<rparr>"
          and kd = 2 and kh = 2 and kw = 2 and sd = 1 and sh = 1 and sw = 1
          and pd = 0 and ph = 0 and pw = 0]
  by (simp add: slow_conv3d_shape_check_def Let_def dim_def tsize_def numel_def div_rtn_def)

subsection \<open>Slices, loops and the forward pass\<close>

lemma length_concat_const:
  assumes "\<And>t. t < k \<Longrightarrow> length (G t) = m"
  shows "length (concat (map G [0..<k])) = k * m"
  using assms by (induction k) simp_all

lemma take_slice_length:
  assumes "length d = n * m" "t < n"
  shows "length (take m (drop (t * m) d)) = m"
proof -
  have "Suc t \<le> n" using assms(2) by simp
  then have "Suc t * m \<le> n * m" by (rule mult_le_mono1)
  then have "m \<le> n * m - t * m" by simp
  then show ?thesis using assms(1) by simp
qed

lemma store_prefix:
  assumes "length A = t * m"
  shows "take (t * m) (A @ X) @ s @ drop (t * m + m) (A @ drop (t * m) d)
         = (A @ s) @ drop (Suc t * m) d"
  using assms by (simp add: add.commute)

lemma select_prefix:
  assumes "length A = t * m"
  shows "take m (drop (t * m) (A @ drop (t * m) d)) = take m (drop (t * m) d)"
  using assms by simp

lemma length_bias_broadcast: "length (bias_broadcast b n L) = n * L"
  unfolding bias_broadcast_def by (rule length_concat_const) simp

lemma item_select_bias:
  assumes "dim b = 1" "i < length (data b)"
  shows "item (select b i) = data b ! i"
proof -
  from assms(1) obtain n where "sizes b = [n]"
    by (cases "sizes b") (auto simp add: dim_def)
  then have "data (select b i) = take 1 (drop i (data b))"
    by (simp add: select_def)
  with assms(2) show ?thesis
    by (simp add: item_def hd_drop_conv_nth take_Suc)
qed

lemma fill_loop_step:
  assumes len: "length d = n * L" and k: "k \<le> n" and lb: "n \<le> length (data b)" and db: "dim b = 1"
    and pl: "prod_list (tl szs) = L"
  shows "fold (\<lambda>i out. select_store out i (fill_inplace (select out i) (item (select b i))))
           [0..<k] \<lparr>sizes = szs, data = d\<rparr>
         = \<lparr>sizes = szs, data = bias_broadcast b k L @ drop (k * L) d\<rparr>"
  using k
proof (induction k)
  case 0
  show ?case by (simp add: bias_broadcast_def)
next
  case (Suc k)
  then have kn: "k < n" and IH: "fold (\<lambda>i out. select_store out i (fill_inplace (select out i) (item (select b i))))
           [0..<k] \<lparr>sizes = szs, data = d\<rparr>
         = \<lparr>sizes = szs, data = bias_broadcast b k L @ drop (k * L) d\<rparr>"
    by simp_all
  have lenA: "length (bias_broadcast b k L) = k * L"
    by (rule length_bias_broadcast)
  have sl: "length (take L (drop (k * L) d)) = L"
    using len kn by (rule take_slice_length)
  have it: "item (select b k) = data b ! k"
    using db kn lb by (intro item_select_bias) simp_all
  have step: "select_store \<lparr>sizes = szs, data = bias_broadcast b k L @ drop (k * L) d\<rparr> k
          (fill_inplace (select \<lparr>sizes = szs, data = bias_broadcast b k L @ drop (k * L) d\<rparr> k)
             (item (select b k)))
        = \<lparr>sizes = szs, data = bias_broadcast b (Suc k) L @ drop (Suc k * L) d\<rparr>"
    unfolding it using sl lenA
    by (simp add: select_store_def select_def fill_inplace_def pl Let_def bias_broadcast_def
          add.commute)
  show ?case
    by (simp add: IH step)
qed

lemma length_matmul_data [simp]: "length (matmul_data n k m a b) = n * m"
  by (simp add: matmul_data_def)

lemma length_unfold_data:
  "length (data (Unfold3dCopyCPU src C X_D X_H X_W Y_D Y_H Y_W kernel_d kernel_h kernel_w
     stride_d stride_h stride_w pad_d pad_h pad_w dst))
   = nat (C * kernel_d * kernel_h * kernel_w) * nat (Y_D * Y_H * Y_W)"
  by (simp add: Unfold3dCopyCPU_def Let_def)

lemma sizes_unfold [simp]:
  "sizes (Unfold3dCopyCPU src C X_D X_H X_W Y_D Y_H Y_W kernel_d kernel_h kernel_w
     stride_d stride_h stride_w pad_d pad_h pad_w dst) = sizes dst"
  by (simp add: Unfold3dCopyCPU_def Let_def)

lemma unfold_as_update:
  "Unfold3dCopyCPU src C X_D X_H X_W Y_D Y_H Y_W kernel_d kernel_h kernel_w
     stride_d stride_h stride_w pad_d pad_h pad_w dst
   = dst\<lparr>data := data (Unfold3dCopyCPU src C X_D X_H X_W Y_D Y_H Y_W kernel_d kernel_h kernel_w
     stride_d stride_h stride_w pad_d pad_h pad_w dst)\<rparr>"
  by (simp add: Unfold3dCopyCPU_def Let_def)

lemma unfold_data_dst:
  "data (Unfold3dCopyCPU src C X_D X_H X_W Y_D Y_H Y_W kernel_d kernel_h kernel_w
     stride_d stride_h stride_w pad_d pad_h pad_w dst)
   = data (Unfold3dCopyCPU src C X_D X_H X_W Y_D Y_H Y_W kernel_d kernel_h kernel_w
     stride_d stride_h stride_w pad_d pad_h pad_w dst')"
  by (simp add: Unfold3dCopyCPU_def Let_def)

lemma fill_loop_full:
  assumes len: "length (data output) = n * L" and lb: "n \<le> length (data b)" and db: "dim b = 1"
    and pl: "prod_list (tl (sizes output)) = L"
  shows "fold (\<lambda>i out. select_store out i (fill_inplace (select out i) (item (select b i))))
           [0..<n] output
         = output\<lparr>data := bias_broadcast b n L\<rparr>"
proof (cases "output")
  case (fields szs d)
  have "fold (\<lambda>i out. select_store out i (fill_inplace (select out i) (item (select b i))))
           [0..<n] \<lparr>sizes = szs, data = d\<rparr>
         = \<lparr>sizes = szs, data = bias_broadcast b n L @ drop (n * L) d\<rparr>"
    using len _ lb db pl unfolding fields by (intro fill_loop_step) simp_all
  with len show ?thesis
    by (simp add: fields)
qed

lemma frame_success:
  fixes weight :: "'a::semiring_1 Tensor"
  assumes w2: "sizes weight = [n, K]"
    and n: "n = nat n_output_plane"
    and K: "K = nat (n_input_plane * kd * kh * kw)"
    and L: "L = nat (od * oh * ow)"
    and fs: "sizes finput = [K, L]"
    and ol: "length (data output) = n * L"
    and pl: "prod_list (tl (sizes output)) = L"
    and bs: "\<And>b. bias = Some b \<Longrightarrow> dim b = 1 \<and> n \<le> length (data b)"
    and U: "U = data (Unfold3dCopyCPU input n_input_plane idp ih iw od oh ow kd kh kw
                 sd sh sw pd ph pw finput)"
  shows "slow_conv3d_update_output_frame input output weight bias finput
           kd kh kw sd sh sw pd ph pw n_input_plane idp ih iw n_output_plane od oh ow
         = (None, (output\<lparr>data := frame_output_data weight bias U n L\<rparr>, finput\<lparr>data := U\<rparr>))"
proof -
  let ?f1 = "Unfold3dCopyCPU input n_input_plane idp ih iw od oh ow kd kh kw
                 sd sh sw pd ph pw finput"
  have f1: "?f1 = finput\<lparr>data := U\<rparr>"
    unfolding U by (rule unfold_as_update)
  have mmv: "mm weight (finput\<lparr>data := U\<rparr>)
      = Inr \<lparr>sizes = [n, L], data = matmul_data n K L (data weight) U\<rparr>"
    using w2 fs by (simp add: mm_def dim_def tsize_def)
  show ?thesis
  proof (cases bias)
    case None
    show ?thesis
      unfolding slow_conv3d_update_output_frame_def Let_def f1
      using None mmv w2
      by (simp add: mm_out_def reshape_def frame_output_data_def n L tsize_def)
  next
    case (Some b)
    from bs [OF Some] have db: "dim b = 1" and lb: "n \<le> length (data b)"
      by simp_all
    have fill: "fold (\<lambda>i out. select_store out i (fill_inplace (select out i) (item (select b i))))
           [0..<nat n_output_plane] output
         = output\<lparr>data := bias_broadcast b n L\<rparr>"
      unfolding n [symmetric] using ol lb db pl by (rule fill_loop_full)
    have m2: "map2 (\<lambda>s x. 1 * s + 1 * x) xs ys = map2 (+) xs ys" for xs ys :: "'a list"
      by simp
    show ?thesis
      unfolding slow_conv3d_update_output_frame_def Let_def f1
      using Some mmv w2
      by (simp add: fill addmm_inplace_def reshape_def frame_output_data_def n L tsize_def)
  qed
qed

lemma run_range_invariant:
  assumes step: "\<And>t s. k \<le> t \<Longrightarrow> t < n \<Longrightarrow> I t s \<Longrightarrow> \<exists>s'. f t s = (None, s') \<and> I (Suc t) s'"
    and init: "I k s" and kn: "k \<le> n"
  shows "\<exists>s'. run_range f [k..<n] s = (None, s') \<and> I n s'"
  using step init kn
proof (induction "n - k" arbitrary: k s)
  case 0
  then show ?case by simp
next
  case (Suc d)
  then have lt: "k < n" by simp
  from Suc.prems(1) [OF le_refl lt Suc.prems(2)]
  obtain s1 where s1: "f k s = (None, s1)" "I (Suc k) s1" by blast
  have d: "d = n - Suc k" using Suc.hyps(2) by simp
  have "\<exists>s'. run_range f [Suc k..<n] s1 = (None, s') \<and> I n s'"
  proof (rule Suc.hyps(1) [OF d])
    show "\<exists>s'. f t s = (None, s') \<and> I (Suc t) s'" if "Suc k \<le> t" "t < n" "I t s" for t s
      using that Suc.prems(1) [of t s] by simp
    show "I (Suc k) s1" by (rule s1(2))
    show "Suc k \<le> n" using lt by simp
  qed
  then show ?case
    using lt s1(1) by (simp add: upt_conv_Cons)
qed

lemma concat_upt_Suc: "concat (map G [0..<Suc t]) = concat (map G [0..<t]) @ G t"
  by simp

lemma select_of_prefix:
  assumes "length A = t * m" "prod_list (tl szs) = m"
  shows "select \<lparr>sizes = szs, data = A @ drop (t * m) d\<rparr> t
         = \<lparr>sizes = tl szs, data = take m (drop (t * m) d)\<rparr>"
  using assms by (simp add: select_def)

lemma select_store_of_prefix:
  assumes "length A = t * m" "prod_list (tl szs) = m"
  shows "select_store \<lparr>sizes = szs, data = A @ drop (t * m) d\<rparr> t s
         = \<lparr>sizes = szs, data = (A @ data s) @ drop (Suc t * m) d\<rparr>"
  using assms by (simp add: select_store_def add.commute)

lemma length_unfold_columns:
  "length (unfold_columns src C X_D X_H X_W Y_D Y_H Y_W kernel_d kernel_h kernel_w
     stride_d stride_h stride_w pad_d pad_h pad_w)
   = nat (C * kernel_d * kernel_h * kernel_w) * nat (Y_D * Y_H * Y_W)"
  unfolding unfold_columns_def by (rule length_unfold_data)

lemma length_frame_output_data:
  "length (bias_broadcast b n L) = n * L \<Longrightarrow> length (frame_output_data weight bias cols n L) = n * L"
  by (simp add: frame_output_data_def Let_def length_bias_broadcast split: option.splits)

lemma forward_loop:
  fixes W2 :: "'a::semiring_1 Tensor"
  assumes w2: "sizes W2 = [n, K]"
    and n: "n = nat n_output_plane"
    and K: "K = nat (n_input_plane * kd * kh * kw)"
    and L: "L = nat (od * oh * ow)"
    and so: "prod_list (tl so) = n * L" "prod_list (tl (tl so)) = L"
    and sf: "sf = [N, K, L]"
    and lo: "length dO = N * (n * L)"
    and lf: "length dF = N * (K * L)"
    and bs: "\<And>b. bias = Some b \<Longrightarrow> dim b = 1 \<and> n \<le> length (data b)"
    and U_def: "U = (\<lambda>t. unfold_columns (select input t) n_input_plane idp ih iw od oh ow
                 kd kh kw sd sh sw pd ph pw)"
  shows "parallel_for 0 N g
           (\<lambda>t (output, finput).
               let input_t = select input t;
                   output_t = select output t;
                   finput_t = select finput t
               in case slow_conv3d_update_output_frame
                         input_t output_t W2 bias finput_t
                         kd kh kw sd sh sw pd ph pw
                         n_input_plane idp ih iw
                         n_output_plane od oh ow of
                    (err, (output_t', finput_t')) \<Rightarrow>
                      (err, (select_store output t output_t',
                             select_store finput t finput_t')))
           (\<lparr>sizes = so, data = dO\<rparr>, \<lparr>sizes = sf, data = dF\<rparr>)
         = (None, (\<lparr>sizes = so, data = concat (map (\<lambda>t. frame_output_data W2 bias (U t) n L) [0..<N])\<rparr>,
                   \<lparr>sizes = sf, data = concat (map U [0..<N])\<rparr>))"
proof -
  let ?D = "\<lambda>t. frame_output_data W2 bias (U t) n L"
  let ?f = "\<lambda>t (output, finput).
               let input_t = select input t;
                   output_t = select output t;
                   finput_t = select finput t
               in case slow_conv3d_update_output_frame
                         input_t output_t W2 bias finput_t
                         kd kh kw sd sh sw pd ph pw
                         n_input_plane idp ih iw
                         n_output_plane od oh ow of
                    (err, (output_t', finput_t')) \<Rightarrow>
                      (err, (select_store output t output_t',
                             select_store finput t finput_t'))"
  let ?I = "\<lambda>t s. s = (\<lparr>sizes = so, data = concat (map ?D [0..<t]) @ drop (t * (n * L)) dO\<rparr>,
                        \<lparr>sizes = sf, data = concat (map U [0..<t]) @ drop (t * (K * L)) dF\<rparr>)"
  have lU: "length (U t) = K * L" for t
    unfolding U_def K L by (rule length_unfold_columns)
  have lD: "length (?D t) = n * L" for t
    by (rule length_frame_output_data) (rule length_bias_broadcast)
  have lcU: "length (concat (map U [0..<t])) = t * (K * L)" for t
    by (rule length_concat_const) (rule lU)
  have lcD: "length (concat (map ?D [0..<t])) = t * (n * L)" for t
    by (rule length_concat_const) (rule lD)
  have psf: "prod_list (tl sf) = K * L" "tl sf = [K, L]"
    by (simp_all add: sf)
  have step: "\<exists>s'. ?f t s = (None, s') \<and> ?I (Suc t) s'" if "t < N" "?I t s" for t s
  proof -
    let ?O = "\<lparr>sizes = so, data = concat (map ?D [0..<t]) @ drop (t * (n * L)) dO\<rparr>"
    let ?F = "\<lparr>sizes = sf, data = concat (map U [0..<t]) @ drop (t * (K * L)) dF\<rparr>"
    let ?ot = "\<lparr>sizes = tl so, data = take (n * L) (drop (t * (n * L)) dO)\<rparr>"
    let ?ft = "\<lparr>sizes = tl sf, data = take (K * L) (drop (t * (K * L)) dF)\<rparr>"
    have s: "s = (?O, ?F)" using that(2) .
    have selO: "select ?O t = ?ot"
      using lcD so(1) by (rule select_of_prefix)
    have selF: "select ?F t = ?ft"
      using lcU psf(1) by (rule select_of_prefix)
    have lot: "length (data ?ot) = n * L"
      using take_slice_length [OF lo that(1)] by simp
    have Ueq: "data (Unfold3dCopyCPU (select input t) n_input_plane idp ih iw od oh ow kd kh kw
                 sd sh sw pd ph pw ?ft) = U t"
      unfolding U_def unfold_columns_def by (rule unfold_data_dst)
    have fr: "slow_conv3d_update_output_frame (select input t) ?ot W2 bias ?ft
           kd kh kw sd sh sw pd ph pw n_input_plane idp ih iw n_output_plane od oh ow
         = (None, (?ot\<lparr>data := ?D t\<rparr>, ?ft\<lparr>data := U t\<rparr>))"
      by (rule frame_success [OF w2 n K L _ lot _ bs Ueq [symmetric]]) (simp_all add: psf so)
    have stO: "select_store ?O t (?ot\<lparr>data := ?D t\<rparr>)
        = \<lparr>sizes = so, data = (concat (map ?D [0..<t]) @ ?D t) @ drop (Suc t * (n * L)) dO\<rparr>"
      using select_store_of_prefix [OF lcD so(1), of t dO "?ot\<lparr>data := ?D t\<rparr>"] by simp
    have stF: "select_store ?F t (?ft\<lparr>data := U t\<rparr>)
        = \<lparr>sizes = sf, data = (concat (map U [0..<t]) @ U t) @ drop (Suc t * (K * L)) dF\<rparr>"
      using select_store_of_prefix [OF lcU psf(1), of t dF "?ft\<lparr>data := U t\<rparr>"] by simp
    have "?f t s = (None, (select_store ?O t (?ot\<lparr>data := ?D t\<rparr>),
                            select_store ?F t (?ft\<lparr>data := U t\<rparr>)))"
      unfolding s by (simp only: split Let_def selO selF fr)
    then show ?thesis
      unfolding stO stF by (simp only: concat_upt_Suc) simp
  qed
  have "\<exists>s'. run_range ?f [0..<N] (\<lparr>sizes = so, data = dO\<rparr>, \<lparr>sizes = sf, data = dF\<rparr>) = (None, s') \<and> ?I N s'"
  proof (rule run_range_invariant [where I = ?I])
    show "\<exists>s'. ?f t s = (None, s') \<and> ?I (Suc t) s'" if "0 \<le> t" "t < N" "?I t s" for t s
      using that(2,3) by (rule step)
    show "?I 0 (\<lparr>sizes = so, data = dO\<rparr>, \<lparr>sizes = sf, data = dF\<rparr>)" by simp
    show "0 \<le> N" by simp
  qed
  then show ?thesis
    unfolding parallel_for_def using lo lf by auto
qed

lemma sizes_resize [simp]: "sizes (resize_inplace mem t ns) = ns"
  by (simp add: resize_inplace_def)

lemma well_formed_resize:
  "well_formed t \<Longrightarrow> length (data (resize_inplace mem t ns)) = prod_list ns"
  by (auto simp add: resize_inplace_def well_formed_def numel_def)

lemma resize_as_record:
  "well_formed t \<Longrightarrow> \<exists>d. resize_inplace mem t ns = \<lparr>sizes = ns, data = d\<rparr> \<and> length d = prod_list ns"
  by (cases t) (auto simp add: resize_inplace_def well_formed_def numel_def)

lemma sizes_view_weight_2d:
  assumes "dim w = 2 \<or> dim w = 5"
  shows "sizes (view_weight_2d w) =
           [tsize w 0, if dim w = 5 then tsize w 1 * tsize w 2 * tsize w 3 * tsize w 4 else tsize w 1]"
proof (cases "dim w = 5")
  case True
  then show ?thesis
    by (simp add: view_weight_2d_def contiguous_def reshape_def Let_def)
next
  case False
  with assms have "length (sizes w) = 2" by (simp add: dim_def)
  then obtain a b where "sizes w = [a, b]"
    by (cases "sizes w"; cases "tl (sizes w)") auto
  with False show ?thesis
    by (simp add: view_weight_2d_def contiguous_def Let_def tsize_def dim_def)
qed

lemma forward_result:
  fixes self :: "'a::semiring_1 Tensor"
  assumes ok: "slow_conv3d_shape_check self None weight bias kd kh kw sd sh sw pd ph pw False = Inr ()"
    and wfo: "well_formed output" and wff: "well_formed finput"
    and wfb: "\<And>b. bias = Some b \<Longrightarrow> well_formed b"
    and w: "weight = Some w"
    and compat: "tsize (view_weight_2d w) 1 = nat (int (tsize self 1) * kd * kh * kw)"
    and od: "od = (int (tsize self 2) + 2 * pd - kd) div sd + 1"
    and oh: "oh = (int (tsize self 3) + 2 * ph - kh) div sh + 1"
    and ow: "ow = (int (tsize self 4) + 2 * pw - kw) div sw + 1"
    and U: "U = (\<lambda>t. unfold_columns (select self t) (int (tsize self 1)) (int (tsize self 2))
                 (int (tsize self 3)) (int (tsize self 4)) od oh ow kd kh kw sd sh sw pd ph pw)"
  shows "slow_conv3d_forward_out_cpu mem output finput fgrad_input self weight (kd, kh, kw) bias
           (sd, sh, sw) (pd, ph, pw)
         = (None,
            (\<lparr>sizes = [tsize self 0, tsize w 0, nat od, nat oh, nat ow],
              data = concat (map (\<lambda>t. frame_output_data (view_weight_2d w) bias (U t) (tsize w 0)
                                         (nat (od * oh * ow))) [0..<tsize self 0])\<rparr>,
             \<lparr>sizes = [tsize self 0, nat (int (tsize self 1) * kd * kh * kw), nat (od * oh * ow)],
              data = concat (map U [0..<tsize self 0])\<rparr>,
             fgrad_input))"
proof -
  note c = shape_check_forward_ok [OF ok]
  from c(1) w have dw: "dim w = 2 \<or> dim w = 5"
    and bw: "\<And>b. bias = Some b \<Longrightarrow> dim b = 1 \<and> tsize b 0 = tsize w 0"
    by auto
  have sd_eq: "(int (tsize self 2) + 2 * pd - kd) sdiv sd = (int (tsize self 2) + 2 * pd - kd) div sd"
    using c(5,10) by (intro sdiv_nonneg_pos) simp_all
  have sh_eq: "(int (tsize self 3) + 2 * ph - kh) sdiv sh = (int (tsize self 3) + 2 * ph - kh) div sh"
    using c(6,11) by (intro sdiv_nonneg_pos) simp_all
  have sw_eq: "(int (tsize self 4) + 2 * pw - kw) sdiv sw = (int (tsize self 4) + 2 * pw - kw) div sw"
    using c(7,12) by (intro sdiv_nonneg_pos) simp_all
  have pos: "1 \<le> od" "1 \<le> oh" "1 \<le> ow"
    using c(5-7,10-12) by (simp_all add: od oh ow pos_imp_zdiv_nonneg_iff)
  define N where "N = tsize self 0"
  define n where "n = tsize w 0"
  define K where "K = nat (int (tsize self 1) * kd * kh * kw)"
  define L where "L = nat (od * oh * ow)"
  define so where "so = [N, n, nat od, nat oh, nat ow]"
  have L3: "nat od * (nat oh * nat ow) = L"
    using pos by (simp add: L_def nat_mult_distrib mult.assoc)
  have sW2: "sizes (view_weight_2d w) = [n, K]"
    using sizes_view_weight_2d [OF dw] compat by (simp add: n_def K_def tsize_def)
  from resize_as_record [OF wfo, of mem so]
  obtain dO where dO: "resize_inplace mem output so = \<lparr>sizes = so, data = dO\<rparr>"
    "length dO = prod_list so" by blast
  from resize_as_record [OF wff, of mem "[N, K, L]"]
  obtain dF where dF: "resize_inplace mem finput [N, K, L] = \<lparr>sizes = [N, K, L], data = dF\<rparr>"
    "length dF = prod_list [N, K, L]" by blast
  have bs: "dim b = 1 \<and> n \<le> length (data b)" if "bias = Some b" for b
  proof -
    from bw [OF that] have d: "dim b = 1" "tsize b 0 = n" by (simp_all add: n_def)
    then obtain x where "sizes b = [x]"
      by (cases "sizes b") (auto simp add: dim_def)
    with d wfb [OF that] show ?thesis
      by (simp add: well_formed_def numel_def tsize_def)
  qed
  have loop: "parallel_for 0 N CONV3D_GRAIN_SALT
           (\<lambda>t (output, finput).
               let input_t = select self t;
                   output_t = select output t;
                   finput_t = select finput t
               in case slow_conv3d_update_output_frame
                         input_t output_t (view_weight_2d w) bias finput_t
                         kd kh kw sd sh sw pd ph pw
                         (int (tsize self 1)) (int (tsize self 2)) (int (tsize self 3))
                         (int (tsize self 4))
                         (int n) od oh ow of
                    (err, (output_t', finput_t')) \<Rightarrow>
                      (err, (select_store output t output_t',
                             select_store finput t finput_t')))
           (\<lparr>sizes = so, data = dO\<rparr>, \<lparr>sizes = [N, K, L], data = dF\<rparr>)
         = (None, (\<lparr>sizes = so, data = concat (map (\<lambda>t. frame_output_data (view_weight_2d w) bias (U t) n L) [0..<N])\<rparr>,
                   \<lparr>sizes = [N, K, L], data = concat (map U [0..<N])\<rparr>))"
  proof (rule forward_loop [OF sW2 _ K_def L_def _ _ refl _ _ bs U])
    show "n = nat (int n)" by simp
    show "prod_list (tl so) = n * L" by (simp add: so_def L3)
    show "prod_list (tl (tl so)) = L" by (simp add: so_def L3)
    show "length dO = N * (n * L)" using dO(2) by (simp add: so_def L3)
    show "length dF = N * (K * L)" using dF(2) by simp
  qed
  have n2: "tsize (view_weight_2d w) 0 = n"
    using sW2 by (simp add: tsize_def)
  have ok': "slow_conv3d_shape_check self None (Some w) bias kd kh kw sd sh sw pd ph pw False = Inr ()"
    using ok w by simp
  show ?thesis
    unfolding slow_conv3d_forward_out_cpu_def
    using loop dO(1) dF(1) n2
    unfolding N_def n_def K_def L_def so_def od oh ow
    by (simp add: ok' w Let_def contiguous_def sd_eq sh_eq sw_eq)
qed

lemma run_range_preserves:
  assumes "\<And>t s. P s \<Longrightarrow> P (snd (f t s))" and "P s"
  shows "P (snd (run_range f ts s))"
  using assms(2)
proof (induction ts arbitrary: s)
  case Nil
  then show ?case by simp
next
  case (Cons t ts)
  obtain e s1 where fs: "f t s = (e, s1)" by (cases "f t s")
  from assms(1) [OF Cons.prems, of t] fs have "P s1" by simp
  show ?case
  proof (cases e)
    case None
    with fs Cons.IH [OF \<open>P s1\<close>] show ?thesis by simp
  next
    case (Some a)
    with fs \<open>P s1\<close> show ?thesis by simp
  qed
qed

lemma sizes_select_store [simp]: "sizes (select_store t i s) = sizes t"
  by (simp add: select_store_def Let_def)

lemma forward_check_failed:
  assumes "slow_conv3d_shape_check self None weight bias kd kh kw sd sh sw pd ph pw False = Inl e"
  shows "slow_conv3d_forward_out_cpu mem output finput fgrad_input self weight (kd, kh, kw) bias
           (sd, sh, sw) (pd, ph, pw) = (Some e, (output, finput, fgrad_input))"
  using assms by (simp add: slow_conv3d_forward_out_cpu_def)

lemma forward_sizes:
  fixes self :: "'a::semiring_1 Tensor"
  assumes ok: "slow_conv3d_shape_check self None weight bias kd kh kw sd sh sw pd ph pw False = Inr ()"
    and w: "weight = Some w"
    and od: "od = (int (tsize self 2) + 2 * pd - kd) div sd + 1"
    and oh: "oh = (int (tsize self 3) + 2 * ph - kh) div sh + 1"
    and ow: "ow = (int (tsize self 4) + 2 * pw - kw) div sw + 1"
    and R: "R = slow_conv3d_forward_out_cpu mem output finput fgrad_input self weight (kd, kh, kw)
                  bias (sd, sh, sw) (pd, ph, pw)"
  shows "sizes (fst (snd R)) = [tsize self 0, tsize w 0, nat od, nat oh, nat ow]"
    and "sizes (fst (snd (snd R)))
           = [tsize self 0, nat (int (tsize self 1) * kd * kh * kw), nat (od * oh * ow)]"
    and "snd (snd (snd R)) = fgrad_input"
    and "1 \<le> od" "1 \<le> oh" "1 \<le> ow"
proof -
  note c = shape_check_forward_ok [OF ok]
  from c(1) w have dw: "dim w = 2 \<or> dim w = 5" by auto
  have sd_eq: "(int (tsize self 2) + 2 * pd - kd) sdiv sd = (int (tsize self 2) + 2 * pd - kd) div sd"
    using c(5,10) by (intro sdiv_nonneg_pos) simp_all
  have sh_eq: "(int (tsize self 3) + 2 * ph - kh) sdiv sh = (int (tsize self 3) + 2 * ph - kh) div sh"
    using c(6,11) by (intro sdiv_nonneg_pos) simp_all
  have sw_eq: "(int (tsize self 4) + 2 * pw - kw) sdiv sw = (int (tsize self 4) + 2 * pw - kw) div sw"
    using c(7,12) by (intro sdiv_nonneg_pos) simp_all
  show "1 \<le> od" "1 \<le> oh" "1 \<le> ow"
    using c(5-7,10-12) by (simp_all add: od oh ow pos_imp_zdiv_nonneg_iff)
  have n2: "tsize (view_weight_2d w) 0 = tsize w 0"
    using sizes_view_weight_2d [OF dw] by (simp add: tsize_def)
  let ?so = "[tsize self 0, tsize w 0, nat od, nat oh, nat ow]"
  let ?sf = "[tsize self 0, nat (int (tsize self 1) * kd * kh * kw), nat (od * oh * ow)]"
  let ?P = "\<lambda>s. sizes (fst s) = ?so \<and> sizes (snd s) = ?sf"
  have ok': "slow_conv3d_shape_check self None (Some w) bias kd kh kw sd sh sw pd ph pw False = Inr ()"
    using ok w by simp
  obtain f where
    Rf: "R = (case parallel_for 0 (tsize self 0) CONV3D_GRAIN_SALT f
                (resize_inplace mem output ?so, resize_inplace mem finput ?sf) of
                (err, (output2, finput2)) \<Rightarrow> (err, (output2, finput2, fgrad_input)))"
    and fP: "\<And>t s. ?P s \<Longrightarrow> ?P (snd (f t s))"
  proof
    let ?f = "\<lambda>t (output, finput).
               let input_t = select self t;
                   output_t = select output t;
                   finput_t = select finput t
               in case slow_conv3d_update_output_frame
                         input_t output_t (view_weight_2d w) bias finput_t
                         kd kh kw sd sh sw pd ph pw
                         (int (tsize self 1)) (int (tsize self 2)) (int (tsize self 3))
                         (int (tsize self 4))
                         (int (tsize w 0)) od oh ow of
                    (err, (output_t', finput_t')) \<Rightarrow>
                      (err, (select_store output t output_t',
                             select_store finput t finput_t'))"
    show "R = (case parallel_for 0 (tsize self 0) CONV3D_GRAIN_SALT ?f
                (resize_inplace mem output ?so, resize_inplace mem finput ?sf) of
                (err, (output2, finput2)) \<Rightarrow> (err, (output2, finput2, fgrad_input)))"
      unfolding R slow_conv3d_forward_out_cpu_def od oh ow
      by (simp add: ok' w Let_def contiguous_def sd_eq sh_eq sw_eq n2)
    show "?P (snd (?f t s))" if "?P s" for t s
      using that by (cases s) (simp add: Let_def split: prod.splits)
  qed
  have "?P (snd (run_range f [0..<tsize self 0]
                  (resize_inplace mem output ?so, resize_inplace mem finput ?sf)))"
    by (rule run_range_preserves [where P = ?P]) (simp_all add: fP)
  then show "sizes (fst (snd R)) = ?so" "sizes (fst (snd (snd R))) = ?sf"
    "snd (snd (snd R)) = fgrad_input"
    unfolding Rf parallel_for_def by (auto split: prod.splits)
qed

lemma frame_shape_mismatch:
  fixes weight :: "'a::semiring_1 Tensor"
  assumes "sizes weight = [n, K']" "sizes finput = [K, L]" "K' \<noteq> K"
  shows "\<exists>st. slow_conv3d_update_output_frame input output weight bias finput
           kd kh kw sd sh sw pd ph pw n_input_plane idp ih iw n_output_plane od oh ow
         = (Some (InvalidArgument MatrixShapeMismatch), st)"
proof -
  have "mm weight (Unfold3dCopyCPU input n_input_plane idp ih iw od oh ow kd kh kw
                 sd sh sw pd ph pw finput) = Inl (InvalidArgument MatrixShapeMismatch)"
    using assms by (simp add: mm_def dim_def tsize_def)
  then show ?thesis
    by (cases bias)
       (simp_all add: slow_conv3d_update_output_frame_def Let_def mm_out_def addmm_inplace_def)
qed

lemma sizes_select [simp]: "sizes (select t i) = tl (sizes t)"
  by (simp add: select_def Let_def)

lemma forward_shape_mismatch:
  fixes self :: "'a::semiring_1 Tensor"
  assumes ok: "slow_conv3d_shape_check self None weight bias kd kh kw sd sh sw pd ph pw False = Inr ()"
    and w: "weight = Some w"
    and N: "0 < tsize self 0"
    and incompat: "tsize (view_weight_2d w) 1 \<noteq> nat (int (tsize self 1) * kd * kh * kw)"
  shows "fst (slow_conv3d_forward_out_cpu mem output finput fgrad_input self weight (kd, kh, kw)
                bias (sd, sh, sw) (pd, ph, pw)) = Some (InvalidArgument MatrixShapeMismatch)"
proof -
  note c = shape_check_forward_ok [OF ok]
  from c(1) w have dw: "dim w = 2 \<or> dim w = 5" by auto
  have sW2: "sizes (view_weight_2d w) = [tsize w 0, tsize (view_weight_2d w) 1]"
    using sizes_view_weight_2d [OF dw] by (simp add: tsize_def)
  have ok': "slow_conv3d_shape_check self None (Some w) bias kd kh kw sd sh sw pd ph pw False = Inr ()"
    using ok w by simp
  have up: "[0..<tsize self 0] = 0 # [Suc 0..<tsize self 0]"
    using N by (simp add: upt_conv_Cons)
  define od where "od = (int (tsize self 2) + 2 * pd - kd) sdiv sd + 1"
  define oh where "oh = (int (tsize self 3) + 2 * ph - kh) sdiv sh + 1"
  define ow where "ow = (int (tsize self 4) + 2 * pw - kw) sdiv sw + 1"
  let ?so = "[tsize self 0, tsize w 0, nat od, nat oh, nat ow]"
  let ?sf = "[tsize self 0, nat (int (tsize self 1) * kd * kh * kw), nat (od * oh * ow)]"
  have n2: "tsize (view_weight_2d w) 0 = tsize w 0"
    using sizes_view_weight_2d [OF dw] by (simp add: tsize_def)
  obtain f where
    Rf: "slow_conv3d_forward_out_cpu mem output finput fgrad_input self weight (kd, kh, kw)
                bias (sd, sh, sw) (pd, ph, pw)
         = (case run_range f [0..<tsize self 0]
                (resize_inplace mem output ?so, resize_inplace mem finput ?sf) of
                (err, (output2, finput2)) \<Rightarrow> (err, (output2, finput2, fgrad_input)))"
    and f0: "\<And>s. sizes (snd s) = ?sf \<Longrightarrow> fst (f 0 s) = Some (InvalidArgument MatrixShapeMismatch)"
  proof
    let ?f = "\<lambda>t (output, finput).
               let input_t = select self t;
                   output_t = select output t;
                   finput_t = select finput t
               in case slow_conv3d_update_output_frame
                         input_t output_t (view_weight_2d w) bias finput_t
                         kd kh kw sd sh sw pd ph pw
                         (int (tsize self 1)) (int (tsize self 2)) (int (tsize self 3))
                         (int (tsize self 4))
                         (int (tsize w 0)) od oh ow of
                    (err, (output_t', finput_t')) \<Rightarrow>
                      (err, (select_store output t output_t',
                             select_store finput t finput_t'))"
    show "slow_conv3d_forward_out_cpu mem output finput fgrad_input self weight (kd, kh, kw)
                bias (sd, sh, sw) (pd, ph, pw)
         = (case run_range ?f [0..<tsize self 0]
                (resize_inplace mem output ?so, resize_inplace mem finput ?sf) of
                (err, (output2, finput2)) \<Rightarrow> (err, (output2, finput2, fgrad_input)))"
      unfolding slow_conv3d_forward_out_cpu_def od_def oh_def ow_def parallel_for_def
      by (simp add: ok' w Let_def contiguous_def n2)
    show "fst (?f 0 s) = Some (InvalidArgument MatrixShapeMismatch)" if "sizes (snd s) = ?sf" for s
    proof -
      obtain ob fb where s: "s = (ob, fb)" by (cases s)
      with that have sF: "sizes (select fb 0) = [nat (int (tsize self 1) * kd * kh * kw), nat (od * oh * ow)]"
        by simp
      have "\<exists>st. slow_conv3d_update_output_frame (select self 0) (select ob 0)
            (view_weight_2d w) bias (select fb 0) kd kh kw sd sh sw pd ph pw
            (int (tsize self 1)) (int (tsize self 2)) (int (tsize self 3)) (int (tsize self 4))
            (int (tsize w 0)) od oh ow = (Some (InvalidArgument MatrixShapeMismatch), st)"
        by (rule frame_shape_mismatch [OF sW2 sF incompat])
      then obtain st where "slow_conv3d_update_output_frame (select self 0) (select ob 0)
            (view_weight_2d w) bias (select fb 0) kd kh kw sd sh sw pd ph pw
            (int (tsize self 1)) (int (tsize self 2)) (int (tsize self 3)) (int (tsize self 4))
            (int (tsize w 0)) od oh ow = (Some (InvalidArgument MatrixShapeMismatch), st)"
        by (rule exE)
      then show ?thesis
        unfolding s by (simp add: Let_def split: prod.splits)
    qed
  qed
  obtain e s1 where fs: "f 0 (resize_inplace mem output ?so, resize_inplace mem finput ?sf) = (e, s1)"
    by (cases "f 0 (resize_inplace mem output ?so, resize_inplace mem finput ?sf)")
  with f0 [of "(resize_inplace mem output ?so, resize_inplace mem finput ?sf)"]
  have "e = Some (InvalidArgument MatrixShapeMismatch)" by simp
  with fs show ?thesis
    unfolding Rf up by (simp split: prod.splits)
qed

lemma forward_empty:
  fixes self :: "'a::semiring_1 Tensor"
  assumes ok: "slow_conv3d_shape_check self None weight bias kd kh kw sd sh sw pd ph pw False = Inr ()"
    and w: "weight = Some w"
    and N: "tsize self 0 = 0"
    and od: "od = (int (tsize self 2) + 2 * pd - kd) div sd + 1"
    and oh: "oh = (int (tsize self 3) + 2 * ph - kh) div sh + 1"
    and ow: "ow = (int (tsize self 4) + 2 * pw - kw) div sw + 1"
  shows "slow_conv3d_forward_out_cpu mem output finput fgrad_input self weight (kd, kh, kw) bias
           (sd, sh, sw) (pd, ph, pw)
         = (None,
            (resize_inplace mem output [0, tsize w 0, nat od, nat oh, nat ow],
             resize_inplace mem finput [0, nat (int (tsize self 1) * kd * kh * kw), nat (od * oh * ow)],
             fgrad_input))"
proof -
  note c = shape_check_forward_ok [OF ok]
  from c(1) w have dw: "dim w = 2 \<or> dim w = 5" by auto
  have sd_eq: "(int (tsize self 2) + 2 * pd - kd) sdiv sd = (int (tsize self 2) + 2 * pd - kd) div sd"
    using c(5,10) by (intro sdiv_nonneg_pos) simp_all
  have sh_eq: "(int (tsize self 3) + 2 * ph - kh) sdiv sh = (int (tsize self 3) + 2 * ph - kh) div sh"
    using c(6,11) by (intro sdiv_nonneg_pos) simp_all
  have sw_eq: "(int (tsize self 4) + 2 * pw - kw) sdiv sw = (int (tsize self 4) + 2 * pw - kw) div sw"
    using c(7,12) by (intro sdiv_nonneg_pos) simp_all
  have n2: "tsize (view_weight_2d w) 0 = tsize w 0"
    using sizes_view_weight_2d [OF dw] by (simp add: tsize_def)
  have ok': "slow_conv3d_shape_check self None (Some w) bias kd kh kw sd sh sw pd ph pw False = Inr ()"
    using ok w by simp
  show ?thesis
    unfolding slow_conv3d_forward_out_cpu_def od oh ow parallel_for_def
    by (simp add: ok' w Let_def contiguous_def sd_eq sh_eq sw_eq n2 N)
qed

lemma forward_success:
  fixes self :: "'a::semiring_1 Tensor"
  assumes succ: "fst (slow_conv3d_forward_out_cpu mem output finput fgrad_input self weight
                   (kd, kh, kw) bias (sd, sh, sw) (pd, ph, pw)) = None"
    and wfo: "well_formed output" and wff: "well_formed finput"
    and wfb: "\<And>b. bias = Some b \<Longrightarrow> well_formed b"
    and od: "od = (int (tsize self 2) + 2 * pd - kd) div sd + 1"
    and oh: "oh = (int (tsize self 3) + 2 * ph - kh) div sh + 1"
    and ow: "ow = (int (tsize self 4) + 2 * pw - kw) div sw + 1"
    and U: "U = (\<lambda>t. unfold_columns (select self t) (int (tsize self 1)) (int (tsize self 2))
                 (int (tsize self 3)) (int (tsize self 4)) od oh ow kd kh kw sd sh sw pd ph pw)"
  shows "\<exists>w. weight = Some w \<and>
           slow_conv3d_shape_check self None weight bias kd kh kw sd sh sw pd ph pw False = Inr () \<and>
           (tsize self 0 = 0 \<or>
            tsize (view_weight_2d w) 1 = nat (int (tsize self 1) * kd * kh * kw)) \<and>
           slow_conv3d_forward_out_cpu mem output finput fgrad_input self weight (kd, kh, kw) bias
             (sd, sh, sw) (pd, ph, pw)
           = (None,
              (\<lparr>sizes = [tsize self 0, tsize w 0, nat od, nat oh, nat ow],
                data = concat (map (\<lambda>t. frame_output_data (view_weight_2d w) bias (U t) (tsize w 0)
                                           (nat (od * oh * ow))) [0..<tsize self 0])\<rparr>,
               \<lparr>sizes = [tsize self 0, nat (int (tsize self 1) * kd * kh * kw), nat (od * oh * ow)],
                data = concat (map U [0..<tsize self 0])\<rparr>,
               fgrad_input))"
proof -
  have ok: "slow_conv3d_shape_check self None weight bias kd kh kw sd sh sw pd ph pw False = Inr ()"
  proof (cases "slow_conv3d_shape_check self None weight bias kd kh kw sd sh sw pd ph pw False")
    case (Inl e)
    from forward_check_failed [OF this] succ show ?thesis by simp
  next
    case (Inr u)
    then show ?thesis by simp
  qed
  from shape_check_forward_ok(1) [OF ok] obtain w where w: "weight = Some w" by blast
  show ?thesis
  proof (cases "tsize self 0 = 0")
    case True
    let ?so = "[0, tsize w 0, nat od, nat oh, nat ow]"
    let ?sf = "[0, nat (int (tsize self 1) * kd * kh * kw), nat (od * oh * ow)]"
    from resize_as_record [OF wfo, of mem ?so]
    have ro: "resize_inplace mem output ?so = \<lparr>sizes = ?so, data = []\<rparr>" by auto
    from resize_as_record [OF wff, of mem ?sf]
    have rf: "resize_inplace mem finput ?sf = \<lparr>sizes = ?sf, data = []\<rparr>" by auto
    have "slow_conv3d_forward_out_cpu mem output finput fgrad_input self weight (kd, kh, kw) bias
             (sd, sh, sw) (pd, ph, pw)
           = (None, (\<lparr>sizes = ?so, data = []\<rparr>, \<lparr>sizes = ?sf, data = []\<rparr>, fgrad_input))"
      unfolding ro [symmetric] rf [symmetric] by (rule forward_empty [OF ok w True od oh ow])
    then show ?thesis
      using ok w True by simp
  next
    case False
    have compat: "tsize (view_weight_2d w) 1 = nat (int (tsize self 1) * kd * kh * kw)"
    proof (rule ccontr)
      assume "tsize (view_weight_2d w) 1 \<noteq> nat (int (tsize self 1) * kd * kh * kw)"
      from forward_shape_mismatch [OF ok w _ this, of mem "output" finput fgrad_input] False succ
      show False by simp
    qed
    show ?thesis
      using forward_result [OF ok wfo wff wfb w compat od oh ow U, of mem fgrad_input] ok w compat
      by simp
  qed
qed

lemma forward_result_gen:
  fixes self :: "'a::semiring_1 Tensor"
  assumes ok: "slow_conv3d_shape_check self None weight bias kd kh kw sd sh sw pd ph pw False = Inr ()"
    and wfo: "well_formed output" and wff: "well_formed finput"
    and wfb: "\<And>b. bias = Some b \<Longrightarrow> well_formed b"
    and w: "weight = Some w"
    and compat: "tsize self 0 = 0 \<or>
           tsize (view_weight_2d w) 1 = nat (int (tsize self 1) * kd * kh * kw)"
    and od: "od = (int (tsize self 2) + 2 * pd - kd) div sd + 1"
    and oh: "oh = (int (tsize self 3) + 2 * ph - kh) div sh + 1"
    and ow: "ow = (int (tsize self 4) + 2 * pw - kw) div sw + 1"
    and U: "U = (\<lambda>t. unfold_columns (select self t) (int (tsize self 1)) (int (tsize self 2))
                 (int (tsize self 3)) (int (tsize self 4)) od oh ow kd kh kw sd sh sw pd ph pw)"
  shows "slow_conv3d_forward_out_cpu mem output finput fgrad_input self weight (kd, kh, kw) bias
           (sd, sh, sw) (pd, ph, pw)
         = (None,
            (\<lparr>sizes = [tsize self 0, tsize w 0, nat od, nat oh, nat ow],
              data = concat (map (\<lambda>t. frame_output_data (view_weight_2d w) bias (U t) (tsize w 0)
                                         (nat (od * oh * ow))) [0..<tsize self 0])\<rparr>,
             \<lparr>sizes = [tsize self 0, nat (int (tsize self 1) * kd * kh * kw), nat (od * oh * ow)],
              data = concat (map U [0..<tsize self 0])\<rparr>,
             fgrad_input))"
proof (cases "tsize self 0 = 0")
  case True
  let ?so = "[0, tsize w 0, nat od, nat oh, nat ow]"
  let ?sf = "[0, nat (int (tsize self 1) * kd * kh * kw), nat (od * oh * ow)]"
  from resize_as_record [OF wfo, of mem ?so]
  have ro: "resize_inplace mem output ?so = \<lparr>sizes = ?so, data = []\<rparr>" by auto
  from resize_as_record [OF wff, of mem ?sf]
  have rf: "resize_inplace mem finput ?sf = \<lparr>sizes = ?sf, data = []\<rparr>" by auto
  have "slow_conv3d_forward_out_cpu mem output finput fgrad_input self weight (kd, kh, kw) bias
           (sd, sh, sw) (pd, ph, pw)
         = (None, (\<lparr>sizes = ?so, data = []\<rparr>, \<lparr>sizes = ?sf, data = []\<rparr>, fgrad_input))"
    unfolding ro [symmetric] rf [symmetric] by (rule forward_empty [OF ok w True od oh ow])
  then show ?thesis
    using True by simp
next
  case False
  with compat have c: "tsize (view_weight_2d w) 1 = nat (int (tsize self 1) * kd * kh * kw)"
    by simp
  show ?thesis
    by (rule forward_result [OF ok wfo wff wfb w c od oh ow U])
qed

lemma slice_index_bound:
  assumes "i < n" "j < (m::nat)"
  shows "i * m + j < n * m"
proof -
  have "i * m + j < i * m + m" using assms(2) by simp
  also have "\<dots> = Suc i * m" by simp
  also have "\<dots> \<le> n * m" using assms(1) by (intro mult_le_mono1) simp
  finally show ?thesis .
qed

lemma nth_concat_const:
  assumes len: "\<And>t. t < n \<Longrightarrow> length (G t) = m" and i: "i < n" and j: "j < m"
  shows "concat (map G [0..<n]) ! (i * m + j) = G i ! j"
  using len i
proof (induction n)
  case 0
  then show ?case by simp
next
  case (Suc n)
  have lc: "length (concat (map G [0..<n])) = n * m"
    by (rule length_concat_const) (simp add: Suc.prems(1))
  show ?case
  proof (cases "i < n")
    case True
    then have "i * m + j < n * m" using j by (rule slice_index_bound)
    with True Suc.IH Suc.prems(1) lc show ?thesis
      by (simp add: nth_append)
  next
    case False
    with Suc.prems(2) have "i = n" by simp
    with lc show ?thesis
      by (simp add: nth_append)
  qed
qed

lemma nth_bias_broadcast:
  assumes "i < n" "j < L"
  shows "bias_broadcast b n L ! (i * L + j) = data b ! i"
proof -
  have "concat (map (\<lambda>i. replicate L (data b ! i)) [0..<n]) ! (i * L + j)
          = replicate L (data b ! i) ! j"
    by (rule nth_concat_const) (simp_all add: assms)
  with assms(2) show ?thesis
    by (simp add: bias_broadcast_def)
qed

lemma nth_unfold_columns:
  assumes "idx < nat (C * kernel_d * kernel_h * kernel_w) * nat (Y_D * Y_H * Y_W)"
  shows "unfold_columns src C X_D X_H X_W Y_D Y_H Y_W kernel_d kernel_h kernel_w
           stride_d stride_h stride_w pad_d pad_h pad_w ! idx
         = (let s = unfold_source C X_D X_H X_W Y_D Y_H Y_W kernel_d kernel_h kernel_w
                      stride_d stride_h stride_w pad_d pad_h pad_w
                      (int idx div (Y_D * Y_H * Y_W)) (int idx mod (Y_D * Y_H * Y_W))
            in if s < 0 then 0 else data src ! nat s)"
  using assms by (simp add: unfold_columns_def Unfold3dCopyCPU_def Let_def)

lemma nth_frame_output_data:
  fixes W :: "'a::semiring_1 Tensor"
  assumes i: "i < n" and j: "j < L"
  shows "frame_output_data W bias cols n L ! (i * L + j)
         = (case bias of Some b \<Rightarrow> data b ! i | None \<Rightarrow> 0) +
           sum_list (map (\<lambda>l. data W ! (i * tsize W 1 + l) * cols ! (l * L + j)) [0..<tsize W 1])"
proof -
  have lt: "i * L + j < n * L" using i j by (rule slice_index_bound)
  have dv: "(i * L + j) div L = i" "(i * L + j) mod L = j"
    using j by simp_all
  have mmn: "matmul_data n (tsize W 1) L (data W) cols ! (i * L + j)
      = sum_list (map (\<lambda>l. data W ! (i * tsize W 1 + l) * cols ! (l * L + j)) [0..<tsize W 1])"
    using lt j by (simp add: matmul_data_def dv del: upt_Suc)
  show ?thesis
  proof (cases bias)
    case None
    then show ?thesis using mmn by (simp add: frame_output_data_def)
  next
    case (Some b)
    then show ?thesis
      using mmn lt nth_bias_broadcast [OF i j, of b]
      by (simp add: frame_output_data_def length_bias_broadcast)
  qed
qed

lemma sum_lessThan_2: "(\<Sum>a<(2::nat). f a) = f 0 + f 1"
  by (simp add: numeral_2_eq_2)

lemma upt_0_8: "[0..<8] = [0, 1, 2, 3, 4, 5, 6, 7]"
  by code_simp

subsection \<open>Forward pass: output size\<close>

text \<open>
  Claim C3. Whenever the forward pass succeeds, each spatial size of the output is
  \<open>(input + 2 * pad - kernel) div stride + 1\<close> (\<open>div\<close> rounds down) and is at least 1;
  and whenever one of these three values is below 1 the call raises
  \<open>InvalidArgument\<close> and produces no output: the three buffers are returned as passed.
\<close>

theorem forward_output_dims:
  fixes self :: "'a::semiring_1 Tensor" and kd kh kw sd sh sw pd ph pw :: int
  defines "od \<equiv> (int (tsize self 2) + 2 * pd - kd) div sd + 1"
    and "oh \<equiv> (int (tsize self 3) + 2 * ph - kh) div sh + 1"
    and "ow \<equiv> (int (tsize self 4) + 2 * pw - kw) div sw + 1"
  shows
  "(fst (slow_conv3d_forward_out_cpu mem output finput fgrad_input self weight (kd, kh, kw) bias
           (sd, sh, sw) (pd, ph, pw)) = None \<longrightarrow>
      map int (drop 2 (sizes (fst (snd
        (slow_conv3d_forward_out_cpu mem output finput fgrad_input self weight (kd, kh, kw) bias
           (sd, sh, sw) (pd, ph, pw)))))) = [od, oh, ow] \<and>
      1 \<le> od \<and> 1 \<le> oh \<and> 1 \<le> ow) \<and>
   (od < 1 \<or> oh < 1 \<or> ow < 1 \<longrightarrow>
      (\<exists>r. slow_conv3d_forward_out_cpu mem output finput fgrad_input self weight (kd, kh, kw) bias
              (sd, sh, sw) (pd, ph, pw)
            = (Some (InvalidArgument r), (output, finput, fgrad_input))))"
proof -
  let ?R = "slow_conv3d_forward_out_cpu mem output finput fgrad_input self weight (kd, kh, kw) bias
           (sd, sh, sw) (pd, ph, pw)"
  let ?chk = "slow_conv3d_shape_check self None weight bias kd kh kw sd sh sw pd ph pw False"
  have od: "od = (int (tsize self 2) + 2 * pd - kd) div sd + 1"
    and oh: "oh = (int (tsize self 3) + 2 * ph - kh) div sh + 1"
    and ow: "ow = (int (tsize self 4) + 2 * pw - kw) div sw + 1"
    by (simp_all add: od_def oh_def ow_def)
  have okD: "1 \<le> od \<and> 1 \<le> oh \<and> 1 \<le> ow \<and> map int (drop 2 (sizes (fst (snd ?R)))) = [od, oh, ow]"
    if ok: "?chk = Inr ()"
  proof -
    from shape_check_forward_ok(1) [OF ok] obtain w where w: "weight = Some w" by blast
    note s = forward_sizes [OF ok w od oh ow refl]
    from s(1,4,5,6) show ?thesis by simp
  qed
  have first: "map int (drop 2 (sizes (fst (snd ?R)))) = [od, oh, ow] \<and> 1 \<le> od \<and> 1 \<le> oh \<and> 1 \<le> ow"
    if "fst ?R = None"
  proof (cases ?chk)
    case (Inl e)
    from forward_check_failed [OF this] that show ?thesis by simp
  next
    case (Inr u)
    then have "?chk = Inr ()" by simp
    from okD [OF this] show ?thesis by simp
  qed
  have second: "\<exists>r. ?R = (Some (InvalidArgument r), (output, finput, fgrad_input))"
    if small: "od < 1 \<or> oh < 1 \<or> ow < 1"
  proof (cases ?chk)
    case (Inl e)
    obtain r where "e = InvalidArgument r" by (cases e)
    with forward_check_failed [OF Inl] show ?thesis by blast
  next
    case (Inr u)
    then have "?chk = Inr ()" by simp
    from okD [OF this] small show ?thesis by simp
  qed
  from first second show ?thesis by blast
qed

theorem forward_output_dims_witness:
  "map int (drop 2 (sizes (fst (snd
      (slow_conv3d_forward_out_cpu (\<lambda>i. 0)
         \<lparr>sizes = [0], data = []\<rparr> \<lparr>sizes = [0], data = []\<rparr> \<lparr>sizes = [0], data = []\<rparr>
         \<lparr>sizes = [1, 1, 2, 2, 3], data = [1, 2, 3, 4, 5, 6, 7, 8, 9, 10, 11, 12 :: int]\<rparr>
         (Some \<lparr>sizes = [1, 1, 2, 2, 2], data = [1, 1, 1, 1, 1, 1, 1, 1]\<rparr>) (2, 2, 2) None
         (1, 1, 1) (0, 0, 0)))))) = [1, 1, 2] \<and>
   (\<exists>r. slow_conv3d_forward_out_cpu (\<lambda>i. 0)
         \<lparr>sizes = [0], data = []\<rparr> \<lparr>sizes = [0], data = []\<rparr> \<lparr>sizes = [0], data = []\<rparr>
         \<lparr>sizes = [1, 1, 3, 3, 3], data = replicate 27 (1::int)\<rparr>
         (Some \<lparr>sizes = [1, 1, 5, 5, 5], data = replicate 125 1\<rparr>) (5, 5, 5) None
         (1, 1, 1) (0, 0, 0)
       = (Some (InvalidArgument r),
          (\<lparr>sizes = [0], data = []\<rparr>, \<lparr>sizes = [0], data = []\<rparr>, \<lparr>sizes = [0], data = []\<rparr>)))"
proof -
  have s: "fst (slow_conv3d_forward_out_cpu (\<lambda>i. 0)
         \<lparr>sizes = [0], data = []\<rparr> \<lparr>sizes = [0], data = []\<rparr> \<lparr>sizes = [0], data = []\<rparr>
         \<lparr>sizes = [1, 1, 2, 2, 3], data = [1, 2, 3, 4, 5, 6, 7, 8, 9, 10, 11, 12 :: int]\<rparr>
         (Some \<lparr>sizes = [1, 1, 2, 2, 2], data = [1, 1, 1, 1, 1, 1, 1, 1]\<rparr>) (2, 2, 2) None
         (1, 1, 1) (0, 0, 0)) = None"
    by code_simp
  show ?thesis
    using forward_output_dims [of "(\<lambda>i. 0)"
         "\<lparr>sizes = [0], data = []\<rparr>" "\<lparr>sizes = [0], data = []\<rparr>" "\<lparr>sizes = [0], data = []\<rparr>"
         "\<lparr>sizes = [1, 1, 2, 2, 3], data = [1, 2, 3, 4, 5, 6, 7, 8, 9, 10, 11, 12 :: int]\<rparr>"
         "Some \<lparr>sizes = [1, 1, 2, 2, 2], data = [1, 1, 1, 1, 1, 1, 1, 1]\<rparr>" 2 2 2 None
         1 1 1 0 0 0]
       forward_output_dims [of "(\<lambda>i. 0)"
         "\<lparr>sizes = [0], data = []\<rparr>" "\<lparr>sizes = [0], data = []\<rparr>" "\<lparr>sizes = [0], data = []\<rparr>"
         "\<lparr>sizes = [1, 1, 3, 3, 3], data = replicate 27 (1::int)\<rparr>"
         "Some \<lparr>sizes = [1, 1, 5, 5, 5], data = replicate 125 1\<rparr>" 5 5 5 None
         1 1 1 0 0 0]
       s
    by (simp add: tsize_def)
qed

subsection \<open>Forward pass: empty batch\<close>

text \<open>
  Claim C10. A forward call that passes validation with batch size 0 succeeds. The
  output is the passed output resized to \<open>(0, out_channels, od, oh, ow)\<close>, the column
  buffer the passed one resized to \<open>(0, in_channels * kd * kh * kw, od * oh * ow)\<close>, and
  nothing else is written: the loop over the batch has no iteration, so both buffers
  hold no element.
\<close>

theorem forward_empty_batch:
  fixes self :: "'a::semiring_1 Tensor" and kd kh kw sd sh sw pd ph pw :: int
  defines "od \<equiv> (int (tsize self 2) + 2 * pd - kd) div sd + 1"
    and "oh \<equiv> (int (tsize self 3) + 2 * ph - kh) div sh + 1"
    and "ow \<equiv> (int (tsize self 4) + 2 * pw - kw) div sw + 1"
  assumes ok: "slow_conv3d_shape_check self None weight bias kd kh kw sd sh sw pd ph pw False = Inr ()"
    and N: "tsize self 0 = 0"
  shows "\<exists>w out fin.
           weight = Some w \<and>
           slow_conv3d_forward_out_cpu mem output finput fgrad_input self weight (kd, kh, kw) bias
             (sd, sh, sw) (pd, ph, pw) = (None, (out, fin, fgrad_input)) \<and>
           out = resize_inplace mem output [0, tsize w 0, nat od, nat oh, nat ow] \<and>
           fin = resize_inplace mem finput
                   [0, nat (int (tsize self 1) * kd * kh * kw), nat (od * oh * ow)] \<and>
           sizes out = [0, tsize w 0, nat od, nat oh, nat ow] \<and>
           sizes fin = [0, nat (int (tsize self 1) * kd * kh * kw), nat (od * oh * ow)] \<and>
           (well_formed output \<longrightarrow> data out = []) \<and>
           (well_formed finput \<longrightarrow> data fin = [])"
proof -
  have od: "od = (int (tsize self 2) + 2 * pd - kd) div sd + 1"
    and oh: "oh = (int (tsize self 3) + 2 * ph - kh) div sh + 1"
    and ow: "ow = (int (tsize self 4) + 2 * pw - kw) div sw + 1"
    by (simp_all add: od_def oh_def ow_def)
  from shape_check_forward_ok(1) [OF ok] obtain w where w: "weight = Some w" by blast
  let ?so = "[0, tsize w 0, nat od, nat oh, nat ow]"
  let ?sf = "[0, nat (int (tsize self 1) * kd * kh * kw), nat (od * oh * ow)]"
  have R: "slow_conv3d_forward_out_cpu mem output finput fgrad_input self weight (kd, kh, kw) bias
             (sd, sh, sw) (pd, ph, pw)
           = (None, (resize_inplace mem output ?so, resize_inplace mem finput ?sf, fgrad_input))"
    by (rule forward_empty [OF ok w N od oh ow])
  have eo: "data (resize_inplace mem output ?so) = []" if "well_formed output"
    using well_formed_resize [OF that, of mem ?so] by simp
  have ef: "data (resize_inplace mem finput ?sf) = []" if "well_formed finput"
    using well_formed_resize [OF that, of mem ?sf] by simp
  show ?thesis
    using w R eo ef by simp
qed

theorem forward_empty_batch_witness:
  "\<exists>out fin.
     slow_conv3d_forward_out_cpu (\<lambda>i. 0)
         \<lparr>sizes = [2], data = [7, 7]\<rparr> \<lparr>sizes = [0], data = []\<rparr> \<lparr>sizes = [0], data = []\<rparr>
         \<lparr>sizes = [0, 1, 4, 4, 4], data = ([] :: int list)\<rparr>
         (Some \<lparr>sizes = [1, 1, 2, 2, 2], data = [1, 2, 3, 4, 5, 6, 7, 8]\<rparr>) (2, 2, 2) None
         (1, 1, 1) (0, 0, 0)
       = (None, (out, fin, \<lparr>sizes = [0], data = []\<rparr>)) \<and>
     sizes out = [0, 1, 3, 3, 3] \<and> sizes fin = [0, 8, 27] \<and> data out = [] \<and> data fin = []"
proof -
  have ok: "slow_conv3d_shape_check \<lparr>sizes = [0, 1, 4, 4, 4], data = ([] :: int list)\<rparr> None
      (Some \<lparr>sizes = [1, 1, 2, 2, 2], data = [1, 2, 3, 4, 5, 6, 7, 8]\<rparr>) None
      2 2 2 1 1 1 0 0 0 False = Inr ()"
    by (simp add: slow_conv3d_shape_check_def Let_def dim_def tsize_def numel_def div_rtn_def)
  have N: "tsize \<lparr>sizes = [0, 1, 4, 4, 4], data = ([] :: int list)\<rparr> 0 = 0"
    by (simp add: tsize_def)
  from forward_empty_batch [OF ok N, of "(\<lambda>i. 0)" "\<lparr>sizes = [2], data = [7, 7]\<rparr>"
      "\<lparr>sizes = [0], data = []\<rparr>" "\<lparr>sizes = [0], data = []\<rparr>"]
  show ?thesis
    by (simp add: tsize_def well_formed_def numel_def)
qed

subsection \<open>Forward pass: which buffers are written\<close>

text \<open>
  Claim C4 says that a successful forward call also allocates or resizes the
  gradient-column scratch tensor \<open>fgrad_input\<close>. The source never touches it: in the run
  below the call succeeds and returns the empty tensor of size \<open>(0)\<close> that was passed.
\<close>

theorem forward_returns_fgrad_input_counterexample:
  "slow_conv3d_forward_out_cpu (\<lambda>i. 0)
       \<lparr>sizes = [0], data = []\<rparr> \<lparr>sizes = [0], data = []\<rparr> \<lparr>sizes = [0], data = []\<rparr>
       \<lparr>sizes = [1, 1, 1, 1, 1], data = [2 :: int]\<rparr>
       (Some \<lparr>sizes = [1, 1, 1, 1, 1], data = [3]\<rparr>) (1, 1, 1) None (1, 1, 1) (0, 0, 0)
   = (None,
      (\<lparr>sizes = [1, 1, 1, 1, 1], data = [6]\<rparr>,
       \<lparr>sizes = [1, 1, 1], data = [2]\<rparr>,
       \<lparr>sizes = [0], data = []\<rparr>))"
  by code_simp

text \<open>
  Claim C4, amended. A successful forward call returns \<open>fgrad_input\<close> exactly as passed.
  It resizes the output to \<open>(N, out_channels, od, oh, ow)\<close> and the column buffer to
  \<open>(N, in_channels * kd * kh * kw, od * oh * ow)\<close> and fills both: each holds as many
  elements as its sizes say, and their contents do not depend on what the two buffers
  (or uninitialised memory) held before the call.
\<close>

theorem forward_fills_output_and_columns:
  fixes self :: "'a::semiring_1 Tensor" and kd kh kw sd sh sw pd ph pw :: int
  defines "od \<equiv> (int (tsize self 2) + 2 * pd - kd) div sd + 1"
    and "oh \<equiv> (int (tsize self 3) + 2 * ph - kh) div sh + 1"
    and "ow \<equiv> (int (tsize self 4) + 2 * pw - kw) div sw + 1"
  assumes succ: "slow_conv3d_forward_out_cpu mem output finput fgrad_input self weight
                   (kd, kh, kw) bias (sd, sh, sw) (pd, ph, pw) = (None, (out, fin, fg))"
    and wfo: "well_formed output" and wff: "well_formed finput"
    and wfb: "\<forall>b. bias = Some b \<longrightarrow> well_formed b"
  shows "fg = fgrad_input \<and>
         (\<exists>w. weight = Some w \<and> sizes out = [tsize self 0, tsize w 0, nat od, nat oh, nat ow]) \<and>
         sizes fin = [tsize self 0, nat (int (tsize self 1) * kd * kh * kw), nat (od * oh * ow)] \<and>
         well_formed out \<and> well_formed fin \<and>
         (\<forall>mem' output' finput' fgrad_input'.
            well_formed output' \<and> well_formed finput' \<longrightarrow>
            slow_conv3d_forward_out_cpu mem' output' finput' fgrad_input' self weight
              (kd, kh, kw) bias (sd, sh, sw) (pd, ph, pw) = (None, (out, fin, fgrad_input')))"
proof -
  have od: "od = (int (tsize self 2) + 2 * pd - kd) div sd + 1"
    and oh: "oh = (int (tsize self 3) + 2 * ph - kh) div sh + 1"
    and ow: "ow = (int (tsize self 4) + 2 * pw - kw) div sw + 1"
    by (simp_all add: od_def oh_def ow_def)
  define U where "U = (\<lambda>t. unfold_columns (select self t) (int (tsize self 1)) (int (tsize self 2))
                 (int (tsize self 3)) (int (tsize self 4)) od oh ow kd kh kw sd sh sw pd ph pw)"
  have wfb': "well_formed b" if "bias = Some b" for b using wfb that by simp
  have s0: "fst (slow_conv3d_forward_out_cpu mem output finput fgrad_input self weight
                   (kd, kh, kw) bias (sd, sh, sw) (pd, ph, pw)) = None"
    using succ by simp
  from forward_success [OF s0 wfo wff wfb' od oh ow U_def]
  obtain w where w: "weight = Some w"
    and ok: "slow_conv3d_shape_check self None weight bias kd kh kw sd sh sw pd ph pw False = Inr ()"
    and compat: "tsize self 0 = 0 \<or>
           tsize (view_weight_2d w) 1 = nat (int (tsize self 1) * kd * kh * kw)"
    by blast
  let ?D = "\<lambda>t. frame_output_data (view_weight_2d w) bias (U t) (tsize w 0) (nat (od * oh * ow))"
  let ?so = "[tsize self 0, tsize w 0, nat od, nat oh, nat ow]"
  let ?sf = "[tsize self 0, nat (int (tsize self 1) * kd * kh * kw), nat (od * oh * ow)]"
  note gen = forward_result_gen [OF ok _ _ wfb' w compat od oh ow U_def]
  from gen [OF wfo wff, of mem fgrad_input] succ
  have out: "out = \<lparr>sizes = ?so, data = concat (map ?D [0..<tsize self 0])\<rparr>"
    and fin: "fin = \<lparr>sizes = ?sf, data = concat (map U [0..<tsize self 0])\<rparr>"
    and fg: "fg = fgrad_input"
    by simp_all
  have pos: "1 \<le> od" "1 \<le> oh" "1 \<le> ow"
    using forward_sizes(4-6) [OF ok w od oh ow refl] by simp_all
  have L3: "nat od * (nat oh * nat ow) = nat (od * oh * ow)"
    using pos by (simp add: nat_mult_distrib mult.assoc)
  have lD: "length (?D t) = tsize w 0 * nat (od * oh * ow)" for t
    by (rule length_frame_output_data) (rule length_bias_broadcast)
  have lU: "length (U t) = nat (int (tsize self 1) * kd * kh * kw) * nat (od * oh * ow)" for t
    unfolding U_def by (rule length_unfold_columns)
  have wo: "well_formed out"
    unfolding out well_formed_def numel_def
    using length_concat_const [of "tsize self 0" ?D, OF lD] by (simp add: L3)
  have wf: "well_formed fin"
    unfolding fin well_formed_def numel_def
    using length_concat_const [of "tsize self 0" U, OF lU] by simp
  have indep: "slow_conv3d_forward_out_cpu mem' output' finput' fgrad_input' self weight
              (kd, kh, kw) bias (sd, sh, sw) (pd, ph, pw) = (None, (out, fin, fgrad_input'))"
    if "well_formed output' \<and> well_formed finput'" for mem' output' finput' fgrad_input'
    unfolding out fin using that by (intro gen) simp_all
  show ?thesis
    using fg w out fin wo wf indep by simp
qed

theorem forward_fills_output_and_columns_witness:
  "well_formed \<lparr>sizes = [1, 1, 1, 1, 1], data = [6 :: int]\<rparr> \<and>
   well_formed \<lparr>sizes = [1, 1, 1], data = [2 :: int]\<rparr> \<and>
   slow_conv3d_forward_out_cpu (\<lambda>i. 8)
     \<lparr>sizes = [1, 1, 1, 1, 1], data = [7]\<rparr> \<lparr>sizes = [2], data = [1, 1]\<rparr>
     \<lparr>sizes = [1], data = [5]\<rparr>
     \<lparr>sizes = [1, 1, 1, 1, 1], data = [2 :: int]\<rparr>
     (Some \<lparr>sizes = [1, 1, 1, 1, 1], data = [3]\<rparr>) (1, 1, 1) None (1, 1, 1) (0, 0, 0)
   = (None,
      (\<lparr>sizes = [1, 1, 1, 1, 1], data = [6]\<rparr>, \<lparr>sizes = [1, 1, 1], data = [2]\<rparr>,
       \<lparr>sizes = [1], data = [5]\<rparr>))"
proof -
  have run: "slow_conv3d_forward_out_cpu (\<lambda>i. 0)
       \<lparr>sizes = [0], data = []\<rparr> \<lparr>sizes = [0], data = []\<rparr> \<lparr>sizes = [2], data = [4, 5]\<rparr>
       \<lparr>sizes = [1, 1, 1, 1, 1], data = [2 :: int]\<rparr>
       (Some \<lparr>sizes = [1, 1, 1, 1, 1], data = [3]\<rparr>) (1, 1, 1) None (1, 1, 1) (0, 0, 0)
     = (None,
        (\<lparr>sizes = [1, 1, 1, 1, 1], data = [6]\<rparr>,
         \<lparr>sizes = [1, 1, 1], data = [2]\<rparr>,
         \<lparr>sizes = [2], data = [4, 5]\<rparr>))"
    by code_simp
  have wf: "well_formed (\<lparr>sizes = [0], data = []\<rparr> :: int Tensor)"
    by (simp add: well_formed_def numel_def)
  have nb: "\<forall>b. (None :: int Tensor option) = Some b \<longrightarrow> well_formed b"
    by simp
  have wf': "well_formed \<lparr>sizes = [1, 1, 1, 1, 1], data = [7 :: int]\<rparr> \<and>
             well_formed \<lparr>sizes = [2], data = [1, 1 :: int]\<rparr>"
    by (simp add: well_formed_def numel_def)
  from forward_fills_output_and_columns [OF run wf wf nb]
  have "well_formed \<lparr>sizes = [1, 1, 1, 1, 1], data = [6 :: int]\<rparr>"
    and "well_formed \<lparr>sizes = [1, 1, 1], data = [2 :: int]\<rparr>"
    and "\<forall>mem' output' finput' fgrad_input'.
      well_formed output' \<and> well_formed finput' \<longrightarrow>
      slow_conv3d_forward_out_cpu mem' output' finput' fgrad_input'
        \<lparr>sizes = [1, 1, 1, 1, 1], data = [2 :: int]\<rparr>
        (Some \<lparr>sizes = [1, 1, 1, 1, 1], data = [3]\<rparr>) (1, 1, 1) None (1, 1, 1) (0, 0, 0)
      = (None,
         (\<lparr>sizes = [1, 1, 1, 1, 1], data = [6]\<rparr>, \<lparr>sizes = [1, 1, 1], data = [2]\<rparr>,
          fgrad_input'))"
    by simp_all
  with wf' show ?thesis
    by blast
qed

subsection \<open>Forward pass: one batch item\<close>

text \<open>
  Claim C5. For one batch item, with the slices shaped as the forward entry point
  shapes them, \<open>slow_conv3d_update_output_frame\<close> succeeds; the column slice becomes the
  unfolded input, and with \<open>product\<close> the matrix product of the 2-D weight with these
  columns: when a bias is present, every element of channel \<open>i\<close> of the output slice is
  \<open>bias[i]\<close> plus the corresponding element of the product; when the bias is absent,
  the output slice is exactly the product. In both cases nothing of the previous
  contents of the output slice remains.
\<close>

theorem update_output_frame_result:
  fixes weight :: "'a::semiring_1 Tensor"
  assumes w2: "sizes weight = [nat n_output_plane, nat (n_input_plane * kd * kh * kw)]"
    and fs: "sizes finput = [nat (n_input_plane * kd * kh * kw), nat (od * oh * ow)]"
    and ol: "length (data output) = nat n_output_plane * nat (od * oh * ow)"
    and pl: "prod_list (tl (sizes output)) = nat (od * oh * ow)"
    and bs: "\<forall>b. bias = Some b \<longrightarrow> dim b = 1 \<and> nat n_output_plane \<le> length (data b)"
  shows "\<exists>out cols product.
           slow_conv3d_update_output_frame input output weight bias finput
             kd kh kw sd sh sw pd ph pw n_input_plane idp ih iw n_output_plane od oh ow
             = (None, (out, cols)) \<and>
           cols = Unfold3dCopyCPU input n_input_plane idp ih iw od oh ow kd kh kw
                    sd sh sw pd ph pw finput \<and>
           mm weight cols = Inr product \<and>
           sizes out = sizes output \<and>
           length (data out) = nat n_output_plane * nat (od * oh * ow) \<and>
           length (data product) = nat n_output_plane * nat (od * oh * ow) \<and>
           (bias = None \<longrightarrow> data out = data product) \<and>
           (\<forall>b. bias = Some b \<longrightarrow>
              (\<forall>i<nat n_output_plane. \<forall>j<nat (od * oh * ow).
                 data out ! (i * nat (od * oh * ow) + j)
                   = data b ! i + data product ! (i * nat (od * oh * ow) + j)))"
proof -
  define n where "n = nat n_output_plane"
  define K where "K = nat (n_input_plane * kd * kh * kw)"
  define L where "L = nat (od * oh * ow)"
  define cols where "cols = Unfold3dCopyCPU input n_input_plane idp ih iw od oh ow kd kh kw
                    sd sh sw pd ph pw finput"
  define product where "product = \<lparr>sizes = [n, L], data = matmul_data n K L (data weight) (data cols)\<rparr>"
  have bs': "dim b = 1 \<and> n \<le> length (data b)" if "bias = Some b" for b
    using bs that by (simp add: n_def)
  have fr: "slow_conv3d_update_output_frame input output weight bias finput
           kd kh kw sd sh sw pd ph pw n_input_plane idp ih iw n_output_plane od oh ow
         = (None, (output\<lparr>data := frame_output_data weight bias (data cols) n L\<rparr>,
                   finput\<lparr>data := data cols\<rparr>))"
    by (rule frame_success [OF _ n_def K_def L_def _ _ _ bs'])
       (simp_all add: w2 fs ol pl n_def K_def L_def cols_def)
  have ce: "finput\<lparr>data := data cols\<rparr> = cols"
    unfolding cols_def by (rule unfold_as_update [symmetric])
  have mmv: "mm weight cols = Inr product"
    using w2 fs by (simp add: mm_def dim_def tsize_def product_def cols_def n_def K_def L_def)
  have k1: "tsize weight (Suc 0) = K" using w2 by (simp add: tsize_def K_def)
  let ?out = "output\<lparr>data := frame_output_data weight bias (data cols) n L\<rparr>"
  have lo: "length (data ?out) = n * L"
    by (simp add: length_frame_output_data length_bias_broadcast)
  have none: "data ?out = data product" if "bias = None"
    using that by (simp add: frame_output_data_def product_def k1)
  have some: "data ?out ! (i * L + j) = data b ! i + data product ! (i * L + j)"
    if "bias = Some b" "i < n" "j < L" for b i j
  proof -
    have lt: "i * L + j < n * L" using that(2,3) by (rule slice_index_bound)
    have "data ?out ! (i * L + j)
            = bias_broadcast b n L ! (i * L + j) + data product ! (i * L + j)"
      using that(1) lt
      by (simp add: frame_output_data_def product_def k1 length_bias_broadcast)
    then show ?thesis
      by (simp add: nth_bias_broadcast [OF that(2,3)])
  qed
  show ?thesis
    apply (rule exI [of _ ?out], rule exI [of _ cols], rule exI [of _ product])
    using fr mmv lo none some
    unfolding ce n_def [symmetric] K_def [symmetric] L_def [symmetric] cols_def [symmetric]
    by (simp add: product_def)
qed

theorem update_output_frame_result_witness:
  "\<exists>out.
     slow_conv3d_update_output_frame
       \<lparr>sizes = [1, 1, 1, 2], data = [2, 3 :: int]\<rparr>
       \<lparr>sizes = [2, 1, 1, 2], data = [9, 9, 9, 9]\<rparr>
       \<lparr>sizes = [2, 1], data = [10, 20]\<rparr>
       (Some \<lparr>sizes = [2], data = [100, 200]\<rparr>)
       \<lparr>sizes = [1, 2], data = [7, 7]\<rparr>
       1 1 1 1 1 1 0 0 0 1 1 1 2 2 1 1 2
     = (None, (out, \<lparr>sizes = [1, 2], data = [2, 3]\<rparr>)) \<and>
     sizes out = [2, 1, 1, 2] \<and> length (data out) = 4 \<and> data out ! 3 = 260"
proof -
  let ?I = "\<lparr>sizes = [1, 1, 1, 2], data = [2, 3 :: int]\<rparr>"
  let ?O = "\<lparr>sizes = [2, 1, 1, 2], data = [9, 9, 9, 9 :: int]\<rparr>"
  let ?W = "\<lparr>sizes = [2, 1], data = [10, 20 :: int]\<rparr>"
  let ?B = "\<lparr>sizes = [2], data = [100, 200 :: int]\<rparr>"
  let ?F = "\<lparr>sizes = [1, 2], data = [7, 7 :: int]\<rparr>"
  have h1: "sizes ?W = [nat 2, nat (1 * 1 * 1 * 1)]" by simp
  have h2: "sizes ?F = [nat (1 * 1 * 1 * 1), nat (1 * 1 * 2)]" by simp
  have h3: "length (data ?O) = nat 2 * nat (1 * 1 * 2)" by simp
  have h4: "prod_list (tl (sizes ?O)) = nat (1 * 1 * 2)" by simp
  have h5: "\<forall>b. Some ?B = Some b \<longrightarrow> dim b = 1 \<and> nat 2 \<le> length (data b)"
    by (auto simp add: dim_def)
  have cols: "Unfold3dCopyCPU ?I 1 1 1 2 1 1 2 1 1 1 1 1 1 0 0 0 ?F = \<lparr>sizes = [1, 2], data = [2, 3]\<rparr>"
    by code_simp
  have prod: "mm ?W \<lparr>sizes = [1, 2], data = [2, 3]\<rparr> = Inr \<lparr>sizes = [2, 2], data = [20, 30, 40, 60]\<rparr>"
    by code_simp
  from update_output_frame_result [OF h1 h2 h3 h4 h5, of ?I 1 1 1 0 0 0 1 1 2]
  obtain out cs product where
    R: "slow_conv3d_update_output_frame ?I ?O ?W (Some ?B) ?F 1 1 1 1 1 1 0 0 0 1 1 1 2 2 1 1 2
          = (None, (out, cs))"
    and c: "cs = Unfold3dCopyCPU ?I 1 1 1 2 1 1 2 1 1 1 1 1 1 0 0 0 ?F"
    and m: "mm ?W cs = Inr product"
    and s: "sizes out = sizes ?O" "length (data out) = nat 2 * nat (1 * 1 * 2)"
    and e: "\<forall>b. Some ?B = Some b \<longrightarrow>
              (\<forall>i<nat 2. \<forall>j<nat (1 * 1 * 2).
                 data out ! (i * nat (1 * 1 * 2) + j)
                   = data b ! i + data product ! (i * nat (1 * 1 * 2) + j))"
    by blast
  from c cols have cs: "cs = \<lparr>sizes = [1, 2], data = [2, 3]\<rparr>" by simp
  with m prod have p: "product = \<lparr>sizes = [2, 2], data = [20, 30, 40, 60]\<rparr>" by simp
  have b1: "(1::nat) < nat 2" "(1::nat) < nat (1 * 1 * 2)" by simp_all
  from e [rule_format, OF refl b1] p have "data out ! 3 = 260" by simp
  with R cs s show ?thesis by simp
qed

subsection \<open>Forward pass: the 4 x 4 x 4 scenario\<close>

text \<open>
  Claim C6. For an input of sizes \<open>(1,1,4,4,4)\<close>, a weight of sizes \<open>(1,1,2,2,2)\<close>, bias
  \<open>[0]\<close>, kernel \<open>(2,2,2)\<close>, stride \<open>(1,1,1)\<close> and padding \<open>(0,0,0)\<close> the forward pass
  succeeds, the output has sizes \<open>(1,1,3,3,3)\<close>, and the output voxel at \<open>(d, h, w)\<close> is
  the dot product of the kernel with the \<open>2 \<times> 2 \<times> 2\<close> window of the input that starts
  at \<open>(d, h, w)\<close>.
\<close>

theorem forward_4x4x4_by_2x2x2:
  fixes xs ws :: "'a::semiring_1 list"
  assumes lx: "length xs = 64" and lw: "length ws = 8"
    and wfo: "well_formed output" and wff: "well_formed finput"
  shows "\<exists>out fin.
           slow_conv3d_forward_out_cpu mem output finput fgrad_input
             \<lparr>sizes = [1, 1, 4, 4, 4], data = xs\<rparr>
             (Some \<lparr>sizes = [1, 1, 2, 2, 2], data = ws\<rparr>) (2, 2, 2)
             (Some \<lparr>sizes = [1], data = [0]\<rparr>) (1, 1, 1) (0, 0, 0)
           = (None, (out, fin, fgrad_input)) \<and>
           sizes out = [1, 1, 3, 3, 3] \<and> length (data out) = 27 \<and>
           (\<forall>d<3. \<forall>h<3. \<forall>w<3.
              data out ! (9 * d + 3 * h + w)
                = (\<Sum>a<2. \<Sum>b<2. \<Sum>c<2.
                     ws ! (4 * a + 2 * b + c) * xs ! (16 * (d + a) + 4 * (h + b) + (w + c))))"
proof -
  let ?X = "\<lparr>sizes = [1, 1, 4, 4, 4], data = xs\<rparr>"
  let ?W = "\<lparr>sizes = [1, 1, 2, 2, 2], data = ws\<rparr>"
  let ?B = "\<lparr>sizes = [1], data = [0 :: 'a]\<rparr>"
  define U where "U = (\<lambda>t. unfold_columns (select ?X t) (int (tsize ?X 1)) (int (tsize ?X 2))
                 (int (tsize ?X 3)) (int (tsize ?X 4)) 3 3 3 2 2 2 1 1 1 0 0 0)"
  have ok: "slow_conv3d_shape_check ?X None (Some ?W) (Some ?B) 2 2 2 1 1 1 0 0 0 False = Inr ()"
    by (simp add: slow_conv3d_shape_check_def Let_def dim_def tsize_def numel_def div_rtn_def)
  have wfb: "well_formed b" if "Some ?B = Some b" for b
    using that by (auto simp add: well_formed_def numel_def)
  have W2: "view_weight_2d ?W = \<lparr>sizes = [1, 8], data = ws\<rparr>"
    by (simp add: view_weight_2d_def contiguous_def reshape_def dim_def tsize_def Let_def)
  have compat: "tsize (view_weight_2d ?W) 1 = nat (int (tsize ?X 1) * 2 * 2 * 2)"
    unfolding W2 by (simp add: tsize_def)
  have R: "slow_conv3d_forward_out_cpu mem output finput fgrad_input ?X (Some ?W) (2, 2, 2)
             (Some ?B) (1, 1, 1) (0, 0, 0)
         = (None,
            (\<lparr>sizes = [1, 1, 3, 3, 3],
              data = frame_output_data \<lparr>sizes = [1, 8], data = ws\<rparr> (Some ?B) (U 0) 1 27\<rparr>,
             \<lparr>sizes = [1, 8, 27], data = U 0\<rparr>,
             fgrad_input))"
  proof -
    have d: "(3::int) = (int (tsize ?X 2) + 2 * 0 - 2) div 1 + 1"
      "(3::int) = (int (tsize ?X 3) + 2 * 0 - 2) div 1 + 1"
      "(3::int) = (int (tsize ?X 4) + 2 * 0 - 2) div 1 + 1"
      by (simp_all add: tsize_def)
    show ?thesis
      using forward_result [OF ok wfo wff wfb refl compat d U_def, unfolded W2]
      by (simp add: tsize_def)
  qed
  have sel: "select ?X 0 = \<lparr>sizes = [1, 4, 4, 4], data = xs\<rparr>"
    using lx by (simp add: select_def)
  have Un: "U 0 ! idx
         = (let s = unfold_source 1 4 4 4 3 3 3 2 2 2 1 1 1 0 0 0 (int idx div 27) (int idx mod 27)
            in if s < 0 then 0 else xs ! nat s)" if "idx < 216" for idx
    unfolding U_def sel using nth_unfold_columns [of idx 1 2 2 2 3 3 3 "\<lparr>sizes = [1, 4, 4, 4], data = xs\<rparr>" 4 4 4 1 1 1 0 0 0] that
    by (simp add: tsize_def Let_def)
  have el: "frame_output_data \<lparr>sizes = [1, 8], data = ws\<rparr> (Some ?B) (U 0) 1 27 ! q
        = 0 + sum_list (map (\<lambda>l. ws ! l * U 0 ! (l * 27 + q)) [0..<8])" if "q < 27" for q
    using nth_frame_output_data [of 0 1 q 27 "\<lparr>sizes = [1, 8], data = ws\<rparr>" "Some ?B" "U 0"] that
    by (simp add: tsize_def del: upt_Suc)
  have vox: "frame_output_data \<lparr>sizes = [1, 8], data = ws\<rparr> (Some ?B) (U 0) 1 27 ! (9 * d + 3 * h + w)
                = (\<Sum>a<2. \<Sum>b<2. \<Sum>c<2.
                     ws ! (4 * a + 2 * b + c) * xs ! (16 * (d + a) + 4 * (h + b) + (w + c)))"
    if "d < 3" "h < 3" "w < 3" for d h w
  proof -
    have q: "9 * d + 3 * h + w < 27" using that by simp
    from that have "d = 0 \<or> d = 1 \<or> d = 2" "h = 0 \<or> h = 1 \<or> h = 2" "w = 0 \<or> w = 1 \<or> w = 2"
      by arith+
    then show ?thesis
      unfolding el [OF q]
      by (elim disjE)
         (simp_all add: Un unfold_source_def Let_def sum_lessThan_2 upt_0_8 add.assoc
            numeral_2_eq_2 [symmetric] numeral_3_eq_3 [symmetric])
  qed
  have len: "length (frame_output_data \<lparr>sizes = [1, 8], data = ws\<rparr> (Some ?B) (U 0) 1 27) = 27"
    using length_frame_output_data [OF length_bias_broadcast, of "\<lparr>sizes = [1, 8], data = ws\<rparr>" "Some ?B" "U 0" 1 27]
    by simp
  show ?thesis
    using R len vox by simp
qed

theorem forward_4x4x4_by_2x2x2_witness:
  "\<exists>out fin.
     slow_conv3d_forward_out_cpu (\<lambda>i. 0)
       \<lparr>sizes = [0], data = []\<rparr> \<lparr>sizes = [0], data = []\<rparr> \<lparr>sizes = [0], data = []\<rparr>
       \<lparr>sizes = [1, 1, 4, 4, 4], data = map int [0..<64]\<rparr>
       (Some \<lparr>sizes = [1, 1, 2, 2, 2], data = [1, 2, 3, 4, 5, 6, 7, 8]\<rparr>) (2, 2, 2)
       (Some \<lparr>sizes = [1], data = [0]\<rparr>) (1, 1, 1) (0, 0, 0)
     = (None, (out, fin, \<lparr>sizes = [0], data = []\<rparr>)) \<and>
     sizes out = [1, 1, 3, 3, 3] \<and> length (data out) = 27 \<and>
     data out ! 0 = 524 \<and> data out ! 26 = 2036"
proof -
  have wf: "well_formed (\<lparr>sizes = [0], data = []\<rparr> :: int Tensor)"
    by (simp add: well_formed_def numel_def)
  have lx: "length (map int [0..<64]) = 64" by simp
  have lw: "length [1, 2, 3, 4, 5, 6, 7, 8 :: int] = 8" by simp
  from forward_4x4x4_by_2x2x2 [OF lx lw wf wf, of "(\<lambda>i. 0)" "\<lparr>sizes = [0], data = []\<rparr>"]
  obtain out fin where
    R: "slow_conv3d_forward_out_cpu (\<lambda>i. 0)
       \<lparr>sizes = [0], data = []\<rparr> \<lparr>sizes = [0], data = []\<rparr> \<lparr>sizes = [0], data = []\<rparr>
       \<lparr>sizes = [1, 1, 4, 4, 4], data = map int [0..<64]\<rparr>
       (Some \<lparr>sizes = [1, 1, 2, 2, 2], data = [1, 2, 3, 4, 5, 6, 7, 8]\<rparr>) (2, 2, 2)
       (Some \<lparr>sizes = [1], data = [0]\<rparr>) (1, 1, 1) (0, 0, 0)
     = (None, (out, fin, \<lparr>sizes = [0], data = []\<rparr>))"
    and s: "sizes out = [1, 1, 3, 3, 3]" "length (data out) = 27"
    and v: "\<forall>d<3. \<forall>h<3. \<forall>w<3.
              data out ! (9 * d + 3 * h + w)
                = (\<Sum>a<2. \<Sum>b<2. \<Sum>c<2.
                     [1, 2, 3, 4, 5, 6, 7, 8] ! (4 * a + 2 * b + c) *
                     map int [0..<64] ! (16 * (d + a) + 4 * (h + b) + (w + c)))"
    by blast
  have b0: "(0::nat) < 3" and b2: "(2::nat) < 3" by simp_all
  from v [rule_format, OF b0 b0 b0] have v0: "data out ! 0 = 524"
    by (simp add: sum_lessThan_2)
  from v [rule_format, OF b2 b2 b2] have v26: "data out ! 26 = 2036"
    by (simp add: sum_lessThan_2)
  from R s v0 v26 show ?thesis
    by blast
qed

subsection \<open>Validation failures and the state of the buffers\<close>

lemma backward_template_check_failed:
  assumes "slow_conv3d_shape_check input (Some grad_output) weight None kd kh kw sd sh sw pd ph pw False = Inl e"
  shows "slow_conv3d_backward_out_cpu_template mem grad_input grad_output input weight finput
           fgrad_input (kd, kh, kw) (sd, sh, sw) (pd, ph, pw) = (Some e, (grad_input, fgrad_input))"
  using assms by (simp add: slow_conv3d_backward_out_cpu_template_def)

lemma backward_parameters_check_failed:
  assumes "slow_conv3d_shape_check input (Some grad_output) grad_weight grad_bias kd kh kw sd sh sw pd ph pw True = Inl e"
  shows "slow_conv3d_backward_parameters_out_cpu_template grad_weight grad_bias input grad_output
           finput fgrad_input (kd, kh, kw) (sd, sh, sw) (pd, ph, pw) = (Some e, (grad_weight, grad_bias))"
  using assms by (simp add: slow_conv3d_backward_parameters_out_cpu_template_def)

lemma sizes_zero_inplace [simp]: "sizes (zero_inplace t) = sizes t"
  by (simp add: zero_inplace_def)

lemma shape_check_parameters_after_template:
  fixes self :: "'a::semiring_1 Tensor"
  assumes ok: "slow_conv3d_shape_check self (Some grad_output) (Some w) None kd kh kw sd sh sw pd ph pw False = Inr ()"
  shows "slow_conv3d_shape_check self (Some grad_output)
           (map_option (\<lambda>g. zero_inplace (resize_inplace mem g (sizes w))) grad_weight)
           (map_option (\<lambda>g. zero_inplace (resize_inplace mem g [tsize grad_output 1])) grad_bias)
           kd kh kw sd sh sw pd ph pw True = Inr ()"
proof -
  have nw: "0 < numel w" and dw: "dim w = 2 \<or> dim w = 5"
    using ok by (simp_all add: slow_conv3d_shape_check_def Let_def)
  have ch: "tsize grad_output 1 = tsize w 0"
    using ok by (simp add: slow_conv3d_shape_check_def Let_def)
  have "0 < length (sizes w)" using dw by (auto simp add: dim_def)
  then have "sizes w ! 0 \<in> set (sizes w)" by simp
  with nw have w0: "0 < tsize w 0"
    by (auto simp add: numel_pos_iff tsize_def)
  have [simp]: "numel (zero_inplace (resize_inplace mem g (sizes w))) = numel w"
       "dim (zero_inplace (resize_inplace mem g (sizes w))) = dim w"
       "tsize (zero_inplace (resize_inplace mem g (sizes w))) i = tsize w i" for g i
    by (simp_all add: numel_def dim_def tsize_def)
  have [simp]: "numel (zero_inplace (resize_inplace mem g [n])) = n"
       "dim (zero_inplace (resize_inplace mem g [n])) = 1"
       "tsize (zero_inplace (resize_inplace mem g [n])) 0 = n" for g n
    by (simp_all add: numel_def dim_def tsize_def)
  show ?thesis
    using ok ch w0
    by (cases grad_weight; cases grad_bias)
       (simp_all add: slow_conv3d_shape_check_def Let_def)
qed

text \<open>
  Claim C2 says that on every validation failure of the forward or backward entry point
  all caller-passed tensors are left unchanged. In the backward entry point with an
  undefined \<open>grad_input\<close> the weight and bias gradients are resized and zero-filled before
  the validation of the parameter pass runs: below, the kernel depth 0 is rejected
  after \<open>grad_weight\<close> and \<open>grad_bias\<close>, passed with size \<open>(0)\<close>, have become zero tensors of
  sizes \<open>(1,1,1,1,1)\<close> and \<open>(1)\<close>.
\<close>

theorem validation_failure_leaves_buffers_counterexample:
  "slow_conv3d_backward_out_cpu (\<lambda>i. 0) None
       (Some \<lparr>sizes = [0], data = []\<rparr>) (Some \<lparr>sizes = [0], data = []\<rparr>)
       \<lparr>sizes = [1, 1, 1, 1, 1], data = [1 :: int]\<rparr>
       \<lparr>sizes = [1, 1, 1, 1, 1], data = [2]\<rparr>
       (Some \<lparr>sizes = [1, 1, 1, 1, 1], data = [3]\<rparr>)
       (0, 1, 1) (1, 1, 1) (0, 0, 0)
       \<lparr>sizes = [1, 1, 1], data = [2]\<rparr> \<lparr>sizes = [0], data = []\<rparr>
   = (Some (InvalidArgument KernelSizeNotPositive),
      (None,
       Some \<lparr>sizes = [1, 1, 1, 1, 1], data = [0]\<rparr>,
       Some \<lparr>sizes = [1], data = [0]\<rparr>,
       \<lparr>sizes = [0], data = []\<rparr>))"
  by code_simp

text \<open>
  Claim C2, amended. (1) A forward call whose arguments fail validation raises that
  error and leaves output, finput and fgrad_input unchanged. (2) A backward call with a
  defined \<open>grad_input\<close> whose arguments fail the validation of the input-gradient pass
  raises that error and leaves all four buffers unchanged; (3) when that validation
  passes, the later validation of the parameter pass (run on the resized gradients)
  passes as well, so no validation failure follows a write. (4) A backward call with an
  undefined \<open>grad_input\<close> resizes and zero-fills \<open>grad_weight\<close> and \<open>grad_bias\<close> first; when
  the validation of the parameter pass then fails, these two hold the zero-filled
  resized tensors, and \<open>grad_input\<close> and \<open>fgrad_input\<close> are unchanged.
\<close>

theorem validation_failure_leaves_buffers:
  fixes self :: "'a::semiring_1 Tensor"
  shows
  "(slow_conv3d_shape_check self None weight bias kd kh kw sd sh sw pd ph pw False = Inl e \<longrightarrow>
      slow_conv3d_forward_out_cpu mem output finput fgrad_input self weight (kd, kh, kw) bias
        (sd, sh, sw) (pd, ph, pw) = (Some e, (output, finput, fgrad_input))) \<and>
   (grad_input \<noteq> None \<and>
    slow_conv3d_shape_check self (Some grad_output) weight None kd kh kw sd sh sw pd ph pw False
      = Inl e \<longrightarrow>
      slow_conv3d_backward_out_cpu mem grad_input grad_weight grad_bias grad_output self weight
        (kd, kh, kw) (sd, sh, sw) (pd, ph, pw) finput fgrad_input
      = (Some e, (grad_input, grad_weight, grad_bias, fgrad_input))) \<and>
   (slow_conv3d_shape_check self (Some grad_output) (Some w) None kd kh kw sd sh sw pd ph pw False
      = Inr () \<longrightarrow>
      slow_conv3d_shape_check self (Some grad_output)
        (map_option (\<lambda>g. zero_inplace (resize_inplace mem g (sizes w))) grad_weight)
        (map_option (\<lambda>g. zero_inplace (resize_inplace mem g [tsize grad_output 1])) grad_bias)
        kd kh kw sd sh sw pd ph pw True = Inr ()) \<and>
   (grad_input = None \<and> (grad_weight \<noteq> None \<or> grad_bias \<noteq> None) \<and>
    weight = Some w \<and> 2 \<le> dim grad_output \<and>
    slow_conv3d_shape_check self (Some grad_output)
      (map_option (\<lambda>g. zero_inplace (resize_inplace mem g (sizes w))) grad_weight)
      (map_option (\<lambda>g. zero_inplace (resize_inplace mem g [tsize grad_output 1])) grad_bias)
      kd kh kw sd sh sw pd ph pw True = Inl e \<longrightarrow>
      slow_conv3d_backward_out_cpu mem grad_input grad_weight grad_bias grad_output self weight
        (kd, kh, kw) (sd, sh, sw) (pd, ph, pw) finput fgrad_input
      = (Some e,
         (None,
          map_option (\<lambda>g. zero_inplace (resize_inplace mem g (sizes w))) grad_weight,
          map_option (\<lambda>g. zero_inplace (resize_inplace mem g [tsize grad_output 1])) grad_bias,
          fgrad_input)))"
proof (intro conjI impI)
  assume "slow_conv3d_shape_check self None weight bias kd kh kw sd sh sw pd ph pw False = Inl e"
  then show "slow_conv3d_forward_out_cpu mem output finput fgrad_input self weight (kd, kh, kw) bias
        (sd, sh, sw) (pd, ph, pw) = (Some e, (output, finput, fgrad_input))"
    by (rule forward_check_failed)
next
  assume a: "grad_input \<noteq> None \<and>
    slow_conv3d_shape_check self (Some grad_output) weight None kd kh kw sd sh sw pd ph pw False
      = Inl e"
  then obtain gi where gi: "grad_input = Some gi" by auto
  from a have "slow_conv3d_backward_out_cpu_template mem gi grad_output self weight finput
           fgrad_input (kd, kh, kw) (sd, sh, sw) (pd, ph, pw) = (Some e, (gi, fgrad_input))"
    by (intro backward_template_check_failed) simp
  then show "slow_conv3d_backward_out_cpu mem grad_input grad_weight grad_bias grad_output self weight
        (kd, kh, kw) (sd, sh, sw) (pd, ph, pw) finput fgrad_input
      = (Some e, (grad_input, grad_weight, grad_bias, fgrad_input))"
    by (simp add: slow_conv3d_backward_out_cpu_def gi)
next
  assume "slow_conv3d_shape_check self (Some grad_output) (Some w) None kd kh kw sd sh sw pd ph pw False
      = Inr ()"
  then show "slow_conv3d_shape_check self (Some grad_output)
        (map_option (\<lambda>g. zero_inplace (resize_inplace mem g (sizes w))) grad_weight)
        (map_option (\<lambda>g. zero_inplace (resize_inplace mem g [tsize grad_output 1])) grad_bias)
        kd kh kw sd sh sw pd ph pw True = Inr ()"
    by (rule shape_check_parameters_after_template)
next
  define gw1 where "gw1 = map_option (\<lambda>g. zero_inplace (resize_inplace mem g (sizes w))) grad_weight"
  define gb1 where "gb1 = map_option (\<lambda>g. zero_inplace (resize_inplace mem g [tsize grad_output 1])) grad_bias"
  assume "grad_input = None \<and> (grad_weight \<noteq> None \<or> grad_bias \<noteq> None) \<and>
    weight = Some w \<and> 2 \<le> dim grad_output \<and>
    slow_conv3d_shape_check self (Some grad_output)
      (map_option (\<lambda>g. zero_inplace (resize_inplace mem g (sizes w))) grad_weight)
      (map_option (\<lambda>g. zero_inplace (resize_inplace mem g [tsize grad_output 1])) grad_bias)
      kd kh kw sd sh sw pd ph pw True = Inl e"
  then have a: "grad_input = None" "grad_weight \<noteq> None \<or> grad_bias \<noteq> None"
    "weight = Some w" "2 \<le> dim grad_output"
    "slow_conv3d_shape_check self (Some grad_output) gw1 gb1 kd kh kw sd sh sw pd ph pw True = Inl e"
    unfolding gw1_def gb1_def by simp_all
  have p: "slow_conv3d_backward_parameters_out_cpu_template gw1 gb1 self grad_output
           finput fgrad_input (kd, kh, kw) (sd, sh, sw) (pd, ph, pw) = (Some e, (gw1, gb1))"
    using a(5) by (rule backward_parameters_check_failed)
  have d: "\<not> dim grad_output < 2" using a(4) by simp
  have ne: "gw1 \<noteq> None \<or> gb1 \<noteq> None" using a(2) by (auto simp add: gw1_def gb1_def)
  have gw: "(case grad_weight of None \<Rightarrow> Inr None
              | Some gw \<Rightarrow> (case weight of None \<Rightarrow> Inl (InvalidArgument UndefinedTensor)
                  | Some w \<Rightarrow> Inr (Some (zero_inplace (resize_inplace mem gw (sizes w))))))
            = Inr gw1"
    using a(3) by (cases grad_weight) (simp_all add: gw1_def)
  have gb: "(case grad_bias of None \<Rightarrow> Inr None
              | Some gb \<Rightarrow> if dim grad_output < 2 then Inl (InvalidArgument IndexOutOfRange)
                  else Inr (Some (zero_inplace (resize_inplace mem gb [tsize grad_output 1]))))
            = Inr gb1"
    using d by (cases grad_bias) (simp_all add: gb1_def)
  have "slow_conv3d_backward_out_cpu mem grad_input grad_weight grad_bias grad_output self weight
        (kd, kh, kw) (sd, sh, sw) (pd, ph, pw) finput fgrad_input
      = (Some e, (None, gw1, gb1, fgrad_input))"
    unfolding slow_conv3d_backward_out_cpu_def gw gb
    using ne by (simp add: a(1) p)
  then show "slow_conv3d_backward_out_cpu mem grad_input grad_weight grad_bias grad_output self weight
        (kd, kh, kw) (sd, sh, sw) (pd, ph, pw) finput fgrad_input
      = (Some e,
         (None,
          map_option (\<lambda>g. zero_inplace (resize_inplace mem g (sizes w))) grad_weight,
          map_option (\<lambda>g. zero_inplace (resize_inplace mem g [tsize grad_output 1])) grad_bias,
          fgrad_input))"
    unfolding gw1_def gb1_def .
qed

theorem validation_failure_leaves_buffers_witness:
  "slow_conv3d_forward_out_cpu (\<lambda>i. 0)
       \<lparr>sizes = [1], data = [9]\<rparr> \<lparr>sizes = [1, 1, 1], data = [2]\<rparr> \<lparr>sizes = [0], data = []\<rparr>
       \<lparr>sizes = [1, 1, 1, 1, 1], data = [2 :: int]\<rparr>
       (Some \<lparr>sizes = [1, 1, 1, 1, 1], data = [3]\<rparr>) (0, 1, 1) None (1, 1, 1) (0, 0, 0)
     = (Some (InvalidArgument KernelSizeNotPositive),
        (\<lparr>sizes = [1], data = [9]\<rparr>, \<lparr>sizes = [1, 1, 1], data = [2]\<rparr>, \<lparr>sizes = [0], data = []\<rparr>)) \<and>
   slow_conv3d_backward_out_cpu (\<lambda>i. 0)
       (Some \<lparr>sizes = [0], data = []\<rparr>)
       (Some \<lparr>sizes = [0], data = []\<rparr>) (Some \<lparr>sizes = [0], data = []\<rparr>)
       \<lparr>sizes = [1, 1, 1, 1, 1], data = [1 :: int]\<rparr>
       \<lparr>sizes = [1, 1, 1, 1, 1], data = [2]\<rparr>
       (Some \<lparr>sizes = [1, 1, 1, 1, 1], data = [3]\<rparr>)
       (0, 1, 1) (1, 1, 1) (0, 0, 0)
       \<lparr>sizes = [1, 1, 1], data = [2]\<rparr> \<lparr>sizes = [0], data = []\<rparr>
     = (Some (InvalidArgument KernelSizeNotPositive),
        (Some \<lparr>sizes = [0], data = []\<rparr>,
         Some \<lparr>sizes = [0], data = []\<rparr>, Some \<lparr>sizes = [0], data = []\<rparr>,
         \<lparr>sizes = [0], data = []\<rparr>)) \<and>
   slow_conv3d_shape_check \<lparr>sizes = [1, 1, 1, 1, 1], data = [2 :: int]\<rparr>
       (Some \<lparr>sizes = [1, 1, 1, 1, 1], data = [1]\<rparr>)
       (Some (zero_inplace (resize_inplace (\<lambda>i. 0) \<lparr>sizes = [0], data = []\<rparr> [1, 1, 1, 1, 1])))
       (Some (zero_inplace (resize_inplace (\<lambda>i. 0) \<lparr>sizes = [0], data = []\<rparr> [1])))
       1 1 1 1 1 1 0 0 0 True = Inr () \<and>
   slow_conv3d_backward_out_cpu (\<lambda>i. 0) None
       (Some \<lparr>sizes = [0], data = []\<rparr>) (Some \<lparr>sizes = [0], data = []\<rparr>)
       \<lparr>sizes = [1, 1, 1, 1, 1], data = [1 :: int]\<rparr>
       \<lparr>sizes = [1, 1, 1, 1, 1], data = [2]\<rparr>
       (Some \<lparr>sizes = [1, 1, 1, 1, 1], data = [3]\<rparr>)
       (0, 1, 1) (1, 1, 1) (0, 0, 0)
       \<lparr>sizes = [1, 1, 1], data = [2]\<rparr> \<lparr>sizes = [0], data = []\<rparr>
     = (Some (InvalidArgument KernelSizeNotPositive),
        (None,
         Some \<lparr>sizes = [1, 1, 1, 1, 1], data = [0]\<rparr>,
         Some \<lparr>sizes = [1], data = [0]\<rparr>,
         \<lparr>sizes = [0], data = []\<rparr>))"
proof -
  let ?E = "\<lparr>sizes = [0], data = []\<rparr> :: int Tensor"
  let ?X = "\<lparr>sizes = [1, 1, 1, 1, 1], data = [2 :: int]\<rparr>"
  let ?G = "\<lparr>sizes = [1, 1, 1, 1, 1], data = [1 :: int]\<rparr>"
  let ?W = "\<lparr>sizes = [1, 1, 1, 1, 1], data = [3 :: int]\<rparr>"
  let ?F = "\<lparr>sizes = [1, 1, 1], data = [2 :: int]\<rparr>"
  note defs = slow_conv3d_shape_check_def Let_def dim_def tsize_def numel_def div_rtn_def
    TORCH_CHECK_def check_dim_size_def zero_inplace_def resize_inplace_def
  note t = validation_failure_leaves_buffers
  show ?thesis
    using t [of ?X "Some ?W" None 0 1 1 1 1 1 0 0 0 "InvalidArgument KernelSizeNotPositive"
               "(\<lambda>i. 0)" "\<lparr>sizes = [1], data = [9]\<rparr>" ?F ?E "Some ?E" ?G "Some ?E" "Some ?E" ?W]
          t [of ?X "Some ?W" None 1 1 1 1 1 1 0 0 0 "InvalidArgument KernelSizeNotPositive"
               "(\<lambda>i. 0)" ?E ?E ?E None ?G "Some ?E" "Some ?E" ?W]
          t [of ?X "Some ?W" None 0 1 1 1 1 1 0 0 0 "InvalidArgument KernelSizeNotPositive"
               "(\<lambda>i. 0)" ?E ?F ?E None ?G "Some ?E" "Some ?E" ?W]
    by (simp add: defs)
qed

subsection \<open>Lemmas on the input-gradient pass and on batch slices\<close>

lemma map2_second:
  assumes "length xs = length ys"
  shows "map2 (\<lambda>s x. x) xs ys = ys"
  using assms by (induction xs ys rule: list_induct2) simp_all

lemma grad_input_frame_success:
  fixes weight :: "'a::semiring_1 Tensor"
  assumes tw: "sizes weight = [K, n]"
    and sf: "sizes fgrad_input = [K, L]"
    and lf: "length (data fgrad_input) = K * L"
    and g0: "tsize grad_output 0 = n"
    and g1: "tsize grad_output 1 * tsize grad_output 2 * tsize grad_output 3 = L"
    and FG: "FG = fgrad_input\<lparr>data := matmul_data K n L (data weight) (data grad_output)\<rparr>"
  shows "slow_conv3d_backward_update_grad_input_frame grad_input grad_output weight fgrad_input
           kd kh kw sd sh sw pd ph pw
         = (None,
            (unfolded3d_acc_kernel_cpu FG (zero_inplace grad_input) kd kh kw sd sh sw pd ph pw
               (int (tsize grad_input 0)) (int (tsize grad_input 1))
               (int (tsize grad_input 2)) (int (tsize grad_input 3))
               (int (tsize grad_output 1)) (int (tsize grad_output 2))
               (int (tsize grad_output 3)),
             FG))"
proof -
  have mmv: "mm weight (reshape grad_output
          [tsize grad_output 0, tsize grad_output 1 * tsize grad_output 2 * tsize grad_output 3])
      = Inr \<lparr>sizes = [K, L], data = matmul_data K n L (data weight) (data grad_output)\<rparr>"
    using tw g0 g1 by (simp add: mm_def dim_def tsize_def reshape_def)
  have ad: "addmm_inplace fgrad_input weight (reshape grad_output
          [tsize grad_output 0, tsize grad_output 1 * tsize grad_output 2 * tsize grad_output 3])
          0 1 = Inr FG"
    unfolding addmm_inplace_def mmv FG using sf lf
    by (simp add: map2_second)
  show ?thesis
    unfolding slow_conv3d_backward_update_grad_input_frame_def Let_def ad
    by simp
qed

lemma grad_input_frame_shape_mismatch:
  fixes weight :: "'a::semiring_1 Tensor"
  assumes tw: "sizes weight = [K, n]"
    and g0: "tsize grad_output 0 = n"
    and ne: "sizes fgrad_input \<noteq>
               [K, tsize grad_output 1 * tsize grad_output 2 * tsize grad_output 3]"
  shows "fst (slow_conv3d_backward_update_grad_input_frame grad_input grad_output weight
           fgrad_input kd kh kw sd sh sw pd ph pw) \<noteq> None"
proof -
  have mmv: "mm weight (reshape grad_output
          [tsize grad_output 0, tsize grad_output 1 * tsize grad_output 2 * tsize grad_output 3])
      = Inr \<lparr>sizes = [K, tsize grad_output 1 * tsize grad_output 2 * tsize grad_output 3],
              data = matmul_data K n (tsize grad_output 1 * tsize grad_output 2 * tsize grad_output 3)
                       (data weight) (data grad_output)\<rparr>"
    using tw g0 by (simp add: mm_def dim_def tsize_def reshape_def)
  show ?thesis
    unfolding slow_conv3d_backward_update_grad_input_frame_def Let_def addmm_inplace_def mmv
    using ne by simp
qed

lemma length_acc_data [simp]:
  "length (data (unfolded3d_acc_kernel_cpu finput input kernel_d kernel_h kernel_w
     stride_d stride_h stride_w pad_d pad_h pad_w
     n_input_plane input_depth input_height input_width
     output_depth output_height output_width)) = length (data input)"
  by (simp add: unfolded3d_acc_kernel_cpu_def Let_def)

lemma sizes_acc [simp]:
  "sizes (unfolded3d_acc_kernel_cpu finput input kernel_d kernel_h kernel_w
     stride_d stride_h stride_w pad_d pad_h pad_w
     n_input_plane input_depth input_height input_width
     output_depth output_height output_width) = sizes input"
  by (simp add: unfolded3d_acc_kernel_cpu_def Let_def)

lemma run_range_success_steps:
  assumes "fst (run_range f ts s) = None" and "P s"
    and pres: "\<And>t s. P s \<Longrightarrow> P (snd (f t s))"
  shows "\<forall>t\<in>set ts. \<exists>s1. P s1 \<and> fst (f t s1) = None"
  using assms(1,2)
proof (induction ts arbitrary: s)
  case Nil
  then show ?case by simp
next
  case (Cons t ts)
  obtain e s1 where fs: "f t s = (e, s1)" by (cases "f t s")
  from pres [OF Cons.prems(2), of t] fs have P1: "P s1" by simp
  show ?case
  proof (cases e)
    case None
    with fs Cons.prems(1) have "fst (run_range f ts s1) = None" by simp
    from Cons.IH [OF this P1] have rest: "\<forall>t\<in>set ts. \<exists>s1. P s1 \<and> fst (f t s1) = None" .
    have "\<exists>s1. P s1 \<and> fst (f t s1) = None"
      using Cons.prems(2) fs None by (intro exI [of _ s]) simp
    with rest show ?thesis by simp
  next
    case (Some a)
    with fs Cons.prems(1) show ?thesis by simp
  qed
qed

lemma sizes_transpose2d [simp]: "sizes (transpose2d t) = [tsize t 1, tsize t 0]"
  by (simp add: transpose2d_def Let_def)

lemma shape_check_backward_ok:
  assumes "slow_conv3d_shape_check input (Some grad_output) weight None kd kh kw sd sh sw pd ph pw False = Inr ()"
  shows "\<exists>w. weight = Some w \<and> (dim w = 2 \<or> dim w = 5) \<and> tsize grad_output 1 = tsize w 0"
    and "dim input = 5" and "dim grad_output = 5"
proof -
  note defs = slow_conv3d_shape_check_def Let_def
  show "\<exists>w. weight = Some w \<and> (dim w = 2 \<or> dim w = 5) \<and> tsize grad_output 1 = tsize w 0"
    using assms by (cases weight) (simp_all add: defs)
  show "dim input = 5" using assms by (simp add: defs)
  then show "dim grad_output = 5" using assms by (simp add: defs)
qed

lemma sizes_cons_tl:
  assumes "dim t \<noteq> 0"
  shows "sizes t = tsize t 0 # tl (sizes t)"
  using assms by (cases "sizes t") (simp_all add: dim_def tsize_def)

lemma tsize_tl:
  assumes "Suc i < dim t"
  shows "tl (sizes t) ! i = tsize t (Suc i)"
  using assms by (simp add: nth_tl dim_def tsize_def)

lemma backward_template_unfold:
  fixes input :: "'a::semiring_1 Tensor"
  assumes ok: "slow_conv3d_shape_check input (Some grad_output) (Some w) None kd kh kw sd sh sw pd ph pw False = Inr ()"
  shows "slow_conv3d_backward_out_cpu_template mem grad_input grad_output input (Some w)
           finput fgrad_input (kd, kh, kw) (sd, sh, sw) (pd, ph, pw)
         = run_range
             (\<lambda>t (grad_input, fgrad_input).
                let grad_input_t = select grad_input t
                in case select_checked grad_output t of
                     Inl e \<Rightarrow> (Some e, (grad_input, fgrad_input))
                   | Inr grad_output_t \<Rightarrow>
                      (case select_checked fgrad_input t of
                         Inl e \<Rightarrow> (Some e, (grad_input, fgrad_input))
                       | Inr fgrad_input_t \<Rightarrow>
                          (case slow_conv3d_backward_update_grad_input_frame
                                  grad_input_t grad_output_t (transpose2d (view_weight_2d w))
                                  fgrad_input_t kd kh kw sd sh sw pd ph pw of
                             (err, (grad_input_t', fgrad_input_t')) \<Rightarrow>
                               (err,
                                (select_store grad_input t grad_input_t',
                                 select_store fgrad_input t fgrad_input_t')))))
             [0..<tsize input 0]
             (resize_inplace mem grad_input (sizes input),
              zero_inplace (resize_inplace mem fgrad_input (sizes finput)))"
  unfolding slow_conv3d_backward_out_cpu_template_def parallel_for_def
  by (simp add: ok Let_def contiguous_def is_contiguous_def resize_as_inplace_def)

lemma backward_loop:
  fixes tW :: "'a::semiring_1 Tensor"
  assumes tw: "sizes tW = [K, n]"
    and go: "sizes grad_output = Ng # tg" "tg ! 0 = n" "tg ! 1 * tg ! 2 * tg ! 3 = L"
    and NNg: "N \<le> Ng" and NNf: "N \<le> Nf"
    and lF: "length dF = Nf * (K * L)"
    and lG: "length dG = N * m" and pm: "prod_list ti = m"
    and FGd: "FGd = (\<lambda>t. matmul_data K n L (data tW) (data (select grad_output t)))"
    and GId: "GId = (\<lambda>t. data (unfolded3d_acc_kernel_cpu \<lparr>sizes = [K, L], data = FGd t\<rparr>
                 \<lparr>sizes = ti, data = replicate m 0\<rparr> kd kh kw sd sh sw pd ph pw
                 (int (ti ! 0)) (int (ti ! 1)) (int (ti ! 2)) (int (ti ! 3))
                 (int (tg ! 1)) (int (tg ! 2)) (int (tg ! 3))))"
  shows "run_range
             (\<lambda>t (grad_input, fgrad_input).
                let grad_input_t = select grad_input t
                in case select_checked grad_output t of
                     Inl e \<Rightarrow> (Some e, (grad_input, fgrad_input))
                   | Inr grad_output_t \<Rightarrow>
                      (case select_checked fgrad_input t of
                         Inl e \<Rightarrow> (Some e, (grad_input, fgrad_input))
                       | Inr fgrad_input_t \<Rightarrow>
                          (case slow_conv3d_backward_update_grad_input_frame
                                  grad_input_t grad_output_t tW
                                  fgrad_input_t kd kh kw sd sh sw pd ph pw of
                             (err, (grad_input_t', fgrad_input_t')) \<Rightarrow>
                               (err,
                                (select_store grad_input t grad_input_t',
                                 select_store fgrad_input t fgrad_input_t')))))
             [0..<N]
             (\<lparr>sizes = N # ti, data = dG\<rparr>, \<lparr>sizes = [Nf, K, L], data = dF\<rparr>)
         = (None,
            (\<lparr>sizes = N # ti, data = concat (map GId [0..<N])\<rparr>,
             \<lparr>sizes = [Nf, K, L], data = concat (map FGd [0..<N]) @ drop (N * (K * L)) dF\<rparr>))"
proof -
  let ?f = "\<lambda>t (grad_input, fgrad_input).
                let grad_input_t = select grad_input t
                in case select_checked grad_output t of
                     Inl e \<Rightarrow> (Some e, (grad_input, fgrad_input))
                   | Inr grad_output_t \<Rightarrow>
                      (case select_checked fgrad_input t of
                         Inl e \<Rightarrow> (Some e, (grad_input, fgrad_input))
                       | Inr fgrad_input_t \<Rightarrow>
                          (case slow_conv3d_backward_update_grad_input_frame
                                  grad_input_t grad_output_t tW
                                  fgrad_input_t kd kh kw sd sh sw pd ph pw of
                             (err, (grad_input_t', fgrad_input_t')) \<Rightarrow>
                               (err,
                                (select_store grad_input t grad_input_t',
                                 select_store fgrad_input t fgrad_input_t'))))"
  let ?I = "\<lambda>t s. s = (\<lparr>sizes = N # ti, data = concat (map GId [0..<t]) @ drop (t * m) dG\<rparr>,
                        \<lparr>sizes = [Nf, K, L], data = concat (map FGd [0..<t]) @ drop (t * (K * L)) dF\<rparr>)"
  have lFG: "length (FGd t) = K * L" for t
    by (simp add: FGd)
  have lGI: "length (GId t) = m" for t
    by (simp add: GId)
  have lcF: "length (concat (map FGd [0..<t])) = t * (K * L)" for t
    by (rule length_concat_const) (rule lFG)
  have lcG: "length (concat (map GId [0..<t])) = t * m" for t
    by (rule length_concat_const) (rule lGI)
  have step: "\<exists>s'. ?f t s = (None, s') \<and> ?I (Suc t) s'" if t: "t < N" and inv: "?I t s" for t s
  proof -
    let ?G = "\<lparr>sizes = N # ti, data = concat (map GId [0..<t]) @ drop (t * m) dG\<rparr>"
    let ?F = "\<lparr>sizes = [Nf, K, L], data = concat (map FGd [0..<t]) @ drop (t * (K * L)) dF\<rparr>"
    let ?gt = "\<lparr>sizes = ti, data = take m (drop (t * m) dG)\<rparr>"
    let ?ft = "\<lparr>sizes = [K, L], data = take (K * L) (drop (t * (K * L)) dF)\<rparr>"
    have s: "s = (?G, ?F)" using inv .
    have selG: "select ?G t = ?gt"
      using select_of_prefix [OF lcG, where szs = "N # ti" and d = dG] pm by simp
    have selF: "select ?F t = ?ft"
      using select_of_prefix [OF lcF, where szs = "[Nf, K, L]" and d = dF] by simp
    have tNf: "t < Nf" using t NNf by simp
    have lft: "length (data ?ft) = K * L"
      using take_slice_length [OF lF tNf] by simp
    have lgt: "length (data ?gt) = m"
      using take_slice_length [OF lG t] by simp
    have scg: "select_checked grad_output t = Inr (select grad_output t)"
      using go(1) t NNg by (simp add: select_checked_def dim_def tsize_def)
    have scf: "select_checked ?F t = Inr ?ft"
      using tNf selF by (simp add: select_checked_def dim_def tsize_def)
    have sgo: "sizes (select grad_output t) = tg"
      using go(1) by simp
    have z: "zero_inplace ?gt = \<lparr>sizes = ti, data = replicate m 0\<rparr>"
      using lgt by (simp add: zero_inplace_def)
    have fr: "slow_conv3d_backward_update_grad_input_frame ?gt (select grad_output t) tW ?ft
           kd kh kw sd sh sw pd ph pw
         = (None, (\<lparr>sizes = ti, data = GId t\<rparr>, \<lparr>sizes = [K, L], data = FGd t\<rparr>))"
    proof -
      have "slow_conv3d_backward_update_grad_input_frame ?gt (select grad_output t) tW ?ft
           kd kh kw sd sh sw pd ph pw
         = (None,
            (unfolded3d_acc_kernel_cpu \<lparr>sizes = [K, L], data = FGd t\<rparr> (zero_inplace ?gt)
               kd kh kw sd sh sw pd ph pw
               (int (tsize ?gt 0)) (int (tsize ?gt 1)) (int (tsize ?gt 2)) (int (tsize ?gt 3))
               (int (tsize (select grad_output t) 1)) (int (tsize (select grad_output t) 2))
               (int (tsize (select grad_output t) 3)),
             \<lparr>sizes = [K, L], data = FGd t\<rparr>))"
        by (rule grad_input_frame_success [OF tw _ lft])
           (use go in \<open>simp_all add: tsize_def sgo FGd\<close>)
      moreover have "unfolded3d_acc_kernel_cpu \<lparr>sizes = [K, L], data = FGd t\<rparr> (zero_inplace ?gt)
               kd kh kw sd sh sw pd ph pw
               (int (tsize ?gt 0)) (int (tsize ?gt 1)) (int (tsize ?gt 2)) (int (tsize ?gt 3))
               (int (tsize (select grad_output t) 1)) (int (tsize (select grad_output t) 2))
               (int (tsize (select grad_output t) 3))
          = \<lparr>sizes = ti, data = GId t\<rparr>"
        unfolding z GId tsize_def sgo
        by (simp add: unfolded3d_acc_kernel_cpu_def Let_def)
      ultimately show ?thesis by simp
    qed
    have stG: "select_store ?G t \<lparr>sizes = ti, data = GId t\<rparr>
        = \<lparr>sizes = N # ti, data = (concat (map GId [0..<t]) @ GId t) @ drop (Suc t * m) dG\<rparr>"
      using select_store_of_prefix [OF lcG, where szs = "N # ti" and d = dG and s = "\<lparr>sizes = ti, data = GId t\<rparr>"] pm
      by simp
    have stF: "select_store ?F t \<lparr>sizes = [K, L], data = FGd t\<rparr>
        = \<lparr>sizes = [Nf, K, L], data = (concat (map FGd [0..<t]) @ FGd t) @ drop (Suc t * (K * L)) dF\<rparr>"
      using select_store_of_prefix [OF lcF, where szs = "[Nf, K, L]" and d = dF and s = "\<lparr>sizes = [K, L], data = FGd t\<rparr>"]
      by simp
    have "?f t s = (None, (select_store ?G t \<lparr>sizes = ti, data = GId t\<rparr>,
                            select_store ?F t \<lparr>sizes = [K, L], data = FGd t\<rparr>))"
      unfolding s by (simp only: split Let_def selG scg scf fr sum.case)
    then show ?thesis
      unfolding stG stF by (simp only: concat_upt_Suc) simp
  qed
  have "\<exists>s'. run_range ?f [0..<N] (\<lparr>sizes = N # ti, data = dG\<rparr>, \<lparr>sizes = [Nf, K, L], data = dF\<rparr>)
           = (None, s') \<and> ?I N s'"
  proof (rule run_range_invariant [where I = ?I])
    show "\<exists>s'. ?f t s = (None, s') \<and> ?I (Suc t) s'" if "0 \<le> t" "t < N" "?I t s" for t s
      using that(2,3) by (rule step)
    show "?I 0 (\<lparr>sizes = N # ti, data = dG\<rparr>, \<lparr>sizes = [Nf, K, L], data = dF\<rparr>)" by simp
    show "0 \<le> N" by simp
  qed
  then show ?thesis
    using lG by auto
qed

lemma dim_batch_item: "dim t \<noteq> 0 \<Longrightarrow> dim (batch_item t i) = dim t"
  by (cases "sizes t") (simp_all add: batch_item_def dim_def)

lemma tsize_batch_item_0 [simp]: "tsize (batch_item t i) 0 = 1"
  by (simp add: batch_item_def tsize_def)

lemma tsize_batch_item: "0 < j \<Longrightarrow> j < dim t \<Longrightarrow> tsize (batch_item t i) j = tsize t j"
  by (cases "sizes t"; cases j) (simp_all add: batch_item_def tsize_def dim_def)

lemma tl_sizes_batch_item [simp]: "tl (sizes (batch_item t i)) = tl (sizes t)"
  by (simp add: batch_item_def)

lemma select_batch_item [simp]: "select (batch_item t i) 0 = select t i"
  by (simp add: batch_item_def select_def Let_def)

lemma numel_batch_item:
  assumes "0 < numel t"
  shows "0 < numel (batch_item t i)"
proof -
  from assms have "\<forall>n\<in>set (sizes t). n \<noteq> 0" by (simp add: numel_pos_iff)
  moreover have "set (tl (sizes t)) \<subseteq> set (sizes t)"
    by (cases "sizes t") auto
  ultimately have "\<forall>n\<in>set (sizes (batch_item t i)). n \<noteq> 0"
    by (auto simp add: batch_item_def)
  then show ?thesis by (simp add: numel_pos_iff)
qed

lemma shape_check_batch_item:
  assumes ok: "slow_conv3d_shape_check input grad_output weight bias kd kh kw sd sh sw pd ph pw wo = Inr ()"
    and N: "0 < tsize input 0"
  shows "slow_conv3d_shape_check (batch_item input t) (map_option (\<lambda>g. batch_item g t) grad_output)
           weight bias kd kh kw sd sh sw pd ph pw wo = Inr ()"
proof -
  note di = shape_check_Inr_input [OF ok]
  from di(2) N have np: "0 < numel input" by auto
  have d': "dim (batch_item input t) = 5"
    using di(1) by (simp add: dim_batch_item)
  have np': "0 < numel (batch_item input t)"
    using np by (rule numel_batch_item)
  have ts: "tsize (batch_item input t) 1 = tsize input 1" "tsize (batch_item input t) 2 = tsize input 2"
    "tsize (batch_item input t) 3 = tsize input 3" "tsize (batch_item input t) 4 = tsize input 4"
    using di(1) by (simp_all add: tsize_batch_item)
  have ts': "tsize (batch_item input t) (Suc 0) = tsize input (Suc 0)"
    using ts(1) by simp
  show ?thesis
  proof (cases grad_output)
    case None
    then show ?thesis
      using ok np np' d' di(1)
      by (cases weight; cases bias)
         (simp_all add: slow_conv3d_shape_check_def Let_def ts ts')
  next
    case (Some g)
    have dg: "dim g = 5"
      using ok Some di(1) by (cases weight; cases bias) (simp_all add: slow_conv3d_shape_check_def Let_def)
    have dg': "dim (batch_item g t) = 5"
      using dg by (simp add: dim_batch_item)
    have tg: "tsize (batch_item g t) 1 = tsize g 1" "tsize (batch_item g t) 2 = tsize g 2"
      "tsize (batch_item g t) 3 = tsize g 3" "tsize (batch_item g t) 4 = tsize g 4"
      using dg by (simp_all add: tsize_batch_item)
    have tg': "tsize (batch_item g t) (Suc 0) = tsize g (Suc 0)"
      using tg(1) by simp
    show ?thesis
      using ok np np' d' di(1) dg dg' Some
      by (cases weight; cases bias)
         (simp_all add: slow_conv3d_shape_check_def Let_def ts ts' tg tg')
  qed
qed

lemma sizes_rank5:
  assumes "dim t = 5"
  shows "\<exists>a b c d e. sizes t = [a, b, c, d, e]"
  using assms by (auto simp add: dim_def eval_nat_numeral length_Suc_conv)

lemma tl_sizes_rank5:
  assumes "dim t = 5"
  shows "tl (sizes t) ! 0 = tsize t 1" "tl (sizes t) ! 1 = tsize t 2"
    "tl (sizes t) ! 2 = tsize t 3" "tl (sizes t) ! 3 = tsize t 4"
proof -
  from sizes_rank5 [OF assms] obtain a b c d e where "sizes t = [a, b, c, d, e]" by blast
  then show "tl (sizes t) ! 0 = tsize t 1" "tl (sizes t) ! 1 = tsize t 2"
    "tl (sizes t) ! 2 = tsize t 3" "tl (sizes t) ! 3 = tsize t 4"
    by (simp_all add: tsize_def)
qed

lemma backward_result:
  fixes input :: "'a::semiring_1 Tensor"
  assumes ok: "slow_conv3d_shape_check input (Some grad_output) (Some w) None kd kh kw sd sh sw pd ph pw False = Inr ()"
    and wfg: "well_formed grad_input" and wff: "well_formed fgrad_input"
    and K: "K = tsize (view_weight_2d w) 1"
    and L: "L = tsize grad_output 2 * tsize grad_output 3 * tsize grad_output 4"
    and Ng: "tsize input 0 \<le> tsize grad_output 0"
    and sf: "sizes finput = [Nf, K, L]" and Nf: "tsize input 0 \<le> Nf"
    and FGd: "FGd = (\<lambda>t. matmul_data K (tsize w 0) L (data (transpose2d (view_weight_2d w)))
                       (data (select grad_output t)))"
    and GId: "GId = (\<lambda>t. data (unfolded3d_acc_kernel_cpu \<lparr>sizes = [K, L], data = FGd t\<rparr>
                 \<lparr>sizes = tl (sizes input), data = replicate (prod_list (tl (sizes input))) 0\<rparr>
                 kd kh kw sd sh sw pd ph pw
                 (int (tsize input 1)) (int (tsize input 2)) (int (tsize input 3))
                 (int (tsize input 4))
                 (int (tsize grad_output 2)) (int (tsize grad_output 3))
                 (int (tsize grad_output 4))))"
  shows "\<exists>fg. slow_conv3d_backward_out_cpu_template mem grad_input grad_output input (Some w)
           finput fgrad_input (kd, kh, kw) (sd, sh, sw) (pd, ph, pw)
         = (None, (\<lparr>sizes = sizes input, data = concat (map GId [0..<tsize input 0])\<rparr>, fg))"
proof -
  note c = shape_check_backward_ok [OF ok]
  from c(1) have dw: "dim w = 2 \<or> dim w = 5" and ch: "tsize grad_output 1 = tsize w 0"
    by simp_all
  define N where "N = tsize input 0"
  define ti where "ti = tl (sizes input)"
  define tg where "tg = tl (sizes grad_output)"
  define m where "m = prod_list ti"
  have si: "sizes input = N # ti"
    using sizes_cons_tl [of input] c(2) by (simp add: N_def ti_def)
  have sg: "sizes grad_output = tsize grad_output 0 # tg"
    using sizes_cons_tl [of grad_output] c(3) by (simp add: tg_def)
  have tis: "ti ! 0 = tsize input 1" "ti ! 1 = tsize input 2" "ti ! 2 = tsize input 3"
    "ti ! 3 = tsize input 4"
    unfolding ti_def by (rule tl_sizes_rank5 [OF c(2)])+
  have tgs: "tg ! 0 = tsize grad_output 1" "tg ! 1 = tsize grad_output 2"
    "tg ! 2 = tsize grad_output 3" "tg ! 3 = tsize grad_output 4"
    unfolding tg_def by (rule tl_sizes_rank5 [OF c(3)])+
  have sW2: "sizes (view_weight_2d w) = [tsize w 0, K]"
    using sizes_view_weight_2d [OF dw] by (simp add: K tsize_def)
  have tw: "sizes (transpose2d (view_weight_2d w)) = [K, tsize w 0]"
    using sW2 by (simp add: tsize_def)
  from resize_as_record [OF wfg, of mem "N # ti"]
  obtain dG where dG: "resize_inplace mem grad_input (N # ti) = \<lparr>sizes = N # ti, data = dG\<rparr>"
    "length dG = N * m" by (auto simp add: m_def)
  define dF where "dF = replicate (length (data (resize_inplace mem fgrad_input [Nf, K, L]))) (0::'a)"
  have zf: "zero_inplace (resize_inplace mem fgrad_input [Nf, K, L]) = \<lparr>sizes = [Nf, K, L], data = dF\<rparr>"
    by (simp add: zero_inplace_def dF_def)
  have GId': "GId = (\<lambda>t. data (unfolded3d_acc_kernel_cpu \<lparr>sizes = [K, L], data = FGd t\<rparr>
                 \<lparr>sizes = ti, data = replicate m 0\<rparr> kd kh kw sd sh sw pd ph pw
                 (int (ti ! 0)) (int (ti ! 1)) (int (ti ! 2)) (int (ti ! 3))
                 (int (tg ! 1)) (int (tg ! 2)) (int (tg ! 3))))"
    unfolding GId m_def using tis tgs by (simp add: ti_def [symmetric])
  show ?thesis
  proof (cases "N = 0")
    case True
    have "resize_inplace mem grad_input (0 # ti) = \<lparr>sizes = 0 # ti, data = []\<rparr>"
      using dG True by simp
    then show ?thesis
      unfolding backward_template_unfold [OF ok] N_def [symmetric] si
      using True by simp
  next
    case False
    have lF: "length dF = Nf * (K * L)"
      using well_formed_resize [OF wff, of mem "[Nf, K, L]"] by (simp add: dF_def)
    have "run_range
             (\<lambda>t (grad_input, fgrad_input).
                let grad_input_t = select grad_input t
                in case select_checked grad_output t of
                     Inl e \<Rightarrow> (Some e, (grad_input, fgrad_input))
                   | Inr grad_output_t \<Rightarrow>
                      (case select_checked fgrad_input t of
                         Inl e \<Rightarrow> (Some e, (grad_input, fgrad_input))
                       | Inr fgrad_input_t \<Rightarrow>
                          (case slow_conv3d_backward_update_grad_input_frame
                                  grad_input_t grad_output_t (transpose2d (view_weight_2d w))
                                  fgrad_input_t kd kh kw sd sh sw pd ph pw of
                             (err, (grad_input_t', fgrad_input_t')) \<Rightarrow>
                               (err,
                                (select_store grad_input t grad_input_t',
                                 select_store fgrad_input t fgrad_input_t')))))
             [0..<N]
             (\<lparr>sizes = N # ti, data = dG\<rparr>, \<lparr>sizes = [Nf, K, L], data = dF\<rparr>)
         = (None,
            (\<lparr>sizes = N # ti, data = concat (map GId [0..<N])\<rparr>,
             \<lparr>sizes = [Nf, K, L], data = concat (map FGd [0..<N]) @ drop (N * (K * L)) dF\<rparr>))"
    proof (rule backward_loop [OF tw sg _ _ _ _ lF dG(2) _ FGd GId'])
      show "tg ! 0 = tsize w 0" using tgs(1) ch by simp
      show "tg ! 1 * tg ! 2 * tg ! 3 = L" using tgs by (simp add: L)
      show "N \<le> tsize grad_output 0" using Ng by (simp add: N_def)
      show "N \<le> Nf" using Nf by (simp add: N_def)
      show "prod_list ti = m" by (simp add: m_def)
    qed
    then show ?thesis
      unfolding backward_template_unfold [OF ok] N_def [symmetric] si sf dG(1) zf
      by simp
  qed
qed

lemma backward_success_compat:
  fixes input :: "'a::semiring_1 Tensor"
  assumes succ: "fst (slow_conv3d_backward_out_cpu_template mem grad_input grad_output input weight
                   finput fgrad_input (kd, kh, kw) (sd, sh, sw) (pd, ph, pw)) = None"
    and N: "0 < tsize input 0"
  shows "\<exists>w. weight = Some w \<and>
           slow_conv3d_shape_check input (Some grad_output) (Some w) None kd kh kw sd sh sw pd ph pw False = Inr () \<and>
           tsize input 0 \<le> tsize grad_output 0 \<and>
           sizes finput = [tsize finput 0, tsize (view_weight_2d w) 1,
                           tsize grad_output 2 * tsize grad_output 3 * tsize grad_output 4] \<and>
           tsize input 0 \<le> tsize finput 0"
proof -
  have ok0: "slow_conv3d_shape_check input (Some grad_output) weight None kd kh kw sd sh sw pd ph pw False = Inr ()"
  proof (cases "slow_conv3d_shape_check input (Some grad_output) weight None kd kh kw sd sh sw pd ph pw False")
    case (Inl e)
    from backward_template_check_failed [OF this] succ show ?thesis by simp
  next
    case (Inr u)
    then show ?thesis by simp
  qed
  note c = shape_check_backward_ok [OF ok0]
  from c(1) obtain w where w: "weight = Some w" and dw: "dim w = 2 \<or> dim w = 5"
    and ch: "tsize grad_output 1 = tsize w 0" by blast
  have ok: "slow_conv3d_shape_check input (Some grad_output) (Some w) None kd kh kw sd sh sw pd ph pw False = Inr ()"
    using ok0 w by simp
  define K where "K = tsize (view_weight_2d w) 1"
  define tW where "tW = transpose2d (view_weight_2d w)"
  define t where "t = tsize input 0 - 1"
  have tin: "t \<in> set [0..<tsize input 0]" using N by (simp add: t_def)
  have tw: "sizes tW = [K, tsize w 0]"
    using sizes_view_weight_2d [OF dw] by (simp add: tW_def K_def tsize_def)
  let ?f = "\<lambda>t (grad_input, fgrad_input).
                let grad_input_t = select grad_input t
                in case select_checked grad_output t of
                     Inl e \<Rightarrow> (Some e, (grad_input, fgrad_input))
                   | Inr grad_output_t \<Rightarrow>
                      (case select_checked fgrad_input t of
                         Inl e \<Rightarrow> (Some e, (grad_input, fgrad_input))
                       | Inr fgrad_input_t \<Rightarrow>
                          (case slow_conv3d_backward_update_grad_input_frame
                                  grad_input_t grad_output_t tW
                                  fgrad_input_t kd kh kw sd sh sw pd ph pw of
                             (err, (grad_input_t', fgrad_input_t')) \<Rightarrow>
                               (err,
                                (select_store grad_input t grad_input_t',
                                 select_store fgrad_input t fgrad_input_t'))))"
  let ?P = "\<lambda>s. sizes (snd s) = sizes finput"
  let ?s0 = "(resize_inplace mem grad_input (sizes input),
              zero_inplace (resize_inplace mem fgrad_input (sizes finput)))"
  have run: "fst (run_range ?f [0..<tsize input 0] ?s0) = None"
    using succ unfolding w backward_template_unfold [OF ok] tW_def .
  have pres: "?P (snd (?f t s))" if "?P s" for t s
    using that by (cases s) (simp add: Let_def split: sum.splits prod.splits)
  have "\<forall>t\<in>set [0..<tsize input 0]. \<exists>s1. ?P s1 \<and> fst (?f t s1) = None"
  proof (rule run_range_success_steps [where P = ?P, OF run])
    show "?P ?s0" by simp
    show "?P (snd (?f t s))" if "?P s" for t s using that by (rule pres)
  qed
  with tin obtain s1 where P1: "?P s1" and f1: "fst (?f t s1) = None" by blast
  obtain G F where s1: "s1 = (G, F)" by (cases s1)
  from P1 s1 have sF: "sizes F = sizes finput" by simp
  from f1 have gsel: "select_checked grad_output t = Inr (select grad_output t)"
    unfolding s1 by (simp add: Let_def select_checked_def split: if_splits)
  from f1 gsel have fsel: "select_checked F t = Inr (select F t)"
    unfolding s1 by (simp add: Let_def select_checked_def split: if_splits)
  from f1 gsel fsel have fr: "fst (slow_conv3d_backward_update_grad_input_frame
         (select G t) (select grad_output t) tW (select F t) kd kh kw sd sh sw pd ph pw) = None"
    unfolding s1 by (simp add: Let_def split: prod.splits)
  from gsel have tg: "t < tsize grad_output 0"
    by (simp add: select_checked_def split: if_splits)
  from fsel sF have tf: "dim finput \<noteq> 0" "t < tsize finput 0"
    by (simp_all add: select_checked_def dim_def tsize_def split: if_splits)
  have gts: "tsize (select grad_output t) 0 = tsize grad_output 1"
    "tsize (select grad_output t) 1 = tsize grad_output 2"
    "tsize (select grad_output t) 2 = tsize grad_output 3"
    "tsize (select grad_output t) 3 = tsize grad_output 4"
    using tl_sizes_rank5 [OF c(3)] by (simp_all add: tsize_def)
  have "sizes (select F t) = [K, tsize (select grad_output t) 1 * tsize (select grad_output t) 2 *
                                  tsize (select grad_output t) 3]"
  proof (rule ccontr)
    assume ne: "sizes (select F t) \<noteq> [K, tsize (select grad_output t) 1 *
                  tsize (select grad_output t) 2 * tsize (select grad_output t) 3]"
    have g0: "tsize (select grad_output t) 0 = tsize w 0" using gts(1) ch by simp
    from grad_input_frame_shape_mismatch [OF tw g0 ne] fr show False by blast
  qed
  then have tlf: "tl (sizes finput) = [K, tsize grad_output 2 * tsize grad_output 3 * tsize grad_output 4]"
    using sF gts by simp
  have "sizes finput = tsize finput 0 # tl (sizes finput)"
    using tf(1) by (rule sizes_cons_tl)
  with tlf have sfin: "sizes finput = [tsize finput 0, K,
                           tsize grad_output 2 * tsize grad_output 3 * tsize grad_output 4]"
    by simp
  have "tsize input 0 \<le> tsize grad_output 0" "tsize input 0 \<le> tsize finput 0"
    using tg tf(2) N by (simp_all add: t_def)
  with w ok sfin show ?thesis
    unfolding K_def by blast
qed

lemma tsize_batch_item_rank5:
  assumes "dim t = 5"
  shows "tsize (batch_item t i) 1 = tsize t 1" "tsize (batch_item t i) 2 = tsize t 2"
    "tsize (batch_item t i) 3 = tsize t 3" "tsize (batch_item t i) 4 = tsize t 4"
  using assms by (simp_all add: tsize_batch_item)

lemma forward_batch_item:
  fixes self :: "'a::semiring_1 Tensor"
  assumes ok: "slow_conv3d_shape_check self None weight bias kd kh kw sd sh sw pd ph pw False = Inr ()"
    and wfo: "well_formed output" and wff: "well_formed finput"
    and wfb: "\<And>b. bias = Some b \<Longrightarrow> well_formed b"
    and w: "weight = Some w"
    and compat: "tsize (view_weight_2d w) 1 = nat (int (tsize self 1) * kd * kh * kw)"
    and t: "t < tsize self 0"
    and od: "od = (int (tsize self 2) + 2 * pd - kd) div sd + 1"
    and oh: "oh = (int (tsize self 3) + 2 * ph - kh) div sh + 1"
    and ow: "ow = (int (tsize self 4) + 2 * pw - kw) div sw + 1"
    and U: "U = (\<lambda>t. unfold_columns (select self t) (int (tsize self 1)) (int (tsize self 2))
                 (int (tsize self 3)) (int (tsize self 4)) od oh ow kd kh kw sd sh sw pd ph pw)"
  shows "slow_conv3d_forward_out_cpu mem output finput fgrad_input (batch_item self t) weight
           (kd, kh, kw) bias (sd, sh, sw) (pd, ph, pw)
         = (None,
            (\<lparr>sizes = [1, tsize w 0, nat od, nat oh, nat ow],
              data = frame_output_data (view_weight_2d w) bias (U t) (tsize w 0) (nat (od * oh * ow))\<rparr>,
             \<lparr>sizes = [1, nat (int (tsize self 1) * kd * kh * kw), nat (od * oh * ow)],
              data = U t\<rparr>,
             fgrad_input))"
proof -
  have N: "0 < tsize self 0" using t by simp
  note d5 = shape_check_Inr_input(1) [OF ok]
  note ts = tsize_batch_item_rank5 [OF d5, of t]
  have ok': "slow_conv3d_shape_check (batch_item self t) None weight bias kd kh kw sd sh sw pd ph pw False = Inr ()"
    using shape_check_batch_item [OF ok N, of t] by simp
  define U' where "U' = (\<lambda>s. unfold_columns (select (batch_item self t) s)
                 (int (tsize (batch_item self t) 1)) (int (tsize (batch_item self t) 2))
                 (int (tsize (batch_item self t) 3)) (int (tsize (batch_item self t) 4))
                 od oh ow kd kh kw sd sh sw pd ph pw)"
  have U0: "U' 0 = U t"
    unfolding U'_def U ts by simp
  have compat': "tsize (view_weight_2d w) 1 = nat (int (tsize (batch_item self t) 1) * kd * kh * kw)"
    unfolding ts using compat .
  have od': "od = (int (tsize (batch_item self t) 2) + 2 * pd - kd) div sd + 1"
    and oh': "oh = (int (tsize (batch_item self t) 3) + 2 * ph - kh) div sh + 1"
    and ow': "ow = (int (tsize (batch_item self t) 4) + 2 * pw - kw) div sw + 1"
    unfolding ts using od oh ow by simp_all
  have up: "[0..<tsize (batch_item self t) 0] = [0]" by simp
  show ?thesis
    using forward_result [OF ok' wfo wff wfb w compat' od' oh' ow' U'_def, of mem fgrad_input]
    unfolding up ts by (simp add: U0)
qed

lemma backward_batch_item:
  fixes input :: "'a::semiring_1 Tensor"
  assumes ok: "slow_conv3d_shape_check input (Some grad_output) (Some w) None kd kh kw sd sh sw pd ph pw False = Inr ()"
    and wfg: "well_formed grad_input" and wff: "well_formed fgrad_input"
    and K: "K = tsize (view_weight_2d w) 1"
    and L: "L = tsize grad_output 2 * tsize grad_output 3 * tsize grad_output 4"
    and sf: "sizes finput = [Nf, K, L]"
    and t: "t < tsize input 0"
    and FGd: "FGd = (\<lambda>t. matmul_data K (tsize w 0) L (data (transpose2d (view_weight_2d w)))
                       (data (select grad_output t)))"
    and GId: "GId = (\<lambda>t. data (unfolded3d_acc_kernel_cpu \<lparr>sizes = [K, L], data = FGd t\<rparr>
                 \<lparr>sizes = tl (sizes input), data = replicate (prod_list (tl (sizes input))) 0\<rparr>
                 kd kh kw sd sh sw pd ph pw
                 (int (tsize input 1)) (int (tsize input 2)) (int (tsize input 3))
                 (int (tsize input 4))
                 (int (tsize grad_output 2)) (int (tsize grad_output 3))
                 (int (tsize grad_output 4))))"
  shows "\<exists>fg. slow_conv3d_backward_out_cpu_template mem grad_input (batch_item grad_output t)
           (batch_item input t) (Some w) (batch_item finput t) fgrad_input
           (kd, kh, kw) (sd, sh, sw) (pd, ph, pw)
         = (None, (\<lparr>sizes = 1 # tl (sizes input), data = GId t\<rparr>, fg))"
proof -
  have N: "0 < tsize input 0" using t by simp
  note c = shape_check_backward_ok [OF ok]
  note ti = tsize_batch_item_rank5 [OF c(2), of t]
  note tg = tsize_batch_item_rank5 [OF c(3), of t]
  have ok': "slow_conv3d_shape_check (batch_item input t) (Some (batch_item grad_output t)) (Some w) None
               kd kh kw sd sh sw pd ph pw False = Inr ()"
    using shape_check_batch_item [OF ok N, of t] by simp
  define FGd' where "FGd' = (\<lambda>s. matmul_data K (tsize w 0) L (data (transpose2d (view_weight_2d w)))
                       (data (select (batch_item grad_output t) s)))"
  define GId' where "GId' = (\<lambda>s. data (unfolded3d_acc_kernel_cpu \<lparr>sizes = [K, L], data = FGd' s\<rparr>
                 \<lparr>sizes = tl (sizes (batch_item input t)),
                   data = replicate (prod_list (tl (sizes (batch_item input t)))) 0\<rparr>
                 kd kh kw sd sh sw pd ph pw
                 (int (tsize (batch_item input t) 1)) (int (tsize (batch_item input t) 2))
                 (int (tsize (batch_item input t) 3)) (int (tsize (batch_item input t) 4))
                 (int (tsize (batch_item grad_output t) 2)) (int (tsize (batch_item grad_output t) 3))
                 (int (tsize (batch_item grad_output t) 4))))"
  have F0: "FGd' 0 = FGd t" unfolding FGd'_def FGd by simp
  have G0: "GId' 0 = GId t" unfolding GId'_def GId ti tg F0 by simp
  have L': "L = tsize (batch_item grad_output t) 2 * tsize (batch_item grad_output t) 3 *
                  tsize (batch_item grad_output t) 4"
    unfolding tg using L .
  have sf': "sizes (batch_item finput t) = [1, K, L]"
    using sf by (simp add: batch_item_def)
  have le: "tsize (batch_item input t) 0 \<le> tsize (batch_item grad_output t) 0"
    "tsize (batch_item input t) 0 \<le> 1"
    by simp_all
  have si: "sizes (batch_item input t) = 1 # tl (sizes input)"
    by (simp add: batch_item_def)
  from backward_result [OF ok' wfg wff K L' le(1) sf' le(2) FGd'_def GId'_def, of mem]
  show ?thesis
    unfolding si by (simp add: G0)
qed

subsection \<open>Batch independence\<close>

text \<open>
  Claim C7. A forward call on a batch that succeeds gives, for every batch item \<open>t\<close>, a
  successful forward call on the batch-of-1 slice \<open>batch_item self t\<close> (whatever output,
  column and scratch buffers and whatever uninitialised memory that call is given, as
  long as the buffers are well formed); the output of the slice has the sizes of the
  batch output with leading dimension 1, and the contents of the output and of the
  column buffer of the batch call are the concatenation, in batch order, of the contents
  produced by the calls on the slices. The same holds for the input-gradient pass
  \<^verbatim>\<open>slow_conv3d_backward_out_cpu_template\<close>, run on the slices of \<open>grad_output\<close>, of the
  input and of the column buffer \<open>finput\<close>: if the call on the batch succeeds, each call on
  a slice succeeds, and the input gradient of the batch is the concatenation of the
  input gradients of the slices.
\<close>

theorem batch_independence:
  fixes self :: "'a::semiring_1 Tensor"
  shows
  "(fst (slow_conv3d_forward_out_cpu mem output finput fgrad_input self weight (kd, kh, kw) bias
           (sd, sh, sw) (pd, ph, pw)) = None \<and>
    well_formed output \<and> well_formed finput \<and> (\<forall>b. bias = Some b \<longrightarrow> well_formed b) \<and>
    (\<forall>t<tsize self 0. well_formed (outs t) \<and> well_formed (fins t)) \<longrightarrow>
      (\<forall>t<tsize self 0.
         fst (slow_conv3d_forward_out_cpu (mems t) (outs t) (fins t) (fgs t) (batch_item self t)
                weight (kd, kh, kw) bias (sd, sh, sw) (pd, ph, pw)) = None \<and>
         sizes (fst (snd (slow_conv3d_forward_out_cpu (mems t) (outs t) (fins t) (fgs t)
                  (batch_item self t) weight (kd, kh, kw) bias (sd, sh, sw) (pd, ph, pw))))
           = 1 # tl (sizes (fst (snd (slow_conv3d_forward_out_cpu mem output finput fgrad_input
                  self weight (kd, kh, kw) bias (sd, sh, sw) (pd, ph, pw)))))) \<and>
      data (fst (snd (slow_conv3d_forward_out_cpu mem output finput fgrad_input self weight
              (kd, kh, kw) bias (sd, sh, sw) (pd, ph, pw))))
        = concat (map (\<lambda>t. data (fst (snd (slow_conv3d_forward_out_cpu (mems t) (outs t) (fins t)
                     (fgs t) (batch_item self t) weight (kd, kh, kw) bias (sd, sh, sw)
                     (pd, ph, pw))))) [0..<tsize self 0]) \<and>
      data (fst (snd (snd (slow_conv3d_forward_out_cpu mem output finput fgrad_input self weight
              (kd, kh, kw) bias (sd, sh, sw) (pd, ph, pw)))))
        = concat (map (\<lambda>t. data (fst (snd (snd (slow_conv3d_forward_out_cpu (mems t) (outs t)
                     (fins t) (fgs t) (batch_item self t) weight (kd, kh, kw) bias (sd, sh, sw)
                     (pd, ph, pw)))))) [0..<tsize self 0])) \<and>
   (fst (slow_conv3d_backward_out_cpu_template mem grad_input grad_output self weight finput
           fgrad_input (kd, kh, kw) (sd, sh, sw) (pd, ph, pw)) = None \<and>
    well_formed grad_input \<and> well_formed fgrad_input \<and>
    (\<forall>t<tsize self 0. well_formed (gis t) \<and> well_formed (fgis t)) \<longrightarrow>
      (\<forall>t<tsize self 0.
         fst (slow_conv3d_backward_out_cpu_template (mems t) (gis t) (batch_item grad_output t)
                (batch_item self t) weight (batch_item finput t) (fgis t)
                (kd, kh, kw) (sd, sh, sw) (pd, ph, pw)) = None \<and>
         sizes (fst (snd (slow_conv3d_backward_out_cpu_template (mems t) (gis t)
                  (batch_item grad_output t) (batch_item self t) weight (batch_item finput t)
                  (fgis t) (kd, kh, kw) (sd, sh, sw) (pd, ph, pw))))
           = 1 # tl (sizes (fst (snd (slow_conv3d_backward_out_cpu_template mem grad_input
                  grad_output self weight finput fgrad_input (kd, kh, kw) (sd, sh, sw)
                  (pd, ph, pw)))))) \<and>
      data (fst (snd (slow_conv3d_backward_out_cpu_template mem grad_input grad_output self weight
              finput fgrad_input (kd, kh, kw) (sd, sh, sw) (pd, ph, pw))))
        = concat (map (\<lambda>t. data (fst (snd (slow_conv3d_backward_out_cpu_template (mems t) (gis t)
                     (batch_item grad_output t) (batch_item self t) weight (batch_item finput t)
                     (fgis t) (kd, kh, kw) (sd, sh, sw) (pd, ph, pw))))) [0..<tsize self 0]))"
proof (intro conjI impI)
  define od where "od = (int (tsize self 2) + 2 * pd - kd) div sd + 1"
  define oh where "oh = (int (tsize self 3) + 2 * ph - kh) div sh + 1"
  define ow where "ow = (int (tsize self 4) + 2 * pw - kw) div sw + 1"
  define U where "U = (\<lambda>t. unfold_columns (select self t) (int (tsize self 1)) (int (tsize self 2))
                 (int (tsize self 3)) (int (tsize self 4)) od oh ow kd kh kw sd sh sw pd ph pw)"
  let ?R = "slow_conv3d_forward_out_cpu mem output finput fgrad_input self weight (kd, kh, kw) bias
           (sd, sh, sw) (pd, ph, pw)"
  let ?Rt = "\<lambda>t. slow_conv3d_forward_out_cpu (mems t) (outs t) (fins t) (fgs t) (batch_item self t)
                weight (kd, kh, kw) bias (sd, sh, sw) (pd, ph, pw)"
  assume A: "fst ?R = None \<and>
    well_formed output \<and> well_formed finput \<and> (\<forall>b. bias = Some b \<longrightarrow> well_formed b) \<and>
    (\<forall>t<tsize self 0. well_formed (outs t) \<and> well_formed (fins t))"
  then have succ: "fst ?R = None" and wfo: "well_formed output" and wff: "well_formed finput"
    and wfb: "\<And>b. bias = Some b \<Longrightarrow> well_formed b"
    and wft: "\<And>t. t < tsize self 0 \<Longrightarrow> well_formed (outs t) \<and> well_formed (fins t)"
    by simp_all
  from forward_success [OF succ wfo wff wfb od_def oh_def ow_def U_def]
  obtain w where w: "weight = Some w"
    and ok: "slow_conv3d_shape_check self None weight bias kd kh kw sd sh sw pd ph pw False = Inr ()"
    and compat: "tsize self 0 = 0 \<or>
           tsize (view_weight_2d w) 1 = nat (int (tsize self 1) * kd * kh * kw)"
    and R: "?R = (None,
              (\<lparr>sizes = [tsize self 0, tsize w 0, nat od, nat oh, nat ow],
                data = concat (map (\<lambda>t. frame_output_data (view_weight_2d w) bias (U t) (tsize w 0)
                                           (nat (od * oh * ow))) [0..<tsize self 0])\<rparr>,
               \<lparr>sizes = [tsize self 0, nat (int (tsize self 1) * kd * kh * kw), nat (od * oh * ow)],
                data = concat (map U [0..<tsize self 0])\<rparr>,
               fgrad_input))"
    by blast
  have Rt: "?Rt t = (None,
            (\<lparr>sizes = [1, tsize w 0, nat od, nat oh, nat ow],
              data = frame_output_data (view_weight_2d w) bias (U t) (tsize w 0) (nat (od * oh * ow))\<rparr>,
             \<lparr>sizes = [1, nat (int (tsize self 1) * kd * kh * kw), nat (od * oh * ow)],
              data = U t\<rparr>,
             fgs t))" if t: "t < tsize self 0" for t
  proof -
    from t compat have c: "tsize (view_weight_2d w) 1 = nat (int (tsize self 1) * kd * kh * kw)"
      by simp
    from wft [OF t] have "well_formed (outs t)" "well_formed (fins t)" by simp_all
    then show ?thesis
      by (rule forward_batch_item [OF ok _ _ wfb w c t od_def oh_def ow_def U_def])
  qed
  show "\<forall>t<tsize self 0. fst (?Rt t) = None \<and>
          sizes (fst (snd (?Rt t))) = 1 # tl (sizes (fst (snd ?R)))"
    using Rt R by simp
  have M1: "map (\<lambda>t. data (fst (snd (?Rt t)))) [0..<tsize self 0]
      = map (\<lambda>t. frame_output_data (view_weight_2d w) bias (U t) (tsize w 0) (nat (od * oh * ow)))
            [0..<tsize self 0]"
    by (rule map_cong) (simp_all add: Rt)
  have D1: "data (fst (snd ?R))
      = concat (map (\<lambda>t. frame_output_data (view_weight_2d w) bias (U t) (tsize w 0)
                           (nat (od * oh * ow))) [0..<tsize self 0])"
    using R by simp
  show "data (fst (snd ?R)) = concat (map (\<lambda>t. data (fst (snd (?Rt t)))) [0..<tsize self 0])"
    by (simp only: D1 M1)
  have M2: "map (\<lambda>t. data (fst (snd (snd (?Rt t))))) [0..<tsize self 0] = map U [0..<tsize self 0]"
    by (rule map_cong) (simp_all add: Rt)
  have D2: "data (fst (snd (snd ?R))) = concat (map U [0..<tsize self 0])"
    using R by simp
  show "data (fst (snd (snd ?R)))
      = concat (map (\<lambda>t. data (fst (snd (snd (?Rt t))))) [0..<tsize self 0])"
    by (simp only: D2 M2)
next
  let ?R = "slow_conv3d_backward_out_cpu_template mem grad_input grad_output self weight finput
           fgrad_input (kd, kh, kw) (sd, sh, sw) (pd, ph, pw)"
  let ?Rt = "\<lambda>t. slow_conv3d_backward_out_cpu_template (mems t) (gis t) (batch_item grad_output t)
                (batch_item self t) weight (batch_item finput t) (fgis t)
                (kd, kh, kw) (sd, sh, sw) (pd, ph, pw)"
  assume A: "fst ?R = None \<and> well_formed grad_input \<and> well_formed fgrad_input \<and>
    (\<forall>t<tsize self 0. well_formed (gis t) \<and> well_formed (fgis t))"
  then have succ: "fst ?R = None" and wfg: "well_formed grad_input" and wff: "well_formed fgrad_input"
    and wft: "\<And>t. t < tsize self 0 \<Longrightarrow> well_formed (gis t) \<and> well_formed (fgis t)"
    by simp_all
  have goal: "(\<forall>t<tsize self 0. fst (?Rt t) = None \<and>
                  sizes (fst (snd (?Rt t))) = 1 # tl (sizes (fst (snd ?R)))) \<and>
              data (fst (snd ?R)) = concat (map (\<lambda>t. data (fst (snd (?Rt t)))) [0..<tsize self 0])"
  proof (cases "tsize self 0 = 0")
    case True
    have ok0: "slow_conv3d_shape_check self (Some grad_output) weight None kd kh kw sd sh sw pd ph pw False = Inr ()"
    proof (cases "slow_conv3d_shape_check self (Some grad_output) weight None kd kh kw sd sh sw pd ph pw False")
      case (Inl e)
      from backward_template_check_failed [OF this] succ show ?thesis by simp
    next
      case (Inr u)
      then show ?thesis by simp
    qed
    from shape_check_backward_ok(1) [OF ok0] obtain w where w: "weight = Some w" by blast
    have ok: "slow_conv3d_shape_check self (Some grad_output) (Some w) None kd kh kw sd sh sw pd ph pw False = Inr ()"
      using ok0 w by simp
    have "length (data (resize_inplace mem grad_input (sizes self))) = prod_list (sizes self)"
      using wfg by (rule well_formed_resize)
    moreover have "sizes self = 0 # tl (sizes self)"
      using sizes_cons_tl [of self] shape_check_backward_ok(2) [OF ok0] True by simp
    ultimately have "data (resize_inplace mem grad_input (sizes self)) = []"
      by (metis length_0_conv mult_zero_left prod_list.Cons)
    then show ?thesis
      unfolding w backward_template_unfold [OF ok] True by simp
  next
    case False
    then have N: "0 < tsize self 0" by simp
    from backward_success_compat [OF succ N]
    obtain w where w: "weight = Some w"
      and ok: "slow_conv3d_shape_check self (Some grad_output) (Some w) None kd kh kw sd sh sw pd ph pw False = Inr ()"
      and Ng: "tsize self 0 \<le> tsize grad_output 0"
      and sf: "sizes finput = [tsize finput 0, tsize (view_weight_2d w) 1,
                           tsize grad_output 2 * tsize grad_output 3 * tsize grad_output 4]"
      and Nf: "tsize self 0 \<le> tsize finput 0"
      by blast
    define K where "K = tsize (view_weight_2d w) 1"
    define L where "L = tsize grad_output 2 * tsize grad_output 3 * tsize grad_output 4"
    define FGd where "FGd = (\<lambda>t. matmul_data K (tsize w 0) L (data (transpose2d (view_weight_2d w)))
                       (data (select grad_output t)))"
    define GId where "GId = (\<lambda>t. data (unfolded3d_acc_kernel_cpu \<lparr>sizes = [K, L], data = FGd t\<rparr>
                 \<lparr>sizes = tl (sizes self), data = replicate (prod_list (tl (sizes self))) 0\<rparr>
                 kd kh kw sd sh sw pd ph pw
                 (int (tsize self 1)) (int (tsize self 2)) (int (tsize self 3))
                 (int (tsize self 4))
                 (int (tsize grad_output 2)) (int (tsize grad_output 3))
                 (int (tsize grad_output 4))))"
    have sf': "sizes finput = [tsize finput 0, K, L]"
      using sf by (simp add: K_def L_def)
    from backward_result [OF ok wfg wff K_def L_def Ng sf' Nf FGd_def GId_def, of mem]
    obtain fg where R: "?R = (None, (\<lparr>sizes = sizes self, data = concat (map GId [0..<tsize self 0])\<rparr>, fg))"
      unfolding w by blast
    have Rt: "\<exists>fg. ?Rt t = (None, (\<lparr>sizes = 1 # tl (sizes self), data = GId t\<rparr>, fg))"
      if t: "t < tsize self 0" for t
    proof -
      from wft [OF t] have "well_formed (gis t)" "well_formed (fgis t)" by simp_all
      then show ?thesis
        unfolding w
        by (rule backward_batch_item [OF ok _ _ K_def L_def sf' t FGd_def GId_def])
    qed
    have Rt1: "fst (?Rt t) = None" "fst (snd (?Rt t)) = \<lparr>sizes = 1 # tl (sizes self), data = GId t\<rparr>"
      if t: "t < tsize self 0" for t
      using Rt [OF t] by auto
    have M: "map (\<lambda>t. data (fst (snd (?Rt t)))) [0..<tsize self 0] = map GId [0..<tsize self 0]"
      by (rule map_cong) (simp_all add: Rt1)
    have D: "data (fst (snd ?R)) = concat (map GId [0..<tsize self 0])"
      using R by simp
    have S: "sizes (fst (snd ?R)) = sizes self"
      using R by simp
    have "data (fst (snd ?R)) = concat (map (\<lambda>t. data (fst (snd (?Rt t)))) [0..<tsize self 0])"
      by (simp only: D M)
    moreover have "\<forall>t<tsize self 0. fst (?Rt t) = None \<and>
                  sizes (fst (snd (?Rt t))) = 1 # tl (sizes (fst (snd ?R)))"
      using Rt1 S by simp
    ultimately show ?thesis by blast
  qed
  from goal show "\<forall>t<tsize self 0. fst (?Rt t) = None \<and>
                  sizes (fst (snd (?Rt t))) = 1 # tl (sizes (fst (snd ?R)))"
    by blast
  from goal show "data (fst (snd ?R)) = concat (map (\<lambda>t. data (fst (snd (?Rt t)))) [0..<tsize self 0])"
    by blast
qed

theorem batch_independence_witness:
  "fst (slow_conv3d_forward_out_cpu (\<lambda>i. 0) \<lparr>sizes = [0], data = []\<rparr> \<lparr>sizes = [0], data = []\<rparr> \<lparr>sizes = [0], data = []\<rparr>
        \<lparr>sizes = [2, 1, 1, 1, 2], data = [1, 2, 3, 4 :: int]\<rparr>
        (Some \<lparr>sizes = [1, 1, 1, 1, 2], data = [1, 10]\<rparr>) (1, 1, 2) None (1, 1, 1) (0, 0, 0)) = None \<and>
   fst (slow_conv3d_forward_out_cpu (\<lambda>i. 0) \<lparr>sizes = [0], data = []\<rparr> \<lparr>sizes = [0], data = []\<rparr> \<lparr>sizes = [0], data = []\<rparr>
        (batch_item \<lparr>sizes = [2, 1, 1, 1, 2], data = [1, 2, 3, 4 :: int]\<rparr> 0)
        (Some \<lparr>sizes = [1, 1, 1, 1, 2], data = [1, 10]\<rparr>) (1, 1, 2) None (1, 1, 1) (0, 0, 0)) = None \<and>
   fst (slow_conv3d_forward_out_cpu (\<lambda>i. 0) \<lparr>sizes = [0], data = []\<rparr> \<lparr>sizes = [0], data = []\<rparr> \<lparr>sizes = [0], data = []\<rparr>
        (batch_item \<lparr>sizes = [2, 1, 1, 1, 2], data = [1, 2, 3, 4 :: int]\<rparr> 1)
        (Some \<lparr>sizes = [1, 1, 1, 1, 2], data = [1, 10]\<rparr>) (1, 1, 2) None (1, 1, 1) (0, 0, 0)) = None \<and>
   data (fst (snd (slow_conv3d_forward_out_cpu (\<lambda>i. 0) \<lparr>sizes = [0], data = []\<rparr> \<lparr>sizes = [0], data = []\<rparr> \<lparr>sizes = [0], data = []\<rparr>
        \<lparr>sizes = [2, 1, 1, 1, 2], data = [1, 2, 3, 4 :: int]\<rparr>
        (Some \<lparr>sizes = [1, 1, 1, 1, 2], data = [1, 10]\<rparr>) (1, 1, 2) None (1, 1, 1) (0, 0, 0))))
     = data (fst (snd (slow_conv3d_forward_out_cpu (\<lambda>i. 0) \<lparr>sizes = [0], data = []\<rparr> \<lparr>sizes = [0], data = []\<rparr> \<lparr>sizes = [0], data = []\<rparr>
        (batch_item \<lparr>sizes = [2, 1, 1, 1, 2], data = [1, 2, 3, 4 :: int]\<rparr> 0)
        (Some \<lparr>sizes = [1, 1, 1, 1, 2], data = [1, 10]\<rparr>) (1, 1, 2) None (1, 1, 1) (0, 0, 0))))
       @ data (fst (snd (slow_conv3d_forward_out_cpu (\<lambda>i. 0) \<lparr>sizes = [0], data = []\<rparr> \<lparr>sizes = [0], data = []\<rparr> \<lparr>sizes = [0], data = []\<rparr>
        (batch_item \<lparr>sizes = [2, 1, 1, 1, 2], data = [1, 2, 3, 4 :: int]\<rparr> 1)
        (Some \<lparr>sizes = [1, 1, 1, 1, 2], data = [1, 10]\<rparr>) (1, 1, 2) None (1, 1, 1) (0, 0, 0)))) \<and>
   data (fst (snd (snd (slow_conv3d_forward_out_cpu (\<lambda>i. 0) \<lparr>sizes = [0], data = []\<rparr> \<lparr>sizes = [0], data = []\<rparr> \<lparr>sizes = [0], data = []\<rparr>
        \<lparr>sizes = [2, 1, 1, 1, 2], data = [1, 2, 3, 4 :: int]\<rparr>
        (Some \<lparr>sizes = [1, 1, 1, 1, 2], data = [1, 10]\<rparr>) (1, 1, 2) None (1, 1, 1) (0, 0, 0)))))
     = data (fst (snd (snd (slow_conv3d_forward_out_cpu (\<lambda>i. 0) \<lparr>sizes = [0], data = []\<rparr> \<lparr>sizes = [0], data = []\<rparr> \<lparr>sizes = [0], data = []\<rparr>
        (batch_item \<lparr>sizes = [2, 1, 1, 1, 2], data = [1, 2, 3, 4 :: int]\<rparr> 0)
        (Some \<lparr>sizes = [1, 1, 1, 1, 2], data = [1, 10]\<rparr>) (1, 1, 2) None (1, 1, 1) (0, 0, 0)))))
       @ data (fst (snd (snd (slow_conv3d_forward_out_cpu (\<lambda>i. 0) \<lparr>sizes = [0], data = []\<rparr> \<lparr>sizes = [0], data = []\<rparr> \<lparr>sizes = [0], data = []\<rparr>
        (batch_item \<lparr>sizes = [2, 1, 1, 1, 2], data = [1, 2, 3, 4 :: int]\<rparr> 1)
        (Some \<lparr>sizes = [1, 1, 1, 1, 2], data = [1, 10]\<rparr>) (1, 1, 2) None (1, 1, 1) (0, 0, 0))))) \<and>
   fst (slow_conv3d_backward_out_cpu_template (\<lambda>i. 0) \<lparr>sizes = [0], data = []\<rparr> \<lparr>sizes = [2, 1, 1, 1, 1], data = [5, 7 :: int]\<rparr>
        \<lparr>sizes = [2, 1, 1, 1, 2], data = [1, 2, 3, 4 :: int]\<rparr>
        (Some \<lparr>sizes = [1, 1, 1, 1, 2], data = [1, 10]\<rparr>) \<lparr>sizes = [2, 2, 1], data = [1, 2, 3, 4 :: int]\<rparr> \<lparr>sizes = [0], data = []\<rparr> (1, 1, 2) (1, 1, 1) (0, 0, 0)) = None \<and>
   fst (slow_conv3d_backward_out_cpu_template (\<lambda>i. 0) \<lparr>sizes = [0], data = []\<rparr> (batch_item \<lparr>sizes = [2, 1, 1, 1, 1], data = [5, 7 :: int]\<rparr> 0)
        (batch_item \<lparr>sizes = [2, 1, 1, 1, 2], data = [1, 2, 3, 4 :: int]\<rparr> 0)
        (Some \<lparr>sizes = [1, 1, 1, 1, 2], data = [1, 10]\<rparr>) (batch_item \<lparr>sizes = [2, 2, 1], data = [1, 2, 3, 4 :: int]\<rparr> 0) \<lparr>sizes = [0], data = []\<rparr> (1, 1, 2) (1, 1, 1) (0, 0, 0)) = None \<and>
   fst (slow_conv3d_backward_out_cpu_template (\<lambda>i. 0) \<lparr>sizes = [0], data = []\<rparr> (batch_item \<lparr>sizes = [2, 1, 1, 1, 1], data = [5, 7 :: int]\<rparr> 1)
        (batch_item \<lparr>sizes = [2, 1, 1, 1, 2], data = [1, 2, 3, 4 :: int]\<rparr> 1)
        (Some \<lparr>sizes = [1, 1, 1, 1, 2], data = [1, 10]\<rparr>) (batch_item \<lparr>sizes = [2, 2, 1], data = [1, 2, 3, 4 :: int]\<rparr> 1) \<lparr>sizes = [0], data = []\<rparr> (1, 1, 2) (1, 1, 1) (0, 0, 0)) = None \<and>
   data (fst (snd (slow_conv3d_backward_out_cpu_template (\<lambda>i. 0) \<lparr>sizes = [0], data = []\<rparr> \<lparr>sizes = [2, 1, 1, 1, 1], data = [5, 7 :: int]\<rparr>
        \<lparr>sizes = [2, 1, 1, 1, 2], data = [1, 2, 3, 4 :: int]\<rparr>
        (Some \<lparr>sizes = [1, 1, 1, 1, 2], data = [1, 10]\<rparr>) \<lparr>sizes = [2, 2, 1], data = [1, 2, 3, 4 :: int]\<rparr> \<lparr>sizes = [0], data = []\<rparr> (1, 1, 2) (1, 1, 1) (0, 0, 0))))
     = data (fst (snd (slow_conv3d_backward_out_cpu_template (\<lambda>i. 0) \<lparr>sizes = [0], data = []\<rparr> (batch_item \<lparr>sizes = [2, 1, 1, 1, 1], data = [5, 7 :: int]\<rparr> 0)
        (batch_item \<lparr>sizes = [2, 1, 1, 1, 2], data = [1, 2, 3, 4 :: int]\<rparr> 0)
        (Some \<lparr>sizes = [1, 1, 1, 1, 2], data = [1, 10]\<rparr>) (batch_item \<lparr>sizes = [2, 2, 1], data = [1, 2, 3, 4 :: int]\<rparr> 0) \<lparr>sizes = [0], data = []\<rparr> (1, 1, 2) (1, 1, 1) (0, 0, 0))))
       @ data (fst (snd (slow_conv3d_backward_out_cpu_template (\<lambda>i. 0) \<lparr>sizes = [0], data = []\<rparr> (batch_item \<lparr>sizes = [2, 1, 1, 1, 1], data = [5, 7 :: int]\<rparr> 1)
        (batch_item \<lparr>sizes = [2, 1, 1, 1, 2], data = [1, 2, 3, 4 :: int]\<rparr> 1)
        (Some \<lparr>sizes = [1, 1, 1, 1, 2], data = [1, 10]\<rparr>) (batch_item \<lparr>sizes = [2, 2, 1], data = [1, 2, 3, 4 :: int]\<rparr> 1) \<lparr>sizes = [0], data = []\<rparr> (1, 1, 2) (1, 1, 1) (0, 0, 0))))"
proof -
  have f: "fst (slow_conv3d_forward_out_cpu (\<lambda>i. 0) \<lparr>sizes = [0], data = []\<rparr> \<lparr>sizes = [0], data = []\<rparr> \<lparr>sizes = [0], data = []\<rparr>
        \<lparr>sizes = [2, 1, 1, 1, 2], data = [1, 2, 3, 4 :: int]\<rparr>
        (Some \<lparr>sizes = [1, 1, 1, 1, 2], data = [1, 10]\<rparr>) (1, 1, 2) None (1, 1, 1) (0, 0, 0)) = None"
    by code_simp
  have b: "fst (slow_conv3d_backward_out_cpu_template (\<lambda>i. 0) \<lparr>sizes = [0], data = []\<rparr> \<lparr>sizes = [2, 1, 1, 1, 1], data = [5, 7 :: int]\<rparr>
        \<lparr>sizes = [2, 1, 1, 1, 2], data = [1, 2, 3, 4 :: int]\<rparr>
        (Some \<lparr>sizes = [1, 1, 1, 1, 2], data = [1, 10]\<rparr>) \<lparr>sizes = [2, 2, 1], data = [1, 2, 3, 4 :: int]\<rparr> \<lparr>sizes = [0], data = []\<rparr> (1, 1, 2) (1, 1, 1) (0, 0, 0)) = None"
    by code_simp
  have wf: "well_formed (\<lparr>sizes = [0], data = []\<rparr> :: int Tensor)"
    by (simp add: well_formed_def numel_def)
  have N: "tsize \<lparr>sizes = [2, 1, 1, 1, 2], data = [1, 2, 3, 4 :: int]\<rparr> 0 = 2"
    by (simp add: tsize_def)
  have upt: "[0..<2] = [0, 1]"
    by code_simp
  have lt: "(0::nat) < 2" "(1::nat) < 2"
    by simp_all
  from batch_independence [of "\<lambda>i. 0" "\<lparr>sizes = [0], data = []\<rparr>"
      "\<lparr>sizes = [0], data = []\<rparr>" "\<lparr>sizes = [0], data = []\<rparr>"
      "\<lparr>sizes = [2, 1, 1, 1, 2], data = [1, 2, 3, 4 :: int]\<rparr>"
      "Some \<lparr>sizes = [1, 1, 1, 1, 2], data = [1, 10]\<rparr>" 1 1 2 None 1 1 1 0 0 0
      "\<lambda>t. \<lparr>sizes = [0], data = []\<rparr>" "\<lambda>t. \<lparr>sizes = [0], data = []\<rparr>" "\<lambda>t i. 0" "\<lambda>t. \<lparr>sizes = [0], data = []\<rparr>"
      "\<lparr>sizes = [0], data = []\<rparr>" "\<lparr>sizes = [2, 1, 1, 1, 1], data = [5, 7 :: int]\<rparr>"
      "\<lambda>t. \<lparr>sizes = [0], data = []\<rparr>" "\<lambda>t. \<lparr>sizes = [0], data = []\<rparr>",
      unfolded N upt]
    f wf
  have F: "(\<forall>t<2. fst (slow_conv3d_forward_out_cpu (\<lambda>i. 0) \<lparr>sizes = [0], data = []\<rparr> \<lparr>sizes = [0], data = []\<rparr> \<lparr>sizes = [0], data = []\<rparr>
        (batch_item \<lparr>sizes = [2, 1, 1, 1, 2], data = [1, 2, 3, 4 :: int]\<rparr> t)
        (Some \<lparr>sizes = [1, 1, 1, 1, 2], data = [1, 10]\<rparr>) (1, 1, 2) None (1, 1, 1) (0, 0, 0)) = None) \<and>
    data (fst (snd (slow_conv3d_forward_out_cpu (\<lambda>i. 0) \<lparr>sizes = [0], data = []\<rparr> \<lparr>sizes = [0], data = []\<rparr> \<lparr>sizes = [0], data = []\<rparr>
        \<lparr>sizes = [2, 1, 1, 1, 2], data = [1, 2, 3, 4 :: int]\<rparr>
        (Some \<lparr>sizes = [1, 1, 1, 1, 2], data = [1, 10]\<rparr>) (1, 1, 2) None (1, 1, 1) (0, 0, 0))))
     = data (fst (snd (slow_conv3d_forward_out_cpu (\<lambda>i. 0) \<lparr>sizes = [0], data = []\<rparr> \<lparr>sizes = [0], data = []\<rparr> \<lparr>sizes = [0], data = []\<rparr>
        (batch_item \<lparr>sizes = [2, 1, 1, 1, 2], data = [1, 2, 3, 4 :: int]\<rparr> 0)
        (Some \<lparr>sizes = [1, 1, 1, 1, 2], data = [1, 10]\<rparr>) (1, 1, 2) None (1, 1, 1) (0, 0, 0))))
       @ data (fst (snd (slow_conv3d_forward_out_cpu (\<lambda>i. 0) \<lparr>sizes = [0], data = []\<rparr> \<lparr>sizes = [0], data = []\<rparr> \<lparr>sizes = [0], data = []\<rparr>
        (batch_item \<lparr>sizes = [2, 1, 1, 1, 2], data = [1, 2, 3, 4 :: int]\<rparr> 1)
        (Some \<lparr>sizes = [1, 1, 1, 1, 2], data = [1, 10]\<rparr>) (1, 1, 2) None (1, 1, 1) (0, 0, 0)))) \<and>
    data (fst (snd (snd (slow_conv3d_forward_out_cpu (\<lambda>i. 0) \<lparr>sizes = [0], data = []\<rparr> \<lparr>sizes = [0], data = []\<rparr> \<lparr>sizes = [0], data = []\<rparr>
        \<lparr>sizes = [2, 1, 1, 1, 2], data = [1, 2, 3, 4 :: int]\<rparr>
        (Some \<lparr>sizes = [1, 1, 1, 1, 2], data = [1, 10]\<rparr>) (1, 1, 2) None (1, 1, 1) (0, 0, 0)))))
     = data (fst (snd (snd (slow_conv3d_forward_out_cpu (\<lambda>i. 0) \<lparr>sizes = [0], data = []\<rparr> \<lparr>sizes = [0], data = []\<rparr> \<lparr>sizes = [0], data = []\<rparr>
        (batch_item \<lparr>sizes = [2, 1, 1, 1, 2], data = [1, 2, 3, 4 :: int]\<rparr> 0)
        (Some \<lparr>sizes = [1, 1, 1, 1, 2], data = [1, 10]\<rparr>) (1, 1, 2) None (1, 1, 1) (0, 0, 0)))))
       @ data (fst (snd (snd (slow_conv3d_forward_out_cpu (\<lambda>i. 0) \<lparr>sizes = [0], data = []\<rparr> \<lparr>sizes = [0], data = []\<rparr> \<lparr>sizes = [0], data = []\<rparr>
        (batch_item \<lparr>sizes = [2, 1, 1, 1, 2], data = [1, 2, 3, 4 :: int]\<rparr> 1)
        (Some \<lparr>sizes = [1, 1, 1, 1, 2], data = [1, 10]\<rparr>) (1, 1, 2) None (1, 1, 1) (0, 0, 0)))))"
    by simp
  from batch_independence [of "\<lambda>i. 0" "\<lparr>sizes = [0], data = []\<rparr>"
      "\<lparr>sizes = [2, 2, 1], data = [1, 2, 3, 4 :: int]\<rparr>" "\<lparr>sizes = [0], data = []\<rparr>"
      "\<lparr>sizes = [2, 1, 1, 1, 2], data = [1, 2, 3, 4 :: int]\<rparr>"
      "Some \<lparr>sizes = [1, 1, 1, 1, 2], data = [1, 10]\<rparr>" 1 1 2 None 1 1 1 0 0 0
      "\<lambda>t. \<lparr>sizes = [0], data = []\<rparr>" "\<lambda>t. \<lparr>sizes = [0], data = []\<rparr>" "\<lambda>t i. 0" "\<lambda>t. \<lparr>sizes = [0], data = []\<rparr>"
      "\<lparr>sizes = [0], data = []\<rparr>" "\<lparr>sizes = [2, 1, 1, 1, 1], data = [5, 7 :: int]\<rparr>"
      "\<lambda>t. \<lparr>sizes = [0], data = []\<rparr>" "\<lambda>t. \<lparr>sizes = [0], data = []\<rparr>",
      unfolded N upt]
    b wf
  have B: "(\<forall>t<2. fst (slow_conv3d_backward_out_cpu_template (\<lambda>i. 0) \<lparr>sizes = [0], data = []\<rparr> (batch_item \<lparr>sizes = [2, 1, 1, 1, 1], data = [5, 7 :: int]\<rparr> t)
        (batch_item \<lparr>sizes = [2, 1, 1, 1, 2], data = [1, 2, 3, 4 :: int]\<rparr> t)
        (Some \<lparr>sizes = [1, 1, 1, 1, 2], data = [1, 10]\<rparr>) (batch_item \<lparr>sizes = [2, 2, 1], data = [1, 2, 3, 4 :: int]\<rparr> t) \<lparr>sizes = [0], data = []\<rparr> (1, 1, 2) (1, 1, 1) (0, 0, 0)) = None) \<and>
    data (fst (snd (slow_conv3d_backward_out_cpu_template (\<lambda>i. 0) \<lparr>sizes = [0], data = []\<rparr> \<lparr>sizes = [2, 1, 1, 1, 1], data = [5, 7 :: int]\<rparr>
        \<lparr>sizes = [2, 1, 1, 1, 2], data = [1, 2, 3, 4 :: int]\<rparr>
        (Some \<lparr>sizes = [1, 1, 1, 1, 2], data = [1, 10]\<rparr>) \<lparr>sizes = [2, 2, 1], data = [1, 2, 3, 4 :: int]\<rparr> \<lparr>sizes = [0], data = []\<rparr> (1, 1, 2) (1, 1, 1) (0, 0, 0))))
     = data (fst (snd (slow_conv3d_backward_out_cpu_template (\<lambda>i. 0) \<lparr>sizes = [0], data = []\<rparr> (batch_item \<lparr>sizes = [2, 1, 1, 1, 1], data = [5, 7 :: int]\<rparr> 0)
        (batch_item \<lparr>sizes = [2, 1, 1, 1, 2], data = [1, 2, 3, 4 :: int]\<rparr> 0)
        (Some \<lparr>sizes = [1, 1, 1, 1, 2], data = [1, 10]\<rparr>) (batch_item \<lparr>sizes = [2, 2, 1], data = [1, 2, 3, 4 :: int]\<rparr> 0) \<lparr>sizes = [0], data = []\<rparr> (1, 1, 2) (1, 1, 1) (0, 0, 0))))
       @ data (fst (snd (slow_conv3d_backward_out_cpu_template (\<lambda>i. 0) \<lparr>sizes = [0], data = []\<rparr> (batch_item \<lparr>sizes = [2, 1, 1, 1, 1], data = [5, 7 :: int]\<rparr> 1)
        (batch_item \<lparr>sizes = [2, 1, 1, 1, 2], data = [1, 2, 3, 4 :: int]\<rparr> 1)
        (Some \<lparr>sizes = [1, 1, 1, 1, 2], data = [1, 10]\<rparr>) (batch_item \<lparr>sizes = [2, 2, 1], data = [1, 2, 3, 4 :: int]\<rparr> 1) \<lparr>sizes = [0], data = []\<rparr> (1, 1, 2) (1, 1, 1) (0, 0, 0))))"
    by simp
  from F lt B f b show ?thesis
    by blast
qed

end
